theory Spec2Isabelle
  imports Complex_Main
begin

section \<open>Lebedev-Laikov angular grids: the program\<close>

text \<open>
  The C file \<^verbatim>\<open>lebedev-laikov.c\<close> holds one expander, \<^verbatim>\<open>gen_oh\<close>, thirty-two
  straight-line routines \<^verbatim>\<open>ld0006\<close> ... \<^verbatim>\<open>ld5810\<close> that call it with literal
  constants, and the dispatcher \<^verbatim>\<open>leb_order_routing\<close>.

  Conventions of the embedding:
  \<^item> a C \<^verbatim>\<open>double\<close> is a \<^typ>\<open>real\<close>: a decimal literal denotes its exact decimal
    value and \<^verbatim>\<open>sqrt\<close> is the real square root (for a negative radicand C yields NaN,
    which the reals do not have; the statements below about coordinates either assume a
    non-negative radicand or do not depend on the value of the root);
  \<^item> a C \<^verbatim>\<open>int\<close> that is only compared with constants (\<^verbatim>\<open>code\<close>, \<^verbatim>\<open>order\<close>) is an
    \<^typ>\<open>int\<close>; the running count \<^verbatim>\<open>n\<close> and the returned count are \<^typ>\<open>nat\<close> (they
    never exceed 5810);
  \<^item> the four caller-allocated arrays are four lists, whose lengths are the capacities;
    they are taken to be four distinct arrays. The pointer \<^verbatim>\<open>x + n\<close> is the pair of the
    array and the offset \<^verbatim>\<open>n\<close>. A store beyond the capacity is undefined behaviour in C
    and is the fault \<open>Buffer_Overrun\<close> here;
  \<^item> \<^verbatim>\<open>fprintf(stderr, ...)\<close> appends to the field \<open>stderr\<close> of the state.
\<close>

datatype fault = Buffer_Overrun

record mem =
  xbuf :: "real list"
  ybuf :: "real list"
  zbuf :: "real list"
  wbuf :: "real list"
  stderr :: string

type_synonym point = "real \<times> real \<times> real \<times> real"

text \<open>The four stores \<^verbatim>\<open>x[i] = px; y[i] = py; z[i] = pz; w[i] = pw;\<close> at one index.\<close>

fun put_point :: "nat \<Rightarrow> point \<Rightarrow> mem \<Rightarrow> mem" where
  "put_point i (px, py, pz, pw) m =
     m\<lparr>xbuf := (xbuf m)[i := px], ybuf := (ybuf m)[i := py],
       zbuf := (zbuf m)[i := pz], wbuf := (wbuf m)[i := pw]\<rparr>"

fun put_points :: "nat \<Rightarrow> point list \<Rightarrow> mem \<Rightarrow> mem" where
  "put_points i [] m = m"
| "put_points i (p # ps) m = put_points (Suc i) ps (put_point i p m)"

definition room :: "nat \<Rightarrow> nat \<Rightarrow> mem \<Rightarrow> bool" where
  "room off k m \<longleftrightarrow>
     off + k \<le> length (xbuf m) \<and> off + k \<le> length (ybuf m) \<and>
     off + k \<le> length (zbuf m) \<and> off + k \<le> length (wbuf m)"

text \<open>
  A branch of \<^verbatim>\<open>gen_oh\<close>: the stores at indices \<open>0, 1, ...\<close> relative to the offset, in
  source order, followed by \<^verbatim>\<open>num = k\<close>. The count is the literal of the source, not the
  length of the list.
\<close>

definition store :: "nat \<Rightarrow> point list \<Rightarrow> nat \<Rightarrow> mem \<Rightarrow> fault + nat \<times> mem" where
  "store off ps num m =
     (if room off (length ps) m then Inr (num, put_points off ps m) else Inl Buffer_Overrun)"

subsection \<open>The six branches of \<^verbatim>\<open>gen_oh\<close>\<close>

text \<open>Row \<open>i\<close> of each list is \<^verbatim>\<open>(x[i], y[i], z[i], w[i])\<close> as the branch assigns it.\<close>

definition code1_points :: "real \<Rightarrow> real \<Rightarrow> point list" where
  "code1_points a v =
    [(a, 0, 0, v),
     (- a, 0, 0, v),
     (0, a, 0, v),
     (0, - a, 0, v),
     (0, 0, a, v),
     (0, 0, - a, v)]"

definition code2_points :: "real \<Rightarrow> real \<Rightarrow> point list" where
  "code2_points a v =
    [(0, a, a, v),
     (0, - a, a, v),
     (0, a, - a, v),
     (0, - a, - a, v),
     (a, 0, a, v),
     (- a, 0, a, v),
     (a, 0, - a, v),
     (- a, 0, - a, v),
     (a, a, 0, v),
     (- a, a, 0, v),
     (a, - a, 0, v),
     (- a, - a, 0, v)]"

definition code3_points :: "real \<Rightarrow> real \<Rightarrow> point list" where
  "code3_points a v =
    [(a, a, a, v),
     (- a, a, a, v),
     (a, - a, a, v),
     (- a, - a, a, v),
     (a, a, - a, v),
     (- a, a, - a, v),
     (a, - a, - a, v),
     (- a, - a, - a, v)]"

definition code4_points :: "real \<Rightarrow> real \<Rightarrow> real \<Rightarrow> point list" where
  "code4_points a b v =
    [(a, a, b, v),
     (- a, a, b, v),
     (a, - a, b, v),
     (- a, - a, b, v),
     (a, a, - b, v),
     (- a, a, - b, v),
     (a, - a, - b, v),
     (- a, - a, - b, v),
     (a, b, a, v),
     (- a, b, a, v),
     (a, - b, a, v),
     (- a, - b, a, v),
     (a, b, - a, v),
     (- a, b, - a, v),
     (a, - b, - a, v),
     (- a, - b, - a, v),
     (b, a, a, v),
     (- b, a, a, v),
     (b, - a, a, v),
     (- b, - a, a, v),
     (b, a, - a, v),
     (- b, a, - a, v),
     (b, - a, - a, v),
     (- b, - a, - a, v)]"

definition code5_points :: "real \<Rightarrow> real \<Rightarrow> real \<Rightarrow> point list" where
  "code5_points a b v =
    [(a, b, 0, v),
     (- a, b, 0, v),
     (a, - b, 0, v),
     (- a, - b, 0, v),
     (b, a, 0, v),
     (- b, a, 0, v),
     (b, - a, 0, v),
     (- b, - a, 0, v),
     (a, 0, b, v),
     (- a, 0, b, v),
     (a, 0, - b, v),
     (- a, 0, - b, v),
     (b, 0, a, v),
     (- b, 0, a, v),
     (b, 0, - a, v),
     (- b, 0, - a, v),
     (0, a, b, v),
     (0, - a, b, v),
     (0, a, - b, v),
     (0, - a, - b, v),
     (0, b, a, v),
     (0, - b, a, v),
     (0, b, - a, v),
     (0, - b, - a, v)]"

definition code6_points :: "real \<Rightarrow> real \<Rightarrow> real \<Rightarrow> real \<Rightarrow> point list" where
  "code6_points a b c v =
    [(a, b, c, v),
     (- a, b, c, v),
     (a, - b, c, v),
     (- a, - b, c, v),
     (a, b, - c, v),
     (- a, b, - c, v),
     (a, - b, - c, v),
     (- a, - b, - c, v),
     (a, c, b, v),
     (- a, c, b, v),
     (a, - c, b, v),
     (- a, - c, b, v),
     (a, c, - b, v),
     (- a, c, - b, v),
     (a, - c, - b, v),
     (- a, - c, - b, v),
     (b, a, c, v),
     (- b, a, c, v),
     (b, - a, c, v),
     (- b, - a, c, v),
     (b, a, - c, v),
     (- b, a, - c, v),
     (b, - a, - c, v),
     (- b, - a, - c, v),
     (b, c, a, v),
     (- b, c, a, v),
     (b, - c, a, v),
     (- b, - c, a, v),
     (b, c, - a, v),
     (- b, c, - a, v),
     (b, - c, - a, v),
     (- b, - c, - a, v),
     (c, a, b, v),
     (- c, a, b, v),
     (c, - a, b, v),
     (- c, - a, b, v),
     (c, a, - b, v),
     (- c, a, - b, v),
     (c, - a, - b, v),
     (- c, - a, - b, v),
     (c, b, a, v),
     (- c, b, a, v),
     (c, - b, a, v),
     (- c, - b, a, v),
     (c, b, - a, v),
     (- c, b, - a, v),
     (c, - b, - a, v),
     (- c, - b, - a, v)]"

definition gen_oh_msg :: string where
  "gen_oh_msg = CHR 0x0A # ''GEN_OH - Fatal error!'' @ CHR 0x0A # ''Illegal value of code.'' @ [CHR 0x0A]"

text \<open>
  \<^verbatim>\<open>int gen_oh(int code, double a, double b, double v, double *x, double *y, double *z, double *w)\<close>.
  The last branch prints and executes \<^verbatim>\<open>return 1; //exit(1);\<close>.
\<close>

definition gen_oh :: "int \<Rightarrow> real \<Rightarrow> real \<Rightarrow> real \<Rightarrow> nat \<Rightarrow> mem \<Rightarrow> fault + nat \<times> mem" where
  "gen_oh code a b v off m =
     (if code = 1 then (let a = 1 in store off (code1_points a v) 6 m)
      else if code = 2 then (let a = sqrt 0.5 in store off (code2_points a v) 12 m)
      else if code = 3 then (let a = sqrt (1 / 3) in store off (code3_points a v) 8 m)
      else if code = 4 then (let b = sqrt (1 - 2 * a * a) in store off (code4_points a b v) 24 m)
      else if code = 5 then (let b = sqrt (1 - a * a) in store off (code5_points a b v) 24 m)
      else if code = 6 then (let c = sqrt (1 - a * a - b * b) in store off (code6_points a b c v) 48 m)
      else Inr (1, m\<lparr>stderr := stderr m @ gen_oh_msg\<rparr>))"

subsection \<open>The rule routines\<close>

text \<open>
  Every routine \<^verbatim>\<open>ldNNNN\<close> has the same shape: the locals
  \<^verbatim>\<open>double a = 0.0; double b = 0.0; double v; int n = 0;\<close>, then a straight-line block of
  assignments \<^verbatim>\<open>a = ...;\<close>, \<^verbatim>\<open>b = ...;\<close>, \<^verbatim>\<open>v = ...;\<close> and calls
  \<^verbatim>\<open>n = n + gen_oh(code, a, b, v, x + n, y + n, z + n, w + n);\<close>, then \<^verbatim>\<open>return n;\<close>.
  The block is kept as the list of its statements in source order (one call and the
  assignments before it per line), and \<open>ld_routine\<close> runs it. The local \<^verbatim>\<open>v\<close> is
  uninitialised in C; it starts at 0 here, and every block assigns it before its first call.
\<close>

datatype stmt = Assign_a real | Assign_b real | Assign_v real | Call_gen_oh int

record locals =
  var_a :: real
  var_b :: real
  var_v :: real
  var_n :: nat

fun exec :: "stmt \<Rightarrow> locals \<Rightarrow> mem \<Rightarrow> fault + locals \<times> mem" where
  "exec (Assign_a r) l m = Inr (l\<lparr>var_a := r\<rparr>, m)"
| "exec (Assign_b r) l m = Inr (l\<lparr>var_b := r\<rparr>, m)"
| "exec (Assign_v r) l m = Inr (l\<lparr>var_v := r\<rparr>, m)"
| "exec (Call_gen_oh code) l m =
     (case gen_oh code (var_a l) (var_b l) (var_v l) (var_n l) m of
        Inl f \<Rightarrow> Inl f
      | Inr (k, m') \<Rightarrow> Inr (l\<lparr>var_n := var_n l + k\<rparr>, m'))"

fun run :: "stmt list \<Rightarrow> locals \<Rightarrow> mem \<Rightarrow> fault + locals \<times> mem" where
  "run [] l m = Inr (l, m)"
| "run (s # ss) l m =
     (case exec s l m of Inl f \<Rightarrow> Inl f | Inr (l', m') \<Rightarrow> run ss l' m')"

definition ld_routine :: "stmt list \<Rightarrow> mem \<Rightarrow> fault + nat \<times> mem" where
  "ld_routine body m =
     (case run body \<lparr>var_a = 0, var_b = 0, var_v = 0, var_n = 0\<rparr> m of
        Inl f \<Rightarrow> Inl f
      | Inr (l, m') \<Rightarrow> Inr (var_n l, m'))"

definition ld0006_body :: "stmt list" where
  "ld0006_body =
    [Assign_v 0.1666666666666667, Call_gen_oh 1]"

definition ld0006 :: "mem \<Rightarrow> fault + nat \<times> mem" where
  "ld0006 = ld_routine ld0006_body"

definition ld0014_body :: "stmt list" where
  "ld0014_body =
    [Assign_v 0.06666666666666667, Call_gen_oh 1,
     Assign_v 0.07500000000000000, Call_gen_oh 3]"

definition ld0014 :: "mem \<Rightarrow> fault + nat \<times> mem" where
  "ld0014 = ld_routine ld0014_body"

definition ld0026_body :: "stmt list" where
  "ld0026_body =
    [Assign_v 0.04761904761904762, Call_gen_oh 1,
     Assign_v 0.03809523809523810, Call_gen_oh 2,
     Assign_v 0.03214285714285714, Call_gen_oh 3]"

definition ld0026 :: "mem \<Rightarrow> fault + nat \<times> mem" where
  "ld0026 = ld_routine ld0026_body"

definition ld0038_body :: "stmt list" where
  "ld0038_body =
    [Assign_v 0.009523809523809524, Call_gen_oh 1,
     Assign_v 0.03214285714285714, Call_gen_oh 3,
     Assign_a 0.4597008433809831, Assign_v 0.02857142857142857, Call_gen_oh 5]"

definition ld0038 :: "mem \<Rightarrow> fault + nat \<times> mem" where
  "ld0038 = ld_routine ld0038_body"

definition ld0050_body :: "stmt list" where
  "ld0050_body =
    [Assign_v 0.01269841269841270, Call_gen_oh 1,
     Assign_v 0.02257495590828924, Call_gen_oh 2,
     Assign_v 0.02109375000000000, Call_gen_oh 3,
     Assign_a 0.3015113445777636, Assign_v 0.02017333553791887, Call_gen_oh 4]"

definition ld0050 :: "mem \<Rightarrow> fault + nat \<times> mem" where
  "ld0050 = ld_routine ld0050_body"

definition ld0074_body :: "stmt list" where
  "ld0074_body =
    [Assign_v 0.0005130671797338464, Call_gen_oh 1,
     Assign_v 0.01660406956574204, Call_gen_oh 2,
     Assign_v (- 0.02958603896103896), Call_gen_oh 3,
     Assign_a 0.4803844614152614, Assign_v 0.02657620708215946, Call_gen_oh 4,
     Assign_a 0.3207726489807764, Assign_v 0.01652217099371571, Call_gen_oh 5]"

definition ld0074 :: "mem \<Rightarrow> fault + nat \<times> mem" where
  "ld0074 = ld_routine ld0074_body"

definition ld0086_body :: "stmt list" where
  "ld0086_body =
    [Assign_v 0.01154401154401154, Call_gen_oh 1,
     Assign_v 0.01194390908585628, Call_gen_oh 3,
     Assign_a 0.3696028464541502, Assign_v 0.01111055571060340, Call_gen_oh 4,
     Assign_a 0.6943540066026664, Assign_v 0.01187650129453714, Call_gen_oh 4,
     Assign_a 0.3742430390903412, Assign_v 0.01181230374690448, Call_gen_oh 5]"

definition ld0086 :: "mem \<Rightarrow> fault + nat \<times> mem" where
  "ld0086 = ld_routine ld0086_body"

definition ld0110_body :: "stmt list" where
  "ld0110_body =
    [Assign_v 0.003828270494937162, Call_gen_oh 1,
     Assign_v 0.009793737512487512, Call_gen_oh 3,
     Assign_a 0.1851156353447362, Assign_v 0.008211737283191111, Call_gen_oh 4,
     Assign_a 0.6904210483822922, Assign_v 0.009942814891178103, Call_gen_oh 4,
     Assign_a 0.3956894730559419, Assign_v 0.009595471336070963, Call_gen_oh 4,
     Assign_a 0.4783690288121502, Assign_v 0.009694996361663028, Call_gen_oh 5]"

definition ld0110 :: "mem \<Rightarrow> fault + nat \<times> mem" where
  "ld0110 = ld_routine ld0110_body"

definition ld0146_body :: "stmt list" where
  "ld0146_body =
    [Assign_v 0.0005996313688621381, Call_gen_oh 1,
     Assign_v 0.007372999718620756, Call_gen_oh 2,
     Assign_v 0.007210515360144488, Call_gen_oh 3,
     Assign_a 0.6764410400114264, Assign_v 0.007116355493117555, Call_gen_oh 4,
     Assign_a 0.4174961227965453, Assign_v 0.006753829486314477, Call_gen_oh 4,
     Assign_a 0.1574676672039082, Assign_v 0.007574394159054034, Call_gen_oh 4,
     Assign_a 0.1403553811713183, Assign_b 0.4493328323269557, Assign_v 0.006991087353303262, Call_gen_oh 6]"

definition ld0146 :: "mem \<Rightarrow> fault + nat \<times> mem" where
  "ld0146 = ld_routine ld0146_body"

definition ld0170_body :: "stmt list" where
  "ld0170_body =
    [Assign_v 0.005544842902037365, Call_gen_oh 1,
     Assign_v 0.006071332770670752, Call_gen_oh 2,
     Assign_v 0.006383674773515093, Call_gen_oh 3,
     Assign_a 0.2551252621114134, Assign_v 0.005183387587747790, Call_gen_oh 4,
     Assign_a 0.6743601460362766, Assign_v 0.006317929009813725, Call_gen_oh 4,
     Assign_a 0.4318910696719410, Assign_v 0.006201670006589077, Call_gen_oh 4,
     Assign_a 0.2613931360335988, Assign_v 0.005477143385137348, Call_gen_oh 5,
     Assign_a 0.4990453161796037, Assign_b 0.1446630744325115, Assign_v 0.005968383987681156, Call_gen_oh 6]"

definition ld0170 :: "mem \<Rightarrow> fault + nat \<times> mem" where
  "ld0170 = ld_routine ld0170_body"

definition ld0194_body :: "stmt list" where
  "ld0194_body =
    [Assign_v 0.001782340447244611, Call_gen_oh 1,
     Assign_v 0.005716905949977102, Call_gen_oh 2,
     Assign_v 0.005573383178848738, Call_gen_oh 3,
     Assign_a 0.6712973442695226, Assign_v 0.005608704082587997, Call_gen_oh 4,
     Assign_a 0.2892465627575439, Assign_v 0.005158237711805383, Call_gen_oh 4,
     Assign_a 0.4446933178717437, Assign_v 0.005518771467273614, Call_gen_oh 4,
     Assign_a 0.1299335447650067, Assign_v 0.004106777028169394, Call_gen_oh 4,
     Assign_a 0.3457702197611283, Assign_v 0.005051846064614808, Call_gen_oh 5,
     Assign_a 0.1590417105383530, Assign_b 0.8360360154824589, Assign_v 0.005530248916233094, Call_gen_oh 6]"

definition ld0194 :: "mem \<Rightarrow> fault + nat \<times> mem" where
  "ld0194 = ld_routine ld0194_body"

definition ld0230_body :: "stmt list" where
  "ld0230_body =
    [Assign_v (- 0.05522639919727325), Call_gen_oh 1,
     Assign_v 0.004450274607445226, Call_gen_oh 3,
     Assign_a 0.4492044687397611, Assign_v 0.004496841067921404, Call_gen_oh 4,
     Assign_a 0.2520419490210201, Assign_v 0.005049153450478750, Call_gen_oh 4,
     Assign_a 0.6981906658447242, Assign_v 0.003976408018051883, Call_gen_oh 4,
     Assign_a 0.6587405243460960, Assign_v 0.004401400650381014, Call_gen_oh 4,
     Assign_a 0.04038544050097660, Assign_v 0.01724544350544401, Call_gen_oh 4,
     Assign_a 0.5823842309715585, Assign_v 0.004231083095357343, Call_gen_oh 5,
     Assign_a 0.3545877390518688, Assign_v 0.005198069864064399, Call_gen_oh 5,
     Assign_a 0.2272181808998187, Assign_b 0.4864661535886647, Assign_v 0.004695720972568883, Call_gen_oh 6]"

definition ld0230 :: "mem \<Rightarrow> fault + nat \<times> mem" where
  "ld0230 = ld_routine ld0230_body"

definition ld0266_body :: "stmt list" where
  "ld0266_body =
    [Assign_v (- 0.001313769127326952), Call_gen_oh 1,
     Assign_v (- 0.002522728704859336), Call_gen_oh 2,
     Assign_v 0.004186853881700583, Call_gen_oh 3,
     Assign_a 0.7039373391585475, Assign_v 0.005315167977810885, Call_gen_oh 4,
     Assign_a 0.1012526248572414, Assign_v 0.004047142377086219, Call_gen_oh 4,
     Assign_a 0.4647448726420539, Assign_v 0.004112482394406990, Call_gen_oh 4,
     Assign_a 0.3277420654971629, Assign_v 0.003595584899758782, Call_gen_oh 4,
     Assign_a 0.6620338663699974, Assign_v 0.004256131351428158, Call_gen_oh 4,
     Assign_a 0.8506508083520399, Assign_v 0.004229582700647240, Call_gen_oh 5,
     Assign_a 0.3233484542692899, Assign_b 0.1153112011009701, Assign_v 0.004080914225780505, Call_gen_oh 6,
     Assign_a 0.2314790158712601, Assign_b 0.5244939240922365, Assign_v 0.004071467593830964, Call_gen_oh 6]"

definition ld0266 :: "mem \<Rightarrow> fault + nat \<times> mem" where
  "ld0266 = ld_routine ld0266_body"

definition ld0302_body :: "stmt list" where
  "ld0302_body =
    [Assign_v 0.0008545911725128148, Call_gen_oh 1,
     Assign_v 0.003599119285025571, Call_gen_oh 3,
     Assign_a 0.3515640345570105, Assign_v 0.003449788424305883, Call_gen_oh 4,
     Assign_a 0.6566329410219612, Assign_v 0.003604822601419882, Call_gen_oh 4,
     Assign_a 0.4729054132581005, Assign_v 0.003576729661743367, Call_gen_oh 4,
     Assign_a 0.09618308522614784, Assign_v 0.002352101413689164, Call_gen_oh 4,
     Assign_a 0.2219645236294178, Assign_v 0.003108953122413675, Call_gen_oh 4,
     Assign_a 0.7011766416089545, Assign_v 0.003650045807677255, Call_gen_oh 4,
     Assign_a 0.2644152887060663, Assign_v 0.002982344963171804, Call_gen_oh 5,
     Assign_a 0.5718955891878961, Assign_v 0.003600820932216460, Call_gen_oh 5,
     Assign_a 0.2510034751770465, Assign_b 0.8000727494073952, Assign_v 0.003571540554273387, Call_gen_oh 6,
     Assign_a 0.1233548532583327, Assign_b 0.4127724083168531, Assign_v 0.003392312205006170, Call_gen_oh 6]"

definition ld0302 :: "mem \<Rightarrow> fault + nat \<times> mem" where
  "ld0302 = ld_routine ld0302_body"

definition ld0350_body :: "stmt list" where
  "ld0350_body =
    [Assign_v 0.003006796749453936, Call_gen_oh 1,
     Assign_v 0.003050627745650771, Call_gen_oh 3,
     Assign_a 0.7068965463912316, Assign_v 0.001621104600288991, Call_gen_oh 4,
     Assign_a 0.4794682625712025, Assign_v 0.003005701484901752, Call_gen_oh 4,
     Assign_a 0.1927533154878019, Assign_v 0.002990992529653774, Call_gen_oh 4,
     Assign_a 0.6930357961327123, Assign_v 0.002982170644107595, Call_gen_oh 4,
     Assign_a 0.3608302115520091, Assign_v 0.002721564237310992, Call_gen_oh 4,
     Assign_a 0.6498486161496169, Assign_v 0.003033513795811141, Call_gen_oh 4,
     Assign_a 0.1932945013230339, Assign_v 0.003007949555218533, Call_gen_oh 5,
     Assign_a 0.3800494919899303, Assign_v 0.002881964603055307, Call_gen_oh 5,
     Assign_a 0.2899558825499574, Assign_b 0.7934537856582316, Assign_v 0.002958357626535696, Call_gen_oh 6,
     Assign_a 0.09684121455103957, Assign_b 0.8280801506686862, Assign_v 0.003036020026407088, Call_gen_oh 6,
     Assign_a 0.1833434647041659, Assign_b 0.9074658265305127, Assign_v 0.002832187403926303, Call_gen_oh 6]"

definition ld0350 :: "mem \<Rightarrow> fault + nat \<times> mem" where
  "ld0350 = ld_routine ld0350_body"

definition ld0434_body :: "stmt list" where
  "ld0434_body =
    [Assign_v 0.0005265897968224436, Call_gen_oh 1,
     Assign_v 0.002548219972002607, Call_gen_oh 2,
     Assign_v 0.002512317418927307, Call_gen_oh 3,
     Assign_a 0.6909346307509111, Assign_v 0.002530403801186355, Call_gen_oh 4,
     Assign_a 0.1774836054609158, Assign_v 0.002014279020918528, Call_gen_oh 4,
     Assign_a 0.4914342637784746, Assign_v 0.002501725168402936, Call_gen_oh 4,
     Assign_a 0.6456664707424256, Assign_v 0.002513267174597564, Call_gen_oh 4,
     Assign_a 0.2861289010307638, Assign_v 0.002302694782227416, Call_gen_oh 4,
     Assign_a 0.07568084367178018, Assign_v 0.001462495621594614, Call_gen_oh 4,
     Assign_a 0.3927259763368002, Assign_v 0.002445373437312980, Call_gen_oh 4,
     Assign_a 0.8818132877794288, Assign_v 0.002417442375638981, Call_gen_oh 5,
     Assign_a 0.9776428111182649, Assign_v 0.001910951282179532, Call_gen_oh 5,
     Assign_a 0.2054823696403044, Assign_b 0.8689460322872412, Assign_v 0.002416930044324775, Call_gen_oh 6,
     Assign_a 0.5905157048925271, Assign_b 0.7999278543857286, Assign_v 0.002512236854563495, Call_gen_oh 6,
     Assign_a 0.5550152361076807, Assign_b 0.7717462626915901, Assign_v 0.002496644054553086, Call_gen_oh 6,
     Assign_a 0.9371809858553722, Assign_b 0.3344363145343455, Assign_v 0.002236607760437849, Call_gen_oh 6]"

definition ld0434 :: "mem \<Rightarrow> fault + nat \<times> mem" where
  "ld0434 = ld_routine ld0434_body"

definition ld0590_body :: "stmt list" where
  "ld0590_body =
    [Assign_v 0.0003095121295306187, Call_gen_oh 1,
     Assign_v 0.001852379698597489, Call_gen_oh 3,
     Assign_a 0.7040954938227469, Assign_v 0.001871790639277744, Call_gen_oh 4,
     Assign_a 0.6807744066455243, Assign_v 0.001858812585438317, Call_gen_oh 4,
     Assign_a 0.6372546939258752, Assign_v 0.001852028828296213, Call_gen_oh 4,
     Assign_a 0.5044419707800358, Assign_v 0.001846715956151242, Call_gen_oh 4,
     Assign_a 0.4215761784010967, Assign_v 0.001818471778162769, Call_gen_oh 4,
     Assign_a 0.3317920736472123, Assign_v 0.001749564657281154, Call_gen_oh 4,
     Assign_a 0.2384736701421887, Assign_v 0.001617210647254411, Call_gen_oh 4,
     Assign_a 0.1459036449157763, Assign_v 0.001384737234851692, Call_gen_oh 4,
     Assign_a 0.06095034115507196, Assign_v 0.0009764331165051050, Call_gen_oh 4,
     Assign_a 0.6116843442009876, Assign_v 0.001857161196774078, Call_gen_oh 5,
     Assign_a 0.3964755348199858, Assign_v 0.001705153996395864, Call_gen_oh 5,
     Assign_a 0.1724782009907724, Assign_v 0.001300321685886048, Call_gen_oh 5,
     Assign_a 0.5610263808622060, Assign_b 0.3518280927733519, Assign_v 0.001842866472905286, Call_gen_oh 6,
     Assign_a 0.4742392842551980, Assign_b 0.2634716655937950, Assign_v 0.001802658934377451, Call_gen_oh 6,
     Assign_a 0.5984126497885380, Assign_b 0.1816640840360209, Assign_v 0.001849830560443660, Call_gen_oh 6,
     Assign_a 0.3791035407695563, Assign_b 0.1720795225656878, Assign_v 0.001713904507106709, Call_gen_oh 6,
     Assign_a 0.2778673190586244, Assign_b 0.08213021581932511, Assign_v 0.001555213603396808, Call_gen_oh 6,
     Assign_a 0.5033564271075117, Assign_b 0.08999205842074875, Assign_v 0.001802239128008525, Call_gen_oh 6]"

definition ld0590 :: "mem \<Rightarrow> fault + nat \<times> mem" where
  "ld0590 = ld_routine ld0590_body"

definition ld0770_body :: "stmt list" where
  "ld0770_body =
    [Assign_v 0.0002192942088181184, Call_gen_oh 1,
     Assign_v 0.001436433617319080, Call_gen_oh 2,
     Assign_v 0.001421940344335877, Call_gen_oh 3,
     Assign_a 0.05087204410502360, Assign_v 0.0006798123511050502, Call_gen_oh 4,
     Assign_a 0.1228198790178831, Assign_v 0.0009913184235294912, Call_gen_oh 4,
     Assign_a 0.2026890814408786, Assign_v 0.001180207833238949, Call_gen_oh 4,
     Assign_a 0.2847745156464294, Assign_v 0.001296599602080921, Call_gen_oh 4,
     Assign_a 0.3656719078978026, Assign_v 0.001365871427428316, Call_gen_oh 4,
     Assign_a 0.4428264886713469, Assign_v 0.001402988604775325, Call_gen_oh 4,
     Assign_a 0.5140619627249735, Assign_v 0.001418645563595609, Call_gen_oh 4,
     Assign_a 0.6306401219166803, Assign_v 0.001421376741851662, Call_gen_oh 4,
     Assign_a 0.6716883332022612, Assign_v 0.001423996475490962, Call_gen_oh 4,
     Assign_a 0.6979792685336881, Assign_v 0.001431554042178567, Call_gen_oh 4,
     Assign_a 0.1446865674195309, Assign_v 0.0009254401499865368, Call_gen_oh 5,
     Assign_a 0.3390263475411216, Assign_v 0.001250239995053509, Call_gen_oh 5,
     Assign_a 0.5335804651263506, Assign_v 0.001394365843329230, Call_gen_oh 5,
     Assign_a 0.06944024393349413, Assign_b 0.2355187894242326, Assign_v 0.001127089094671749, Call_gen_oh 6,
     Assign_a 0.2269004109529460, Assign_b 0.4102182474045730, Assign_v 0.001345753760910670, Call_gen_oh 6,
     Assign_a 0.08025574607775339, Assign_b 0.6214302417481605, Assign_v 0.001424957283316783, Call_gen_oh 6,
     Assign_a 0.1467999527896572, Assign_b 0.3245284345717394, Assign_v 0.001261523341237750, Call_gen_oh 6,
     Assign_a 0.1571507769824727, Assign_b 0.5224482189696630, Assign_v 0.001392547106052696, Call_gen_oh 6,
     Assign_a 0.2365702993157246, Assign_b 0.6017546634089558, Assign_v 0.001418761677877656, Call_gen_oh 6,
     Assign_a 0.07714815866765732, Assign_b 0.4346575516141163, Assign_v 0.001338366684479554, Call_gen_oh 6,
     Assign_a 0.3062936666210730, Assign_b 0.4908826589037616, Assign_v 0.001393700862676131, Call_gen_oh 6,
     Assign_a 0.3822477379524787, Assign_b 0.5648768149099500, Assign_v 0.001415914757466932, Call_gen_oh 6]"

definition ld0770 :: "mem \<Rightarrow> fault + nat \<times> mem" where
  "ld0770 = ld_routine ld0770_body"

definition ld0974_body :: "stmt list" where
  "ld0974_body =
    [Assign_v 0.0001438294190527431, Call_gen_oh 1,
     Assign_v 0.001125772288287004, Call_gen_oh 3,
     Assign_a 0.04292963545341347, Assign_v 0.0004948029341949241, Call_gen_oh 4,
     Assign_a 0.1051426854086404, Assign_v 0.0007357990109125470, Call_gen_oh 4,
     Assign_a 0.1750024867623087, Assign_v 0.0008889132771304384, Call_gen_oh 4,
     Assign_a 0.2477653379650257, Assign_v 0.0009888347838921435, Call_gen_oh 4,
     Assign_a 0.3206567123955957, Assign_v 0.001053299681709471, Call_gen_oh 4,
     Assign_a 0.3916520749849983, Assign_v 0.001092778807014578, Call_gen_oh 4,
     Assign_a 0.4590825874187624, Assign_v 0.001114389394063227, Call_gen_oh 4,
     Assign_a 0.5214563888415861, Assign_v 0.001123724788051555, Call_gen_oh 4,
     Assign_a 0.6253170244654199, Assign_v 0.001125239325243814, Call_gen_oh 4,
     Assign_a 0.6637926744523170, Assign_v 0.001126153271815905, Call_gen_oh 4,
     Assign_a 0.6910410398498301, Assign_v 0.001130286931123841, Call_gen_oh 4,
     Assign_a 0.7052907007457760, Assign_v 0.001134986534363955, Call_gen_oh 4,
     Assign_a 0.1236686762657990, Assign_v 0.0006823367927109931, Call_gen_oh 5,
     Assign_a 0.2940777114468387, Assign_v 0.0009454158160447096, Call_gen_oh 5,
     Assign_a 0.4697753849207649, Assign_v 0.001074429975385679, Call_gen_oh 5,
     Assign_a 0.6334563241139567, Assign_v 0.001129300086569132, Call_gen_oh 5,
     Assign_a 0.05974048614181342, Assign_b 0.2029128752777523, Assign_v 0.0008436884500901954, Call_gen_oh 6,
     Assign_a 0.1375760408473636, Assign_b 0.4602621942484054, Assign_v 0.001075255720448885, Call_gen_oh 6,
     Assign_a 0.3391016526336286, Assign_b 0.5030673999662036, Assign_v 0.001108577236864462, Call_gen_oh 6,
     Assign_a 0.1271675191439820, Assign_b 0.2817606422442134, Assign_v 0.0009566475323783357, Call_gen_oh 6,
     Assign_a 0.2693120740413512, Assign_b 0.4331561291720157, Assign_v 0.001080663250717391, Call_gen_oh 6,
     Assign_a 0.1419786452601918, Assign_b 0.6256167358580814, Assign_v 0.001126797131196295, Call_gen_oh 6,
     Assign_a 0.06709284600738255, Assign_b 0.3798395216859157, Assign_v 0.001022568715358061, Call_gen_oh 6,
     Assign_a 0.07057738183256172, Assign_b 0.5517505421423520, Assign_v 0.001108960267713108, Call_gen_oh 6,
     Assign_a 0.2783888477882155, Assign_b 0.6029619156159187, Assign_v 0.001122790653435766, Call_gen_oh 6,
     Assign_a 0.1979578938917407, Assign_b 0.3589606329589096, Assign_v 0.001032401847117460, Call_gen_oh 6,
     Assign_a 0.2087307061103274, Assign_b 0.5348666438135476, Assign_v 0.001107249382283854, Call_gen_oh 6,
     Assign_a 0.4055122137872836, Assign_b 0.5674997546074373, Assign_v 0.001121780048519972, Call_gen_oh 6]"

definition ld0974 :: "mem \<Rightarrow> fault + nat \<times> mem" where
  "ld0974 = ld_routine ld0974_body"

definition ld1202_body :: "stmt list" where
  "ld1202_body =
    [Assign_v 0.0001105189233267572, Call_gen_oh 1,
     Assign_v 0.0009205232738090741, Call_gen_oh 2,
     Assign_v 0.0009133159786443561, Call_gen_oh 3,
     Assign_a 0.03712636449657089, Assign_v 0.0003690421898017899, Call_gen_oh 4,
     Assign_a 0.09140060412262223, Assign_v 0.0005603990928680660, Call_gen_oh 4,
     Assign_a 0.1531077852469906, Assign_v 0.0006865297629282609, Call_gen_oh 4,
     Assign_a 0.2180928891660612, Assign_v 0.0007720338551145630, Call_gen_oh 4,
     Assign_a 0.2839874532200175, Assign_v 0.0008301545958894795, Call_gen_oh 4,
     Assign_a 0.3491177600963764, Assign_v 0.0008686692550179628, Call_gen_oh 4,
     Assign_a 0.4121431461444309, Assign_v 0.0008927076285846890, Call_gen_oh 4,
     Assign_a 0.4718993627149127, Assign_v 0.0009060820238568219, Call_gen_oh 4,
     Assign_a 0.5273145452842337, Assign_v 0.0009119777254940867, Call_gen_oh 4,
     Assign_a 0.6209475332444019, Assign_v 0.0009128720138604181, Call_gen_oh 4,
     Assign_a 0.6569722711857291, Assign_v 0.0009130714935691735, Call_gen_oh 4,
     Assign_a 0.6841788309070143, Assign_v 0.0009152873784554116, Call_gen_oh 4,
     Assign_a 0.7012604330123631, Assign_v 0.0009187436274321654, Call_gen_oh 4,
     Assign_a 0.1072382215478166, Assign_v 0.0005176977312965694, Call_gen_oh 5,
     Assign_a 0.2582068959496968, Assign_v 0.0007331143682101417, Call_gen_oh 5,
     Assign_a 0.4172752955306717, Assign_v 0.0008463232836379928, Call_gen_oh 5,
     Assign_a 0.5700366911792503, Assign_v 0.0009031122694253992, Call_gen_oh 5,
     Assign_a 0.9827986018263947, Assign_b 0.1771774022615325, Assign_v 0.0006485778453163257, Call_gen_oh 6,
     Assign_a 0.9624249230326228, Assign_b 0.2475716463426288, Assign_v 0.0007435030910982369, Call_gen_oh 6,
     Assign_a 0.9402007994128811, Assign_b 0.3354616289066489, Assign_v 0.0007998527891839054, Call_gen_oh 6,
     Assign_a 0.9320822040143202, Assign_b 0.3173615246611977, Assign_v 0.0008101731497468018, Call_gen_oh 6,
     Assign_a 0.9043674199393299, Assign_b 0.4090268427085357, Assign_v 0.0008483389574594331, Call_gen_oh 6,
     Assign_a 0.8912407560074747, Assign_b 0.3854291150669224, Assign_v 0.0008556299257311812, Call_gen_oh 6,
     Assign_a 0.8676435628462708, Assign_b 0.4932221184851285, Assign_v 0.0008803208679738260, Call_gen_oh 6,
     Assign_a 0.8581979986041619, Assign_b 0.4785320675922435, Assign_v 0.0008811048182425720, Call_gen_oh 6,
     Assign_a 0.8396753624049856, Assign_b 0.4507422593157064, Assign_v 0.0008850282341265444, Call_gen_oh 6,
     Assign_a 0.8165288564022188, Assign_b 0.5632123020762100, Assign_v 0.0009021342299040653, Call_gen_oh 6,
     Assign_a 0.8015469370783529, Assign_b 0.5434303569693900, Assign_v 0.0009010091677105086, Call_gen_oh 6,
     Assign_a 0.7773563069070351, Assign_b 0.5123518486419871, Assign_v 0.0009022692938426915, Call_gen_oh 6,
     Assign_a 0.7661621213900394, Assign_b 0.6394279634749102, Assign_v 0.0009158016174693465, Call_gen_oh 6,
     Assign_a 0.7553584143533510, Assign_b 0.6269805509024392, Assign_v 0.0009131578003189435, Call_gen_oh 6,
     Assign_a 0.7344305757559503, Assign_b 0.6031161693096310, Assign_v 0.0009107813579482705, Call_gen_oh 6,
     Assign_a 0.7043837184021765, Assign_b 0.5693702498468441, Assign_v 0.0009105760258970126, Call_gen_oh 6]"

definition ld1202 :: "mem \<Rightarrow> fault + nat \<times> mem" where
  "ld1202 = ld_routine ld1202_body"

definition ld1454_body :: "stmt list" where
  "ld1454_body =
    [Assign_v 0.00007777160743261247, Call_gen_oh 1,
     Assign_v 0.0007557646413004701, Call_gen_oh 3,
     Assign_a 0.03229290663413854, Assign_v 0.0002841633806090617, Call_gen_oh 4,
     Assign_a 0.08036733271462222, Assign_v 0.0004374419127053555, Call_gen_oh 4,
     Assign_a 0.1354289960531653, Assign_v 0.0005417174740872172, Call_gen_oh 4,
     Assign_a 0.1938963861114426, Assign_v 0.0006148000891358593, Call_gen_oh 4,
     Assign_a 0.2537343715011275, Assign_v 0.0006664394485800705, Call_gen_oh 4,
     Assign_a 0.3135251434752570, Assign_v 0.0007025039356923220, Call_gen_oh 4,
     Assign_a 0.3721558339375338, Assign_v 0.0007268511789249627, Call_gen_oh 4,
     Assign_a 0.4286809575195696, Assign_v 0.0007422637534208629, Call_gen_oh 4,
     Assign_a 0.4822510128282994, Assign_v 0.0007509545035841214, Call_gen_oh 4,
     Assign_a 0.5320679333566263, Assign_v 0.0007548535057718401, Call_gen_oh 4,
     Assign_a 0.6172998195394274, Assign_v 0.0007554088969774001, Call_gen_oh 4,
     Assign_a 0.6510679849127481, Assign_v 0.0007553147174442808, Call_gen_oh 4,
     Assign_a 0.6777315251687360, Assign_v 0.0007564767653292297, Call_gen_oh 4,
     Assign_a 0.6963109410648741, Assign_v 0.0007587991808518730, Call_gen_oh 4,
     Assign_a 0.7058935009831749, Assign_v 0.0007608261832033027, Call_gen_oh 4,
     Assign_a 0.9955546194091857, Assign_v 0.0004021680447874916, Call_gen_oh 5,
     Assign_a 0.9734115901794209, Assign_v 0.0005804871793945964, Call_gen_oh 5,
     Assign_a 0.9275693732388626, Assign_v 0.0006792151955945159, Call_gen_oh 5,
     Assign_a 0.8568022422795103, Assign_v 0.0007336741211286294, Call_gen_oh 5,
     Assign_a 0.7623495553719372, Assign_v 0.0007581866300989608, Call_gen_oh 5,
     Assign_a 0.5707522908892223, Assign_b 0.4387028039889501, Assign_v 0.0007538257859800743, Call_gen_oh 6,
     Assign_a 0.5196463388403083, Assign_b 0.3858908414762617, Assign_v 0.0007483517247053123, Call_gen_oh 6,
     Assign_a 0.4646337531215351, Assign_b 0.3301937372343854, Assign_v 0.0007371763661112059, Call_gen_oh 6,
     Assign_a 0.4063901697557691, Assign_b 0.2725423573563777, Assign_v 0.0007183448895756934, Call_gen_oh 6,
     Assign_a 0.3456329466643087, Assign_b 0.2139510237495250, Assign_v 0.0006895815529822191, Call_gen_oh 6,
     Assign_a 0.2831395121050332, Assign_b 0.1555922309786647, Assign_v 0.0006480105801792886, Call_gen_oh 6,
     Assign_a 0.2197682022925330, Assign_b 0.09892878979686097, Assign_v 0.0005897558896594636, Call_gen_oh 6,
     Assign_a 0.1564696098650355, Assign_b 0.04598642910675510, Assign_v 0.0005095708849247346, Call_gen_oh 6,
     Assign_a 0.6027356673721295, Assign_b 0.3376625140173426, Assign_v 0.0007536906428909755, Call_gen_oh 6,
     Assign_a 0.5496032320255096, Assign_b 0.2822301309727988, Assign_v 0.0007472505965575118, Call_gen_oh 6,
     Assign_a 0.4921707755234567, Assign_b 0.2248632342592540, Assign_v 0.0007343017132279698, Call_gen_oh 6,
     Assign_a 0.4309422998598483, Assign_b 0.1666224723456479, Assign_v 0.0007130871582177445, Call_gen_oh 6,
     Assign_a 0.3664108182313672, Assign_b 0.1086964901822169, Assign_v 0.0006817022032112776, Call_gen_oh 6,
     Assign_a 0.2990189057758436, Assign_b 0.05251989784120085, Assign_v 0.0006380941145604121, Call_gen_oh 6,
     Assign_a 0.6268724013144998, Assign_b 0.2297523657550023, Assign_v 0.0007550381377920310, Call_gen_oh 6,
     Assign_a 0.5707324144834607, Assign_b 0.1723080607093800, Assign_v 0.0007478646640144802, Call_gen_oh 6,
     Assign_a 0.5096360901960365, Assign_b 0.1140238465390513, Assign_v 0.0007335918720601220, Call_gen_oh 6,
     Assign_a 0.4438729938312456, Assign_b 0.05611522095882537, Assign_v 0.0007110120527658118, Call_gen_oh 6,
     Assign_a 0.6419978471082389, Assign_b 0.1164174423140873, Assign_v 0.0007571363978689501, Call_gen_oh 6,
     Assign_a 0.5817218061802611, Assign_b 0.05797589531445219, Assign_v 0.0007489908329079234, Call_gen_oh 6]"

definition ld1454 :: "mem \<Rightarrow> fault + nat \<times> mem" where
  "ld1454 = ld_routine ld1454_body"

definition ld1730_body :: "stmt list" where
  "ld1730_body =
    [Assign_v 0.00006309049437420976, Call_gen_oh 1,
     Assign_v 0.0006398287705571748, Call_gen_oh 2,
     Assign_v 0.0006357185073530720, Call_gen_oh 3,
     Assign_a 0.02860923126194662, Assign_v 0.0002221207162188168, Call_gen_oh 4,
     Assign_a 0.07142556767711522, Assign_v 0.0003475784022286848, Call_gen_oh 4,
     Assign_a 0.1209199540995559, Assign_v 0.0004350742443589804, Call_gen_oh 4,
     Assign_a 0.1738673106594379, Assign_v 0.0004978569136522127, Call_gen_oh 4,
     Assign_a 0.2284645438467734, Assign_v 0.0005435036221998053, Call_gen_oh 4,
     Assign_a 0.2834807671701512, Assign_v 0.0005765913388219542, Call_gen_oh 4,
     Assign_a 0.3379680145467339, Assign_v 0.0006001200359226003, Call_gen_oh 4,
     Assign_a 0.3911355454819537, Assign_v 0.0006162178172717512, Call_gen_oh 4,
     Assign_a 0.4422860353001403, Assign_v 0.0006265218152438485, Call_gen_oh 4,
     Assign_a 0.4907781568726057, Assign_v 0.0006323987160974212, Call_gen_oh 4,
     Assign_a 0.5360006153211468, Assign_v 0.0006350767851540569, Call_gen_oh 4,
     Assign_a 0.6142105973596603, Assign_v 0.0006354362775297107, Call_gen_oh 4,
     Assign_a 0.6459300387977504, Assign_v 0.0006352302462706235, Call_gen_oh 4,
     Assign_a 0.6718056125089225, Assign_v 0.0006358117881417972, Call_gen_oh 4,
     Assign_a 0.6910888533186254, Assign_v 0.0006373101590310117, Call_gen_oh 4,
     Assign_a 0.7030467416823252, Assign_v 0.0006390428961368665, Call_gen_oh 4,
     Assign_a 0.08354951166354646, Assign_v 0.0003186913449946576, Call_gen_oh 5,
     Assign_a 0.2050143009099486, Assign_v 0.0004678028558591711, Call_gen_oh 5,
     Assign_a 0.3370208290706637, Assign_v 0.0005538829697598626, Call_gen_oh 5,
     Assign_a 0.4689051484233963, Assign_v 0.0006044475907190476, Call_gen_oh 5,
     Assign_a 0.5939400424557334, Assign_v 0.0006313575103509012, Call_gen_oh 5,
     Assign_a 0.1394983311832261, Assign_b 0.04097581162050343, Assign_v 0.0004078626431855630, Call_gen_oh 6,
     Assign_a 0.1967999180485014, Assign_b 0.08851987391293348, Assign_v 0.0004759933057812725, Call_gen_oh 6,
     Assign_a 0.2546183732548967, Assign_b 0.1397680182969819, Assign_v 0.0005268151186413440, Call_gen_oh 6,
     Assign_a 0.3121281074713875, Assign_b 0.1929452542226526, Assign_v 0.0005643048560507316, Call_gen_oh 6,
     Assign_a 0.3685981078502492, Assign_b 0.2467898337061562, Assign_v 0.0005914501076613073, Call_gen_oh 6,
     Assign_a 0.4233760321547856, Assign_b 0.3003104124785409, Assign_v 0.0006104561257874195, Call_gen_oh 6,
     Assign_a 0.4758671236059246, Assign_b 0.3526684328175033, Assign_v 0.0006230252860707806, Call_gen_oh 6,
     Assign_a 0.5255178579796463, Assign_b 0.4031134861145713, Assign_v 0.0006305618761760796, Call_gen_oh 6,
     Assign_a 0.5718025633734589, Assign_b 0.4509426448342351, Assign_v 0.0006343092767597889, Call_gen_oh 6,
     Assign_a 0.2686927772723415, Assign_b 0.04711322502423248, Assign_v 0.0005176268945737826, Call_gen_oh 6,
     Assign_a 0.3306006819904809, Assign_b 0.09784487303942695, Assign_v 0.0005564840313313692, Call_gen_oh 6,
     Assign_a 0.3904906850594983, Assign_b 0.1505395810025273, Assign_v 0.0005856426671038980, Call_gen_oh 6,
     Assign_a 0.4479957951904390, Assign_b 0.2039728156296050, Assign_v 0.0006066386925777091, Call_gen_oh 6,
     Assign_a 0.5027076848919780, Assign_b 0.2571529941121107, Assign_v 0.0006208824962234458, Call_gen_oh 6,
     Assign_a 0.5542087392260217, Assign_b 0.3092191375815670, Assign_v 0.0006296314297822907, Call_gen_oh 6,
     Assign_a 0.6020850887375187, Assign_b 0.3593807506130276, Assign_v 0.0006340423756791859, Call_gen_oh 6,
     Assign_a 0.4019851409179594, Assign_b 0.05063389934378671, Assign_v 0.0005829627677107342, Call_gen_oh 6,
     Assign_a 0.4635614567449800, Assign_b 0.1032422269160612, Assign_v 0.0006048693376081110, Call_gen_oh 6,
     Assign_a 0.5215860931591575, Assign_b 0.1566322094006254, Assign_v 0.0006202362317732461, Call_gen_oh 6,
     Assign_a 0.5758202499099271, Assign_b 0.2098082827491099, Assign_v 0.0006299005328403779, Call_gen_oh 6,
     Assign_a 0.6259893683876795, Assign_b 0.2618824114553391, Assign_v 0.0006347722390609353, Call_gen_oh 6,
     Assign_a 0.5313795124811891, Assign_b 0.05263245019338556, Assign_v 0.0006203778981238834, Call_gen_oh 6,
     Assign_a 0.5893317955931995, Assign_b 0.1061059730982005, Assign_v 0.0006308414671239979, Call_gen_oh 6,
     Assign_a 0.6426246321215801, Assign_b 0.1594171564034221, Assign_v 0.0006362706466959498, Call_gen_oh 6,
     Assign_a 0.6511904367376113, Assign_b 0.05354789536565540, Assign_v 0.0006375414170333233, Call_gen_oh 6]"

definition ld1730 :: "mem \<Rightarrow> fault + nat \<times> mem" where
  "ld1730 = ld_routine ld1730_body"

definition ld2030_body :: "stmt list" where
  "ld2030_body =
    [Assign_v 0.00004656031899197431, Call_gen_oh 1,
     Assign_v 0.0005421549195295507, Call_gen_oh 3,
     Assign_a 0.02540835336814348, Assign_v 0.0001778522133346553, Call_gen_oh 4,
     Assign_a 0.06399322800504915, Assign_v 0.0002811325405682796, Call_gen_oh 4,
     Assign_a 0.1088269469804125, Assign_v 0.0003548896312631459, Call_gen_oh 4,
     Assign_a 0.1570670798818287, Assign_v 0.0004090310897173364, Call_gen_oh 4,
     Assign_a 0.2071163932282514, Assign_v 0.0004493286134169965, Call_gen_oh 4,
     Assign_a 0.2578914044450844, Assign_v 0.0004793728447962723, Call_gen_oh 4,
     Assign_a 0.3085687558169623, Assign_v 0.0005015415319164265, Call_gen_oh 4,
     Assign_a 0.3584719706267024, Assign_v 0.0005175127372677937, Call_gen_oh 4,
     Assign_a 0.4070135594428709, Assign_v 0.0005285522262081019, Call_gen_oh 4,
     Assign_a 0.4536618626222638, Assign_v 0.0005356832703713962, Call_gen_oh 4,
     Assign_a 0.4979195686463577, Assign_v 0.0005397914736175170, Call_gen_oh 4,
     Assign_a 0.5393075111126999, Assign_v 0.0005416899441599930, Call_gen_oh 4,
     Assign_a 0.6115617676843916, Assign_v 0.0005419308476889938, Call_gen_oh 4,
     Assign_a 0.6414308435160159, Assign_v 0.0005416936902030596, Call_gen_oh 4,
     Assign_a 0.6664099412721607, Assign_v 0.0005419544338703164, Call_gen_oh 4,
     Assign_a 0.6859161771214913, Assign_v 0.0005428983656630975, Call_gen_oh 4,
     Assign_a 0.6993625593503890, Assign_v 0.0005442286500098193, Call_gen_oh 4,
     Assign_a 0.7062393387719380, Assign_v 0.0005452250345057301, Call_gen_oh 4,
     Assign_a 0.07479028168349763, Assign_v 0.0002568002497728530, Call_gen_oh 5,
     Assign_a 0.1848951153969366, Assign_v 0.0003827211700292145, Call_gen_oh 5,
     Assign_a 0.3059529066581305, Assign_v 0.0004579491561917824, Call_gen_oh 5,
     Assign_a 0.4285556101021362, Assign_v 0.0005042003969083574, Call_gen_oh 5,
     Assign_a 0.5468758653496526, Assign_v 0.0005312708889976025, Call_gen_oh 5,
     Assign_a 0.6565821978343439, Assign_v 0.0005438401790747117, Call_gen_oh 5,
     Assign_a 0.1253901572367117, Assign_b 0.03681917226439641, Assign_v 0.0003316041873197344, Call_gen_oh 6,
     Assign_a 0.1775721510383941, Assign_b 0.07982487607213301, Assign_v 0.0003899113567153771, Call_gen_oh 6,
     Assign_a 0.2305693358216114, Assign_b 0.1264640966592335, Assign_v 0.0004343343327201309, Call_gen_oh 6,
     Assign_a 0.2836502845992063, Assign_b 0.1751585683418957, Assign_v 0.0004679415262318919, Call_gen_oh 6,
     Assign_a 0.3361794746232590, Assign_b 0.2247995907632670, Assign_v 0.0004930847981631031, Call_gen_oh 6,
     Assign_a 0.3875979172264824, Assign_b 0.2745299257422246, Assign_v 0.0005115031867540091, Call_gen_oh 6,
     Assign_a 0.4374019316999074, Assign_b 0.3236373482441118, Assign_v 0.0005245217148457367, Call_gen_oh 6,
     Assign_a 0.4851275843340022, Assign_b 0.3714967859436741, Assign_v 0.0005332041499895321, Call_gen_oh 6,
     Assign_a 0.5303391803806868, Assign_b 0.4175353646321745, Assign_v 0.0005384583126021542, Call_gen_oh 6,
     Assign_a 0.5726197380596287, Assign_b 0.4612084406355461, Assign_v 0.0005411067210798852, Call_gen_oh 6,
     Assign_a 0.2431520732564863, Assign_b 0.04258040133043952, Assign_v 0.0004259797391468714, Call_gen_oh 6,
     Assign_a 0.3002096800895869, Assign_b 0.08869424306722721, Assign_v 0.0004604931368460021, Call_gen_oh 6,
     Assign_a 0.3558554457457432, Assign_b 0.1368811706510655, Assign_v 0.0004871814878255202, Call_gen_oh 6,
     Assign_a 0.4097782537048887, Assign_b 0.1860739985015033, Assign_v 0.0005072242910074885, Call_gen_oh 6,
     Assign_a 0.4616337666067458, Assign_b 0.2354235077395853, Assign_v 0.0005217069845235350, Call_gen_oh 6,
     Assign_a 0.5110707008417874, Assign_b 0.2842074921347011, Assign_v 0.0005315785966280310, Call_gen_oh 6,
     Assign_a 0.5577415286163795, Assign_b 0.3317784414984102, Assign_v 0.0005376833708758905, Call_gen_oh 6,
     Assign_a 0.6013060431366950, Assign_b 0.3775299002040700, Assign_v 0.0005408032092069521, Call_gen_oh 6,
     Assign_a 0.3661596767261781, Assign_b 0.04599367887164592, Assign_v 0.0004842744917904866, Call_gen_oh 6,
     Assign_a 0.4237633153506581, Assign_b 0.09404893773654421, Assign_v 0.0005048926076188130, Call_gen_oh 6,
     Assign_a 0.4786328454658452, Assign_b 0.1431377109091971, Assign_v 0.0005202607980478373, Call_gen_oh 6,
     Assign_a 0.5305702076789774, Assign_b 0.1924186388843570, Assign_v 0.0005309932388325743, Call_gen_oh 6,
     Assign_a 0.5793436224231788, Assign_b 0.2411590944775190, Assign_v 0.0005377419770895208, Call_gen_oh 6,
     Assign_a 0.6247069017094747, Assign_b 0.2886871491583605, Assign_v 0.0005411696331677717, Call_gen_oh 6,
     Assign_a 0.4874315552535204, Assign_b 0.04804978774953206, Assign_v 0.0005197996293282420, Call_gen_oh 6,
     Assign_a 0.5427337322059053, Assign_b 0.09716857199366665, Assign_v 0.0005311120836622945, Call_gen_oh 6,
     Assign_a 0.5943493747246700, Assign_b 0.1465205839795055, Assign_v 0.0005384309319956951, Call_gen_oh 6,
     Assign_a 0.6421314033564943, Assign_b 0.1953579449803574, Assign_v 0.0005421859504051886, Call_gen_oh 6,
     Assign_a 0.6020628374713980, Assign_b 0.04916375015738108, Assign_v 0.0005390948355046314, Call_gen_oh 6,
     Assign_a 0.6529222529856881, Assign_b 0.09861621540127005, Assign_v 0.0005433312705027845, Call_gen_oh 6]"

definition ld2030 :: "mem \<Rightarrow> fault + nat \<times> mem" where
  "ld2030 = ld_routine ld2030_body"

definition ld2354_body :: "stmt list" where
  "ld2354_body =
    [Assign_v 0.00003922616270665292, Call_gen_oh 1,
     Assign_v 0.0004703831750854424, Call_gen_oh 2,
     Assign_v 0.0004678202801282136, Call_gen_oh 3,
     Assign_a 0.02290024646530589, Assign_v 0.0001437832228979900, Call_gen_oh 4,
     Assign_a 0.05779086652271284, Assign_v 0.0002303572493577644, Call_gen_oh 4,
     Assign_a 0.09863103576375984, Assign_v 0.0002933110752447454, Call_gen_oh 4,
     Assign_a 0.1428155792982185, Assign_v 0.0003402905998359838, Call_gen_oh 4,
     Assign_a 0.1888978116601463, Assign_v 0.0003759138466870372, Call_gen_oh 4,
     Assign_a 0.2359091682970210, Assign_v 0.0004030638447899798, Call_gen_oh 4,
     Assign_a 0.2831228833706171, Assign_v 0.0004236591432242211, Call_gen_oh 4,
     Assign_a 0.3299495857966693, Assign_v 0.0004390522656946746, Call_gen_oh 4,
     Assign_a 0.3758840802660796, Assign_v 0.0004502523466626247, Call_gen_oh 4,
     Assign_a 0.4204751831009480, Assign_v 0.0004580577727783541, Call_gen_oh 4,
     Assign_a 0.4633068518751051, Assign_v 0.0004631391616615899, Call_gen_oh 4,
     Assign_a 0.5039849474507313, Assign_v 0.0004660928953698676, Call_gen_oh 4,
     Assign_a 0.5421265793440747, Assign_v 0.0004674751807936953, Call_gen_oh 4,
     Assign_a 0.6092660230557310, Assign_v 0.0004676414903932920, Call_gen_oh 4,
     Assign_a 0.6374654204984869, Assign_v 0.0004674086492347870, Call_gen_oh 4,
     Assign_a 0.6615136472609892, Assign_v 0.0004674928539483207, Call_gen_oh 4,
     Assign_a 0.6809487285958127, Assign_v 0.0004680748979686447, Call_gen_oh 4,
     Assign_a 0.6952980021665196, Assign_v 0.0004690449806389040, Call_gen_oh 4,
     Assign_a 0.7041245497695400, Assign_v 0.0004699877075860818, Call_gen_oh 4,
     Assign_a 0.06744033088306065, Assign_v 0.0002099942281069176, Call_gen_oh 5,
     Assign_a 0.1678684485334166, Assign_v 0.0003172269150712804, Call_gen_oh 5,
     Assign_a 0.2793559049539613, Assign_v 0.0003832051358546523, Call_gen_oh 5,
     Assign_a 0.3935264218057639, Assign_v 0.0004252193818146985, Call_gen_oh 5,
     Assign_a 0.5052629268232558, Assign_v 0.0004513807963755000, Call_gen_oh 5,
     Assign_a 0.6107905315437531, Assign_v 0.0004657797469114178, Call_gen_oh 5,
     Assign_a 0.1135081039843524, Assign_b 0.03331954884662588, Assign_v 0.0002733362800522836, Call_gen_oh 6,
     Assign_a 0.1612866626099378, Assign_b 0.07247167465436538, Assign_v 0.0003235485368463559, Call_gen_oh 6,
     Assign_a 0.2100786550168205, Assign_b 0.1151539110849745, Assign_v 0.0003624908726013453, Call_gen_oh 6,
     Assign_a 0.2592282009459942, Assign_b 0.1599491097143677, Assign_v 0.0003925540070712828, Call_gen_oh 6,
     Assign_a 0.3081740561320203, Assign_b 0.2058699956028027, Assign_v 0.0004156129781116235, Call_gen_oh 6,
     Assign_a 0.3564289781578164, Assign_b 0.2521624953502911, Assign_v 0.0004330644984623263, Call_gen_oh 6,
     Assign_a 0.4035587288240703, Assign_b 0.2982090785797674, Assign_v 0.0004459677725921312, Call_gen_oh 6,
     Assign_a 0.4491671196373903, Assign_b 0.3434762087235733, Assign_v 0.0004551593004456795, Call_gen_oh 6,
     Assign_a 0.4928854782917489, Assign_b 0.3874831357203437, Assign_v 0.0004613341462749918, Call_gen_oh 6,
     Assign_a 0.5343646791958988, Assign_b 0.4297814821746926, Assign_v 0.0004651019618269806, Call_gen_oh 6,
     Assign_a 0.5732683216530990, Assign_b 0.4699402260943537, Assign_v 0.0004670249536100625, Call_gen_oh 6,
     Assign_a 0.2214131583218986, Assign_b 0.03873602040643895, Assign_v 0.0003549555576441708, Call_gen_oh 6,
     Assign_a 0.2741796504750071, Assign_b 0.08089496256902013, Assign_v 0.0003856108245249010, Call_gen_oh 6,
     Assign_a 0.3259797439149485, Assign_b 0.1251732177620872, Assign_v 0.0004098622845756882, Call_gen_oh 6,
     Assign_a 0.3765441148826891, Assign_b 0.1706260286403185, Assign_v 0.0004286328604268950, Call_gen_oh 6,
     Assign_a 0.4255773574530558, Assign_b 0.2165115147300408, Assign_v 0.0004427802198993945, Call_gen_oh 6,
     Assign_a 0.4727795117058430, Assign_b 0.2622089812225259, Assign_v 0.0004530473511488561, Call_gen_oh 6,
     Assign_a 0.5178546895819012, Assign_b 0.3071721431296201, Assign_v 0.0004600805475703138, Call_gen_oh 6,
     Assign_a 0.5605141192097460, Assign_b 0.3508998998801138, Assign_v 0.0004644599059958017, Call_gen_oh 6,
     Assign_a 0.6004763319352512, Assign_b 0.3929160876166931, Assign_v 0.0004667274455712508, Call_gen_oh 6,
     Assign_a 0.3352842634946949, Assign_b 0.04202563457288019, Assign_v 0.0004069360518020356, Call_gen_oh 6,
     Assign_a 0.3891971629814670, Assign_b 0.08614309758870850, Assign_v 0.0004260442819919195, Call_gen_oh 6,
     Assign_a 0.4409875565542281, Assign_b 0.1314500879380001, Assign_v 0.0004408678508029063, Call_gen_oh 6,
     Assign_a 0.4904893058592484, Assign_b 0.1772189657383859, Assign_v 0.0004518748115548597, Call_gen_oh 6,
     Assign_a 0.5375056138769549, Assign_b 0.2228277110050294, Assign_v 0.0004595564875375116, Call_gen_oh 6,
     Assign_a 0.5818255708669969, Assign_b 0.2677179935014386, Assign_v 0.0004643988774315846, Call_gen_oh 6,
     Assign_a 0.6232334858144959, Assign_b 0.3113675035544165, Assign_v 0.0004668827491646946, Call_gen_oh 6,
     Assign_a 0.4489485354492058, Assign_b 0.04409162378368174, Assign_v 0.0004400541823741973, Call_gen_oh 6,
     Assign_a 0.5015136875933150, Assign_b 0.08939009917748489, Assign_v 0.0004514512890193797, Call_gen_oh 6,
     Assign_a 0.5511300550512623, Assign_b 0.1351806029383365, Assign_v 0.0004596198627347549, Call_gen_oh 6,
     Assign_a 0.5976720409858000, Assign_b 0.1808370355053196, Assign_v 0.0004648659016801781, Call_gen_oh 6,
     Assign_a 0.6409956378989354, Assign_b 0.2257852192301602, Assign_v 0.0004675502017157673, Call_gen_oh 6,
     Assign_a 0.5581222330827514, Assign_b 0.04532173421637160, Assign_v 0.0004598494476455523, Call_gen_oh 6,
     Assign_a 0.6074705984161695, Assign_b 0.09117488031840314, Assign_v 0.0004654916955152048, Call_gen_oh 6,
     Assign_a 0.6532272537379033, Assign_b 0.1369294213140155, Assign_v 0.0004684709779505137, Call_gen_oh 6,
     Assign_a 0.6594761494500487, Assign_b 0.04589901487275583, Assign_v 0.0004691445539106986, Call_gen_oh 6]"

definition ld2354 :: "mem \<Rightarrow> fault + nat \<times> mem" where
  "ld2354 = ld_routine ld2354_body"

definition ld2702_body :: "stmt list" where
  "ld2702_body =
    [Assign_v 0.00002998675149888161, Call_gen_oh 1,
     Assign_v 0.0004077860529495355, Call_gen_oh 3,
     Assign_a 0.02065562538818703, Assign_v 0.0001185349192520667, Call_gen_oh 4,
     Assign_a 0.05250918173022379, Assign_v 0.0001913408643425751, Call_gen_oh 4,
     Assign_a 0.08993480082038376, Assign_v 0.0002452886577209897, Call_gen_oh 4,
     Assign_a 0.1306023924436019, Assign_v 0.0002862408183288702, Call_gen_oh 4,
     Assign_a 0.1732060388531418, Assign_v 0.0003178032258257357, Call_gen_oh 4,
     Assign_a 0.2168727084820249, Assign_v 0.0003422945667633690, Call_gen_oh 4,
     Assign_a 0.2609528309173586, Assign_v 0.0003612790520235922, Call_gen_oh 4,
     Assign_a 0.3049252927938952, Assign_v 0.0003758638229818521, Call_gen_oh 4,
     Assign_a 0.3483484138084404, Assign_v 0.0003868711798859953, Call_gen_oh 4,
     Assign_a 0.3908321549106406, Assign_v 0.0003949429933189938, Call_gen_oh 4,
     Assign_a 0.4320210071894814, Assign_v 0.0004006068107541156, Call_gen_oh 4,
     Assign_a 0.4715824795890053, Assign_v 0.0004043192149672723, Call_gen_oh 4,
     Assign_a 0.5091984794078453, Assign_v 0.0004064947495808078, Call_gen_oh 4,
     Assign_a 0.5445580145650803, Assign_v 0.0004075245619813152, Call_gen_oh 4,
     Assign_a 0.6072575796841768, Assign_v 0.0004076423540893566, Call_gen_oh 4,
     Assign_a 0.6339484505755803, Assign_v 0.0004074280862251555, Call_gen_oh 4,
     Assign_a 0.6570718257486958, Assign_v 0.0004074163756012244, Call_gen_oh 4,
     Assign_a 0.6762557330090709, Assign_v 0.0004077647795071246, Call_gen_oh 4,
     Assign_a 0.6911161696923790, Assign_v 0.0004084517552782530, Call_gen_oh 4,
     Assign_a 0.7012841911659961, Assign_v 0.0004092468459224052, Call_gen_oh 4,
     Assign_a 0.7064559272410020, Assign_v 0.0004097872687240906, Call_gen_oh 4,
     Assign_a 0.06123554989894765, Assign_v 0.0001738986811745028, Call_gen_oh 5,
     Assign_a 0.1533070348312393, Assign_v 0.0002659616045280191, Call_gen_oh 5,
     Assign_a 0.2563902605244206, Assign_v 0.0003240596008171533, Call_gen_oh 5,
     Assign_a 0.3629346991663361, Assign_v 0.0003621195964432943, Call_gen_oh 5,
     Assign_a 0.4683949968987538, Assign_v 0.0003868838330760539, Call_gen_oh 5,
     Assign_a 0.5694479240657952, Assign_v 0.0004018911532693111, Call_gen_oh 5,
     Assign_a 0.6634465430993955, Assign_v 0.0004089929432983252, Call_gen_oh 5,
     Assign_a 0.1033958573552305, Assign_b 0.03034544009063584, Assign_v 0.0002279907527706409, Call_gen_oh 6,
     Assign_a 0.1473521412414395, Assign_b 0.06618803044247135, Assign_v 0.0002715205490578897, Call_gen_oh 6,
     Assign_a 0.1924552158705967, Assign_b 0.1054431128987715, Assign_v 0.0003057917896703976, Call_gen_oh 6,
     Assign_a 0.2381094362890328, Assign_b 0.1468263551238858, Assign_v 0.0003326913052452555, Call_gen_oh 6,
     Assign_a 0.2838121707936760, Assign_b 0.1894486108187886, Assign_v 0.0003537334711890037, Call_gen_oh 6,
     Assign_a 0.3291323133373415, Assign_b 0.2326374238761579, Assign_v 0.0003700567500783129, Call_gen_oh 6,
     Assign_a 0.3736896978741460, Assign_b 0.2758485808485768, Assign_v 0.0003825245372589122, Call_gen_oh 6,
     Assign_a 0.4171406040760013, Assign_b 0.3186179331996921, Assign_v 0.0003918125171518296, Call_gen_oh 6,
     Assign_a 0.4591677985256915, Assign_b 0.3605329796303794, Assign_v 0.0003984720419937579, Call_gen_oh 6,
     Assign_a 0.4994733831718418, Assign_b 0.4012147253586509, Assign_v 0.0004029746003338211, Call_gen_oh 6,
     Assign_a 0.5377731830445096, Assign_b 0.4403050025570692, Assign_v 0.0004057428632156627, Call_gen_oh 6,
     Assign_a 0.5737917830001331, Assign_b 0.4774565904277483, Assign_v 0.0004071719274114857, Call_gen_oh 6,
     Assign_a 0.2027323586271389, Assign_b 0.03544122504976147, Assign_v 0.0002990236950664119, Call_gen_oh 6,
     Assign_a 0.2516942375187273, Assign_b 0.07418304388646328, Assign_v 0.0003262951734212878, Call_gen_oh 6,
     Assign_a 0.3000227995257181, Assign_b 0.1150502745727186, Assign_v 0.0003482634608242413, Call_gen_oh 6,
     Assign_a 0.3474806691046342, Assign_b 0.1571963371209364, Assign_v 0.0003656596681700892, Call_gen_oh 6,
     Assign_a 0.3938103180359209, Assign_b 0.1999631877247100, Assign_v 0.0003791740467794218, Call_gen_oh 6,
     Assign_a 0.4387519590455703, Assign_b 0.2428073457846535, Assign_v 0.0003894034450156905, Call_gen_oh 6,
     Assign_a 0.4820503960077787, Assign_b 0.2852575132906155, Assign_v 0.0003968600245508371, Call_gen_oh 6,
     Assign_a 0.5234573778475101, Assign_b 0.3268884208674639, Assign_v 0.0004019931351420050, Call_gen_oh 6,
     Assign_a 0.5627318647235282, Assign_b 0.3673033321675939, Assign_v 0.0004052108801278599, Call_gen_oh 6,
     Assign_a 0.5996390607156954, Assign_b 0.4061211551830290, Assign_v 0.0004068978613940934, Call_gen_oh 6,
     Assign_a 0.3084780753791947, Assign_b 0.03860125523100059, Assign_v 0.0003454275351319704, Call_gen_oh 6,
     Assign_a 0.3589988275920223, Assign_b 0.07928938987104867, Assign_v 0.0003629963537007920, Call_gen_oh 6,
     Assign_a 0.4078628415881973, Assign_b 0.1212614643030087, Assign_v 0.0003770187233889873, Call_gen_oh 6,
     Assign_a 0.4549287258889735, Assign_b 0.1638770827382693, Assign_v 0.0003878608613694378, Call_gen_oh 6,
     Assign_a 0.5000278512957279, Assign_b 0.2065965798260176, Assign_v 0.0003959065270221274, Call_gen_oh 6,
     Assign_a 0.5429785044928199, Assign_b 0.2489436378852235, Assign_v 0.0004015286975463570, Call_gen_oh 6,
     Assign_a 0.5835939850491711, Assign_b 0.2904811368946891, Assign_v 0.0004050866785614717, Call_gen_oh 6,
     Assign_a 0.6216870353444856, Assign_b 0.3307941957666609, Assign_v 0.0004069320185051913, Call_gen_oh 6,
     Assign_a 0.4151104662709091, Assign_b 0.04064829146052554, Assign_v 0.0003760120964062763, Call_gen_oh 6,
     Assign_a 0.4649804275009218, Assign_b 0.08258424547294755, Assign_v 0.0003870969564418064, Call_gen_oh 6,
     Assign_a 0.5124695757009662, Assign_b 0.1251841962027289, Assign_v 0.0003955287790534055, Call_gen_oh 6,
     Assign_a 0.5574711100606224, Assign_b 0.1679107505976331, Assign_v 0.0004015361911302668, Call_gen_oh 6,
     Assign_a 0.5998597333287227, Assign_b 0.2102805057358715, Assign_v 0.0004053836986719548, Call_gen_oh 6,
     Assign_a 0.6395007148516600, Assign_b 0.2518418087774107, Assign_v 0.0004073578673299117, Call_gen_oh 6,
     Assign_a 0.5188456224746252, Assign_b 0.04194321676077518, Assign_v 0.0003954628379231406, Call_gen_oh 6,
     Assign_a 0.5664190707942778, Assign_b 0.08457661551921499, Assign_v 0.0004017645508847530, Call_gen_oh 6,
     Assign_a 0.6110464353283153, Assign_b 0.1273652932519396, Assign_v 0.0004059030348651293, Call_gen_oh 6,
     Assign_a 0.6526430302051563, Assign_b 0.1698173239076354, Assign_v 0.0004080565809484880, Call_gen_oh 6,
     Assign_a 0.6167551880377548, Assign_b 0.04266398851548864, Assign_v 0.0004063018753664651, Call_gen_oh 6,
     Assign_a 0.6607195418355383, Assign_b 0.08551925814238349, Assign_v 0.0004087191292799671, Call_gen_oh 6]"

definition ld2702 :: "mem \<Rightarrow> fault + nat \<times> mem" where
  "ld2702 = ld_routine ld2702_body"

definition ld3074_body :: "stmt list" where
  "ld3074_body =
    [Assign_v 0.00002599095953754734, Call_gen_oh 1,
     Assign_v 0.0003603134089687541, Call_gen_oh 2,
     Assign_v 0.0003586067974412447, Call_gen_oh 3,
     Assign_a 0.01886108518723392, Assign_v 0.00009831528474385880, Call_gen_oh 4,
     Assign_a 0.04800217244625303, Assign_v 0.0001605023107954450, Call_gen_oh 4,
     Assign_a 0.08244922058397242, Assign_v 0.0002072200131464099, Call_gen_oh 4,
     Assign_a 0.1200408362484023, Assign_v 0.0002431297618814187, Call_gen_oh 4,
     Assign_a 0.1595773530809965, Assign_v 0.0002711819064496707, Call_gen_oh 4,
     Assign_a 0.2002635973434064, Assign_v 0.0002932762038321116, Call_gen_oh 4,
     Assign_a 0.2415127590139982, Assign_v 0.0003107032514197368, Call_gen_oh 4,
     Assign_a 0.2828584158458477, Assign_v 0.0003243808058921213, Call_gen_oh 4,
     Assign_a 0.3239091015338138, Assign_v 0.0003349899091374030, Call_gen_oh 4,
     Assign_a 0.3643225097962194, Assign_v 0.0003430580688505218, Call_gen_oh 4,
     Assign_a 0.4037897083691802, Assign_v 0.0003490124109290343, Call_gen_oh 4,
     Assign_a 0.4420247515194127, Assign_v 0.0003532148948561955, Call_gen_oh 4,
     Assign_a 0.4787572538464938, Assign_v 0.0003559862669062833, Call_gen_oh 4,
     Assign_a 0.5137265251275234, Assign_v 0.0003576224317551411, Call_gen_oh 4,
     Assign_a 0.5466764056654611, Assign_v 0.0003584050533086076, Call_gen_oh 4,
     Assign_a 0.6054859420813535, Assign_v 0.0003584903581373224, Call_gen_oh 4,
     Assign_a 0.6308106701764562, Assign_v 0.0003582991879040586, Call_gen_oh 4,
     Assign_a 0.6530369230179584, Assign_v 0.0003582371187963125, Call_gen_oh 4,
     Assign_a 0.6718609524611158, Assign_v 0.0003584353631122350, Call_gen_oh 4,
     Assign_a 0.6869676499894013, Assign_v 0.0003589120166517785, Call_gen_oh 4,
     Assign_a 0.6980467077240748, Assign_v 0.0003595445704531601, Call_gen_oh 4,
     Assign_a 0.7048241721250522, Assign_v 0.0003600943557111074, Call_gen_oh 4,
     Assign_a 0.05591105222058232, Assign_v 0.0001456447096742039, Call_gen_oh 5,
     Assign_a 0.1407384078513916, Assign_v 0.0002252370188283782, Call_gen_oh 5,
     Assign_a 0.2364035438976309, Assign_v 0.0002766135443474897, Call_gen_oh 5,
     Assign_a 0.3360602737818170, Assign_v 0.0003110729491500851, Call_gen_oh 5,
     Assign_a 0.4356292630054665, Assign_v 0.0003342506712303391, Call_gen_oh 5,
     Assign_a 0.5321569415256174, Assign_v 0.0003491981834026860, Call_gen_oh 5,
     Assign_a 0.6232956305040554, Assign_v 0.0003576003604348932, Call_gen_oh 5,
     Assign_a 0.09469870086838469, Assign_b 0.02778748387309470, Assign_v 0.0001921921305788564, Call_gen_oh 6,
     Assign_a 0.1353170300568141, Assign_b 0.06076569878628364, Assign_v 0.0002301458216495632, Call_gen_oh 6,
     Assign_a 0.1771679481726077, Assign_b 0.09703072762711040, Assign_v 0.0002604248549522893, Call_gen_oh 6,
     Assign_a 0.2197066664231751, Assign_b 0.1354112458524762, Assign_v 0.0002845275425870697, Call_gen_oh 6,
     Assign_a 0.2624783557374927, Assign_b 0.1750996479744100, Assign_v 0.0003036870897974840, Call_gen_oh 6,
     Assign_a 0.3050969521214442, Assign_b 0.2154896907449802, Assign_v 0.0003188414832298066, Call_gen_oh 6,
     Assign_a 0.3472252637196021, Assign_b 0.2560954625740152, Assign_v 0.0003307046414722089, Call_gen_oh 6,
     Assign_a 0.3885610219026360, Assign_b 0.2965070050624096, Assign_v 0.0003398330969031360, Call_gen_oh 6,
     Assign_a 0.4288273776062765, Assign_b 0.3363641488734497, Assign_v 0.0003466757899705373, Call_gen_oh 6,
     Assign_a 0.4677662471302948, Assign_b 0.3753400029836788, Assign_v 0.0003516095923230054, Call_gen_oh 6,
     Assign_a 0.5051333589553359, Assign_b 0.4131297522144286, Assign_v 0.0003549645184048486, Call_gen_oh 6,
     Assign_a 0.5406942145810492, Assign_b 0.4494423776081795, Assign_v 0.0003570415969441392, Call_gen_oh 6,
     Assign_a 0.5742204122576457, Assign_b 0.4839938958841502, Assign_v 0.0003581251798496118, Call_gen_oh 6,
     Assign_a 0.1865407027225188, Assign_b 0.03259144851070796, Assign_v 0.0002543491329913348, Call_gen_oh 6,
     Assign_a 0.2321186453689432, Assign_b 0.06835679505297343, Assign_v 0.0002786711051330776, Call_gen_oh 6,
     Assign_a 0.2773159142523882, Assign_b 0.1062284864451989, Assign_v 0.0002985552361083679, Call_gen_oh 6,
     Assign_a 0.3219200192237254, Assign_b 0.1454404409323047, Assign_v 0.0003145867929154039, Call_gen_oh 6,
     Assign_a 0.3657032593944029, Assign_b 0.1854018282582510, Assign_v 0.0003273290662067609, Call_gen_oh 6,
     Assign_a 0.4084376778363622, Assign_b 0.2256297412014750, Assign_v 0.0003372705511943501, Call_gen_oh 6,
     Assign_a 0.4499004945751427, Assign_b 0.2657104425000896, Assign_v 0.0003448274437851510, Call_gen_oh 6,
     Assign_a 0.4898758141326335, Assign_b 0.3052755487631557, Assign_v 0.0003503592783048583, Call_gen_oh 6,
     Assign_a 0.5281547442266309, Assign_b 0.3439863920645423, Assign_v 0.0003541854792663162, Call_gen_oh 6,
     Assign_a 0.5645346989813992, Assign_b 0.3815229456121914, Assign_v 0.0003565995517909428, Call_gen_oh 6,
     Assign_a 0.5988181252159848, Assign_b 0.4175752420966734, Assign_v 0.0003578802078302898, Call_gen_oh 6,
     Assign_a 0.2850425424471603, Assign_b 0.03562149509862536, Assign_v 0.0002958644592860982, Call_gen_oh 6,
     Assign_a 0.3324619433027876, Assign_b 0.07330318886871096, Assign_v 0.0003119548129116835, Call_gen_oh 6,
     Assign_a 0.3785848333076282, Assign_b 0.1123226296008472, Assign_v 0.0003250745225005984, Call_gen_oh 6,
     Assign_a 0.4232891028562115, Assign_b 0.1521084193337708, Assign_v 0.0003355153415935208, Call_gen_oh 6,
     Assign_a 0.4664287050829722, Assign_b 0.1921844459223610, Assign_v 0.0003435847568549328, Call_gen_oh 6,
     Assign_a 0.5078458493735726, Assign_b 0.2321360989678303, Assign_v 0.0003495786831622488, Call_gen_oh 6,
     Assign_a 0.5473779816204180, Assign_b 0.2715886486360520, Assign_v 0.0003537767805534621, Call_gen_oh 6,
     Assign_a 0.5848617133811376, Assign_b 0.3101924707571355, Assign_v 0.0003564459815421428, Call_gen_oh 6,
     Assign_a 0.6201348281584888, Assign_b 0.3476121052890973, Assign_v 0.0003578464061225468, Call_gen_oh 6,
     Assign_a 0.3852191185387871, Assign_b 0.03763224880035108, Assign_v 0.0003239748762836212, Call_gen_oh 6,
     Assign_a 0.4325025061073423, Assign_b 0.07659581935637135, Assign_v 0.0003345491784174287, Call_gen_oh 6,
     Assign_a 0.4778486229734490, Assign_b 0.1163381306083900, Assign_v 0.0003429126177301782, Call_gen_oh 6,
     Assign_a 0.5211663693009000, Assign_b 0.1563890598752899, Assign_v 0.0003492420343097421, Call_gen_oh 6,
     Assign_a 0.5623469504853703, Assign_b 0.1963320810149200, Assign_v 0.0003537399050235257, Call_gen_oh 6,
     Assign_a 0.6012718188659246, Assign_b 0.2357847407258738, Assign_v 0.0003566209152659172, Call_gen_oh 6,
     Assign_a 0.6378179206390117, Assign_b 0.2743846121244060, Assign_v 0.0003581084321919782, Call_gen_oh 6,
     Assign_a 0.4836936460214534, Assign_b 0.03895902610739024, Assign_v 0.0003426522117591512, Call_gen_oh 6,
     Assign_a 0.5293792562683797, Assign_b 0.07871246819312640, Assign_v 0.0003491848770121379, Call_gen_oh 6,
     Assign_a 0.5726281253100033, Assign_b 0.1187963808202981, Assign_v 0.0003539318235231476, Call_gen_oh 6,
     Assign_a 0.6133658776169068, Assign_b 0.1587914708061787, Assign_v 0.0003570231438458694, Call_gen_oh 6,
     Assign_a 0.6515085491865307, Assign_b 0.1983058575227646, Assign_v 0.0003586207335051714, Call_gen_oh 6,
     Assign_a 0.5778692716064976, Assign_b 0.03977209689791542, Assign_v 0.0003541196205164025, Call_gen_oh 6,
     Assign_a 0.6207904288086192, Assign_b 0.07990157592981152, Assign_v 0.0003574296911573953, Call_gen_oh 6,
     Assign_a 0.6608688171046802, Assign_b 0.1199671308754309, Assign_v 0.0003591993279818963, Call_gen_oh 6,
     Assign_a 0.6656263089489130, Assign_b 0.04015955957805969, Assign_v 0.0003595855034661997, Call_gen_oh 6]"

definition ld3074 :: "mem \<Rightarrow> fault + nat \<times> mem" where
  "ld3074 = ld_routine ld3074_body"

definition ld3470_body :: "stmt list" where
  "ld3470_body =
    [Assign_v 0.00002040382730826330, Call_gen_oh 1,
     Assign_v 0.0003178149703889544, Call_gen_oh 3,
     Assign_a 0.01721420832906233, Assign_v 0.00008288115128076110, Call_gen_oh 4,
     Assign_a 0.04408875374981770, Assign_v 0.0001360883192522954, Call_gen_oh 4,
     Assign_a 0.07594680813878681, Assign_v 0.0001766854454542662, Call_gen_oh 4,
     Assign_a 0.1108335359204799, Assign_v 0.0002083153161230153, Call_gen_oh 4,
     Assign_a 0.1476517054388567, Assign_v 0.0002333279544657158, Call_gen_oh 4,
     Assign_a 0.1856731870860615, Assign_v 0.0002532809539930247, Call_gen_oh 4,
     Assign_a 0.2243634099428821, Assign_v 0.0002692472184211158, Call_gen_oh 4,
     Assign_a 0.2633006881662727, Assign_v 0.0002819949946811885, Call_gen_oh 4,
     Assign_a 0.3021340904916283, Assign_v 0.0002920953593973030, Call_gen_oh 4,
     Assign_a 0.3405594048030089, Assign_v 0.0002999889782948352, Call_gen_oh 4,
     Assign_a 0.3783044434007372, Assign_v 0.0003060292120496902, Call_gen_oh 4,
     Assign_a 0.4151194767407910, Assign_v 0.0003105109167522192, Call_gen_oh 4,
     Assign_a 0.4507705766443257, Assign_v 0.0003136902387550312, Call_gen_oh 4,
     Assign_a 0.4850346056573187, Assign_v 0.0003157984652454632, Call_gen_oh 4,
     Assign_a 0.5176950817792470, Assign_v 0.0003170516518425422, Call_gen_oh 4,
     Assign_a 0.5485384240820989, Assign_v 0.0003176568425633755, Call_gen_oh 4,
     Assign_a 0.6039117238943308, Assign_v 0.0003177198411207062, Call_gen_oh 4,
     Assign_a 0.6279956655573113, Assign_v 0.0003175519492394733, Call_gen_oh 4,
     Assign_a 0.6493636169568952, Assign_v 0.0003174654952634756, Call_gen_oh 4,
     Assign_a 0.6677644117704504, Assign_v 0.0003175676415467654, Call_gen_oh 4,
     Assign_a 0.6829368572115624, Assign_v 0.0003178923417835410, Call_gen_oh 4,
     Assign_a 0.6946195818184121, Assign_v 0.0003183788287531909, Call_gen_oh 4,
     Assign_a 0.7025711542057026, Assign_v 0.0003188755151918807, Call_gen_oh 4,
     Assign_a 0.7066004767140119, Assign_v 0.0003191916889313849, Call_gen_oh 4,
     Assign_a 0.05132537689946062, Assign_v 0.0001231779611744508, Call_gen_oh 5,
     Assign_a 0.1297994661331225, Assign_v 0.0001924661373839880, Call_gen_oh 5,
     Assign_a 0.2188852049401307, Assign_v 0.0002380881867403424, Call_gen_oh 5,
     Assign_a 0.3123174824903457, Assign_v 0.0002693100663037885, Call_gen_oh 5,
     Assign_a 0.4064037620738195, Assign_v 0.0002908673382834366, Call_gen_oh 5,
     Assign_a 0.4984958396944782, Assign_v 0.0003053914619381535, Call_gen_oh 5,
     Assign_a 0.5864975046021365, Assign_v 0.0003143916684147777, Call_gen_oh 5,
     Assign_a 0.6686711634580175, Assign_v 0.0003187042244055363, Call_gen_oh 5,
     Assign_a 0.08715738780835950, Assign_b 0.02557175233367578, Assign_v 0.0001635219535869790, Call_gen_oh 6,
     Assign_a 0.1248383123134007, Assign_b 0.05604823383376681, Assign_v 0.0001968109917696070, Call_gen_oh 6,
     Assign_a 0.1638062693383378, Assign_b 0.08968568601900765, Assign_v 0.0002236754342249974, Call_gen_oh 6,
     Assign_a 0.2035586203373176, Assign_b 0.1254086651976279, Assign_v 0.0002453186687017181, Call_gen_oh 6,
     Assign_a 0.2436798975293774, Assign_b 0.1624780150162012, Assign_v 0.0002627551791580541, Call_gen_oh 6,
     Assign_a 0.2838207507773806, Assign_b 0.2003422342683208, Assign_v 0.0002767654860152220, Call_gen_oh 6,
     Assign_a 0.3236787502217692, Assign_b 0.2385628026255263, Assign_v 0.0002879467027765895, Call_gen_oh 6,
     Assign_a 0.3629849554840691, Assign_b 0.2767731148783578, Assign_v 0.0002967639918918702, Call_gen_oh 6,
     Assign_a 0.4014948081992087, Assign_b 0.3146542308245309, Assign_v 0.0003035900684660351, Call_gen_oh 6,
     Assign_a 0.4389818379260225, Assign_b 0.3519196415895088, Assign_v 0.0003087338237298308, Call_gen_oh 6,
     Assign_a 0.4752331143674377, Assign_b 0.3883050984023654, Assign_v 0.0003124608838860167, Call_gen_oh 6,
     Assign_a 0.5100457318374018, Assign_b 0.4235613423908649, Assign_v 0.0003150084294226743, Call_gen_oh 6,
     Assign_a 0.5432238388954868, Assign_b 0.4574484717196220, Assign_v 0.0003165958398598402, Call_gen_oh 6,
     Assign_a 0.5745758685072442, Assign_b 0.4897311639255524, Assign_v 0.0003174320440957372, Call_gen_oh 6,
     Assign_a 0.1723981437592809, Assign_b 0.03010630597881105, Assign_v 0.0002182188909812599, Call_gen_oh 6,
     Assign_a 0.2149553257844597, Assign_b 0.06326031554204694, Assign_v 0.0002399727933921445, Call_gen_oh 6,
     Assign_a 0.2573256081247422, Assign_b 0.09848566980258631, Assign_v 0.0002579796133514652, Call_gen_oh 6,
     Assign_a 0.2993163751238106, Assign_b 0.1350835952384266, Assign_v 0.0002727114052623535, Call_gen_oh 6,
     Assign_a 0.3407238005148000, Assign_b 0.1725184055442181, Assign_v 0.0002846327656281355, Call_gen_oh 6,
     Assign_a 0.3813454978483264, Assign_b 0.2103559279730725, Assign_v 0.0002941491102051334, Call_gen_oh 6,
     Assign_a 0.4209848104423343, Assign_b 0.2482278774554860, Assign_v 0.0003016049492136107, Call_gen_oh 6,
     Assign_a 0.4594519699996300, Assign_b 0.2858099509982883, Assign_v 0.0003072949726175648, Call_gen_oh 6,
     Assign_a 0.4965640166185930, Assign_b 0.3228075659915428, Assign_v 0.0003114768142886460, Call_gen_oh 6,
     Assign_a 0.5321441655571562, Assign_b 0.3589459907204151, Assign_v 0.0003143823673666223, Call_gen_oh 6,
     Assign_a 0.5660208438582166, Assign_b 0.3939630088864310, Assign_v 0.0003162269764661535, Call_gen_oh 6,
     Assign_a 0.5980264315964364, Assign_b 0.4276029922949089, Assign_v 0.0003172164663759821, Call_gen_oh 6,
     Assign_a 0.2644215852350733, Assign_b 0.03300939429072552, Assign_v 0.0002554575398967435, Call_gen_oh 6,
     Assign_a 0.3090113743443063, Assign_b 0.06803887650078501, Assign_v 0.0002701704069135677, Call_gen_oh 6,
     Assign_a 0.3525871079197808, Assign_b 0.1044326136206709, Assign_v 0.0002823693413468940, Call_gen_oh 6,
     Assign_a 0.3950418005354029, Assign_b 0.1416751597517679, Assign_v 0.0002922898463214289, Call_gen_oh 6,
     Assign_a 0.4362475663430163, Assign_b 0.1793408610504821, Assign_v 0.0003001829062162428, Call_gen_oh 6,
     Assign_a 0.4760661812145854, Assign_b 0.2170630750175722, Assign_v 0.0003062890864542953, Call_gen_oh 6,
     Assign_a 0.5143551042512103, Assign_b 0.2545145157815807, Assign_v 0.0003108328279264746, Call_gen_oh 6,
     Assign_a 0.5509709026935597, Assign_b 0.2913940101706601, Assign_v 0.0003140243146201245, Call_gen_oh 6,
     Assign_a 0.5857711030329428, Assign_b 0.3274169910910705, Assign_v 0.0003160638030977130, Call_gen_oh 6,
     Assign_a 0.6186149917404392, Assign_b 0.3623081329317265, Assign_v 0.0003171462882206275, Call_gen_oh 6,
     Assign_a 0.3586894569557064, Assign_b 0.03497354386450040, Assign_v 0.0002812388416031796, Call_gen_oh 6,
     Assign_a 0.4035266610019441, Assign_b 0.07129736739757095, Assign_v 0.0002912137500288045, Call_gen_oh 6,
     Assign_a 0.4467775312332510, Assign_b 0.1084758620193165, Assign_v 0.0002993241256502206, Call_gen_oh 6,
     Assign_a 0.4883638346608543, Assign_b 0.1460915689241772, Assign_v 0.0003057101738983822, Call_gen_oh 6,
     Assign_a 0.5281908348434601, Assign_b 0.1837790832369980, Assign_v 0.0003105319326251432, Call_gen_oh 6,
     Assign_a 0.5661542687149311, Assign_b 0.2212075390874021, Assign_v 0.0003139565514428167, Call_gen_oh 6,
     Assign_a 0.6021450102031452, Assign_b 0.2580682841160985, Assign_v 0.0003161543006806366, Call_gen_oh 6,
     Assign_a 0.6360520783610050, Assign_b 0.2940656362094121, Assign_v 0.0003172985960613294, Call_gen_oh 6,
     Assign_a 0.4521611065087196, Assign_b 0.03631055365867002, Assign_v 0.0002989400336901431, Call_gen_oh 6,
     Assign_a 0.4959365651560963, Assign_b 0.07348318468484350, Assign_v 0.0003054555883947677, Call_gen_oh 6,
     Assign_a 0.5376815804038283, Assign_b 0.1111087643812648, Assign_v 0.0003104764960807702, Call_gen_oh 6,
     Assign_a 0.5773314480243768, Assign_b 0.1488226085145408, Assign_v 0.0003141015825977616, Call_gen_oh 6,
     Assign_a 0.6148113245575056, Assign_b 0.1862892274135151, Assign_v 0.0003164520621159896, Call_gen_oh 6,
     Assign_a 0.6500407462842380, Assign_b 0.2231909701714456, Assign_v 0.0003176652305912204, Call_gen_oh 6,
     Assign_a 0.5425151448707213, Assign_b 0.03718201306118944, Assign_v 0.0003105097161023939, Call_gen_oh 6,
     Assign_a 0.5841860556907931, Assign_b 0.07483616335067346, Assign_v 0.0003143014117890550, Call_gen_oh 6,
     Assign_a 0.6234632186851500, Assign_b 0.1125990834266120, Assign_v 0.0003168172866287200, Call_gen_oh 6,
     Assign_a 0.6602934551848843, Assign_b 0.1501303813157619, Assign_v 0.0003181401865570968, Call_gen_oh 6,
     Assign_a 0.6278573968375105, Assign_b 0.03767559930245720, Assign_v 0.0003170663659156037, Call_gen_oh 6,
     Assign_a 0.6665611711264577, Assign_b 0.07548443301360158, Assign_v 0.0003185447944625510, Call_gen_oh 6]"

definition ld3470 :: "mem \<Rightarrow> fault + nat \<times> mem" where
  "ld3470 = ld_routine ld3470_body"

definition ld3890_body :: "stmt list" where
  "ld3890_body =
    [Assign_v 0.00001807395252196920, Call_gen_oh 1,
     Assign_v 0.0002848008782238827, Call_gen_oh 2,
     Assign_v 0.0002836065837530581, Call_gen_oh 3,
     Assign_a 0.01587876419858352, Assign_v 0.00007013149266673816, Call_gen_oh 4,
     Assign_a 0.04069193593751206, Assign_v 0.0001162798021956766, Call_gen_oh 4,
     Assign_a 0.07025888115257997, Assign_v 0.0001518728583972105, Call_gen_oh 4,
     Assign_a 0.1027495450028704, Assign_v 0.0001798796108216934, Call_gen_oh 4,
     Assign_a 0.1371457730893426, Assign_v 0.0002022593385972785, Call_gen_oh 4,
     Assign_a 0.1727758532671953, Assign_v 0.0002203093105575464, Call_gen_oh 4,
     Assign_a 0.2091492038929037, Assign_v 0.0002349294234299855, Call_gen_oh 4,
     Assign_a 0.2458813281751915, Assign_v 0.0002467682058747003, Call_gen_oh 4,
     Assign_a 0.2826545859450066, Assign_v 0.0002563092683572224, Call_gen_oh 4,
     Assign_a 0.3191957291799622, Assign_v 0.0002639253896763318, Call_gen_oh 4,
     Assign_a 0.3552621469299578, Assign_v 0.0002699137479265108, Call_gen_oh 4,
     Assign_a 0.3906329503406230, Assign_v 0.0002745196420166739, Call_gen_oh 4,
     Assign_a 0.4251028614093031, Assign_v 0.0002779529197397593, Call_gen_oh 4,
     Assign_a 0.4584777520111870, Assign_v 0.0002803996086684265, Call_gen_oh 4,
     Assign_a 0.4905711358710193, Assign_v 0.0002820302356715842, Call_gen_oh 4,
     Assign_a 0.5212011669847385, Assign_v 0.0002830056747491068, Call_gen_oh 4,
     Assign_a 0.5501878488737995, Assign_v 0.0002834808950776839, Call_gen_oh 4,
     Assign_a 0.6025037877479342, Assign_v 0.0002835282339078929, Call_gen_oh 4,
     Assign_a 0.6254572689549016, Assign_v 0.0002833819267065800, Call_gen_oh 4,
     Assign_a 0.6460107179528248, Assign_v 0.0002832858336906784, Call_gen_oh 4,
     Assign_a 0.6639541138154251, Assign_v 0.0002833268235451244, Call_gen_oh 4,
     Assign_a 0.6790688515667495, Assign_v 0.0002835432677029253, Call_gen_oh 4,
     Assign_a 0.6911338580371512, Assign_v 0.0002839091722743049, Call_gen_oh 4,
     Assign_a 0.6999385956126490, Assign_v 0.0002843308178875841, Call_gen_oh 4,
     Assign_a 0.7053037748656896, Assign_v 0.0002846703550533846, Call_gen_oh 4,
     Assign_a 0.04732224387180115, Assign_v 0.0001051193406971900, Call_gen_oh 5,
     Assign_a 0.1202100529326803, Assign_v 0.0001657871838796974, Call_gen_oh 5,
     Assign_a 0.2034304820664855, Assign_v 0.0002064648113714232, Call_gen_oh 5,
     Assign_a 0.2912285643573002, Assign_v 0.0002347942745819741, Call_gen_oh 5,
     Assign_a 0.3802361792726768, Assign_v 0.0002547775326597726, Call_gen_oh 5,
     Assign_a 0.4680598511056146, Assign_v 0.0002686876684847025, Call_gen_oh 5,
     Assign_a 0.5528151052155599, Assign_v 0.0002778665755515867, Call_gen_oh 5,
     Assign_a 0.6329386307803041, Assign_v 0.0002830996616782929, Call_gen_oh 5,
     Assign_a 0.08056516651369069, Assign_b 0.02363454684003124, Assign_v 0.0001403063340168372, Call_gen_oh 6,
     Assign_a 0.1156476077139389, Assign_b 0.05191291632545936, Assign_v 0.0001696504125939477, Call_gen_oh 6,
     Assign_a 0.1520473382760421, Assign_b 0.08322715736994519, Assign_v 0.0001935787242745390, Call_gen_oh 6,
     Assign_a 0.1892986699745931, Assign_b 0.1165855667993712, Assign_v 0.0002130614510521968, Call_gen_oh 6,
     Assign_a 0.2270194446777792, Assign_b 0.1513077167409504, Assign_v 0.0002289381265931048, Call_gen_oh 6,
     Assign_a 0.2648908185093273, Assign_b 0.1868882025807859, Assign_v 0.0002418630292816186, Call_gen_oh 6,
     Assign_a 0.3026389259574136, Assign_b 0.2229277629776224, Assign_v 0.0002523400495631193, Call_gen_oh 6,
     Assign_a 0.3400220296151384, Assign_b 0.2590951840746235, Assign_v 0.0002607623973449605, Call_gen_oh 6,
     Assign_a 0.3768217953335510, Assign_b 0.2951047291750847, Assign_v 0.0002674441032689209, Call_gen_oh 6,
     Assign_a 0.4128372900921884, Assign_b 0.3307019714169930, Assign_v 0.0002726432360343356, Call_gen_oh 6,
     Assign_a 0.4478807131815630, Assign_b 0.3656544101087634, Assign_v 0.0002765787685924545, Call_gen_oh 6,
     Assign_a 0.4817742034089257, Assign_b 0.3997448951939695, Assign_v 0.0002794428690642224, Call_gen_oh 6,
     Assign_a 0.5143472814653344, Assign_b 0.4327667110812024, Assign_v 0.0002814099002062895, Call_gen_oh 6,
     Assign_a 0.5454346213905650, Assign_b 0.4645196123532293, Assign_v 0.0002826429531578994, Call_gen_oh 6,
     Assign_a 0.5748739313170252, Assign_b 0.4948063555703345, Assign_v 0.0002832983542550884, Call_gen_oh 6,
     Assign_a 0.1599598738286342, Assign_b 0.02792357590048985, Assign_v 0.0001886695565284976, Call_gen_oh 6,
     Assign_a 0.1998097412500951, Assign_b 0.05877141038139065, Assign_v 0.0002081867882748234, Call_gen_oh 6,
     Assign_a 0.2396228952566202, Assign_b 0.09164573914691377, Assign_v 0.0002245148680600796, Call_gen_oh 6,
     Assign_a 0.2792228341097746, Assign_b 0.1259049641962687, Assign_v 0.0002380370491511872, Call_gen_oh 6,
     Assign_a 0.3184251107546741, Assign_b 0.1610594823400863, Assign_v 0.0002491398041852455, Call_gen_oh 6,
     Assign_a 0.3570481164426244, Assign_b 0.1967151653460898, Assign_v 0.0002581632405881230, Call_gen_oh 6,
     Assign_a 0.3949164710492144, Assign_b 0.2325404606175168, Assign_v 0.0002653965506227417, Call_gen_oh 6,
     Assign_a 0.4318617293970503, Assign_b 0.2682461141151439, Assign_v 0.0002710857216747087, Call_gen_oh 6,
     Assign_a 0.4677221009931678, Assign_b 0.3035720116011973, Assign_v 0.0002754434093903659, Call_gen_oh 6,
     Assign_a 0.5023417939270955, Assign_b 0.3382781859197439, Assign_v 0.0002786579932519380, Call_gen_oh 6,
     Assign_a 0.5355701836636128, Assign_b 0.3721383065625942, Assign_v 0.0002809011080679474, Call_gen_oh 6,
     Assign_a 0.5672608451328771, Assign_b 0.4049346360466055, Assign_v 0.0002823336184560987, Call_gen_oh 6,
     Assign_a 0.5972704202540162, Assign_b 0.4364538098633802, Assign_v 0.0002831101175806309, Call_gen_oh 6,
     Assign_a 0.2461687022333596, Assign_b 0.03070423166833368, Assign_v 0.0002221679970354546, Call_gen_oh 6,
     Assign_a 0.2881774566286831, Assign_b 0.06338034669281885, Assign_v 0.0002356185734270703, Call_gen_oh 6,
     Assign_a 0.3293963604116978, Assign_b 0.09742862487067941, Assign_v 0.0002469228344805590, Call_gen_oh 6,
     Assign_a 0.3697303822241377, Assign_b 0.1323799532282290, Assign_v 0.0002562726348642046, Call_gen_oh 6,
     Assign_a 0.4090663023135127, Assign_b 0.1678497018129336, Assign_v 0.0002638756726753028, Call_gen_oh 6,
     Assign_a 0.4472819355411712, Assign_b 0.2035095105326114, Assign_v 0.0002699311157390862, Call_gen_oh 6,
     Assign_a 0.4842513377231437, Assign_b 0.2390692566672091, Assign_v 0.0002746233268403837, Call_gen_oh 6,
     Assign_a 0.5198477629962928, Assign_b 0.2742649818076149, Assign_v 0.0002781225674454771, Call_gen_oh 6,
     Assign_a 0.5539453011883145, Assign_b 0.3088503806580094, Assign_v 0.0002805881254045684, Call_gen_oh 6,
     Assign_a 0.5864196762401251, Assign_b 0.3425904245906614, Assign_v 0.0002821719877004913, Call_gen_oh 6,
     Assign_a 0.6171484466668390, Assign_b 0.3752562294789468, Assign_v 0.0002830222502333124, Call_gen_oh 6,
     Assign_a 0.3350337830565727, Assign_b 0.03261589934634747, Assign_v 0.0002457995956744870, Call_gen_oh 6,
     Assign_a 0.3775773224758284, Assign_b 0.06658438928081572, Assign_v 0.0002551474407503706, Call_gen_oh 6,
     Assign_a 0.4188155229848973, Assign_b 0.1014565797157954, Assign_v 0.0002629065335195311, Call_gen_oh 6,
     Assign_a 0.4586805892009344, Assign_b 0.1368573320843822, Assign_v 0.0002691900449925075, Call_gen_oh 6,
     Assign_a 0.4970895714224235, Assign_b 0.1724614851951608, Assign_v 0.0002741275485754276, Call_gen_oh 6,
     Assign_a 0.5339505133960747, Assign_b 0.2079779381416412, Assign_v 0.0002778530970122595, Call_gen_oh 6,
     Assign_a 0.5691665792531440, Assign_b 0.2431385788322288, Assign_v 0.0002805010567646741, Call_gen_oh 6,
     Assign_a 0.6026387682680377, Assign_b 0.2776901883049853, Assign_v 0.0002822055834031040, Call_gen_oh 6,
     Assign_a 0.6342676150163307, Assign_b 0.3113881356386632, Assign_v 0.0002831016901243473, Call_gen_oh 6,
     Assign_a 0.4237951119537067, Assign_b 0.03394877848664351, Assign_v 0.0002624474901131803, Call_gen_oh 6,
     Assign_a 0.4656918683234929, Assign_b 0.06880219556291447, Assign_v 0.0002688034163039377, Call_gen_oh 6,
     Assign_a 0.5058857069185980, Assign_b 0.1041946859721635, Assign_v 0.0002738932751287636, Call_gen_oh 6,
     Assign_a 0.5443204666713996, Assign_b 0.1398039738736393, Assign_v 0.0002777944791242523, Call_gen_oh 6,
     Assign_a 0.5809298813759742, Assign_b 0.1753373381196155, Assign_v 0.0002806011661660987, Call_gen_oh 6,
     Assign_a 0.6156416039447128, Assign_b 0.2105215793514010, Assign_v 0.0002824181456597460, Call_gen_oh 6,
     Assign_a 0.6483801351066604, Assign_b 0.2450953312157051, Assign_v 0.0002833585216577828, Call_gen_oh 6,
     Assign_a 0.5103616577251688, Assign_b 0.03485560643800719, Assign_v 0.0002738165236962878, Call_gen_oh 6,
     Assign_a 0.5506738792580681, Assign_b 0.07026308631512033, Assign_v 0.0002778365208203180, Call_gen_oh 6,
     Assign_a 0.5889573040995292, Assign_b 0.1059035061296403, Assign_v 0.0002807852940418966, Call_gen_oh 6,
     Assign_a 0.6251641589516930, Assign_b 0.1414823925236026, Assign_v 0.0002827245949674705, Call_gen_oh 6,
     Assign_a 0.6592414921570178, Assign_b 0.1767207908214530, Assign_v 0.0002837342344829828, Call_gen_oh 6,
     Assign_a 0.5930314017533384, Assign_b 0.03542189339561672, Assign_v 0.0002809233907610981, Call_gen_oh 6,
     Assign_a 0.6309812253390175, Assign_b 0.07109574040369549, Assign_v 0.0002829930809742694, Call_gen_oh 6,
     Assign_a 0.6666296011353230, Assign_b 0.1067259792282730, Assign_v 0.0002841097874111479, Call_gen_oh 6,
     Assign_a 0.6703715271049922, Assign_b 0.03569455268820809, Assign_v 0.0002843455206008783, Call_gen_oh 6]"

definition ld3890 :: "mem \<Rightarrow> fault + nat \<times> mem" where
  "ld3890 = ld_routine ld3890_body"

definition ld4334_body :: "stmt list" where
  "ld4334_body =
    [Assign_v 0.00001449063022537883, Call_gen_oh 1,
     Assign_v 0.0002546377329828424, Call_gen_oh 3,
     Assign_a 0.01462896151831013, Assign_v 0.00006018432961087496, Call_gen_oh 4,
     Assign_a 0.03769840812493139, Assign_v 0.0001002286583263673, Call_gen_oh 4,
     Assign_a 0.06524701904096891, Assign_v 0.0001315222931028093, Call_gen_oh 4,
     Assign_a 0.09560543416134648, Assign_v 0.0001564213746876724, Call_gen_oh 4,
     Assign_a 0.1278335898929198, Assign_v 0.0001765118841507736, Call_gen_oh 4,
     Assign_a 0.1613096104466031, Assign_v 0.0001928737099311080, Call_gen_oh 4,
     Assign_a 0.1955806225745371, Assign_v 0.0002062658534263270, Call_gen_oh 4,
     Assign_a 0.2302935218498028, Assign_v 0.0002172395445953787, Call_gen_oh 4,
     Assign_a 0.2651584344113027, Assign_v 0.0002262076188876047, Call_gen_oh 4,
     Assign_a 0.2999276825183209, Assign_v 0.0002334885699462397, Call_gen_oh 4,
     Assign_a 0.3343828669718798, Assign_v 0.0002393355273179203, Call_gen_oh 4,
     Assign_a 0.3683265013750518, Assign_v 0.0002439559200468863, Call_gen_oh 4,
     Assign_a 0.4015763206518108, Assign_v 0.0002475251866060002, Call_gen_oh 4,
     Assign_a 0.4339612026399770, Assign_v 0.0002501965558158773, Call_gen_oh 4,
     Assign_a 0.4653180651114582, Assign_v 0.0002521081407925925, Call_gen_oh 4,
     Assign_a 0.4954893331080803, Assign_v 0.0002533881002388081, Call_gen_oh 4,
     Assign_a 0.5243207068924930, Assign_v 0.0002541582900848261, Call_gen_oh 4,
     Assign_a 0.5516590479041704, Assign_v 0.0002545365737525860, Call_gen_oh 4,
     Assign_a 0.6012371927804176, Assign_v 0.0002545726993066799, Call_gen_oh 4,
     Assign_a 0.6231574466449819, Assign_v 0.0002544456197465555, Call_gen_oh 4,
     Assign_a 0.6429416514181271, Assign_v 0.0002543481596881064, Call_gen_oh 4,
     Assign_a 0.6604124272943595, Assign_v 0.0002543506451429194, Call_gen_oh 4,
     Assign_a 0.6753851470408250, Assign_v 0.0002544905675493763, Call_gen_oh 4,
     Assign_a 0.6876717970626160, Assign_v 0.0002547611407344429, Call_gen_oh 4,
     Assign_a 0.6970895061319234, Assign_v 0.0002551060375448869, Call_gen_oh 4,
     Assign_a 0.7034746912553310, Assign_v 0.0002554291933816039, Call_gen_oh 4,
     Assign_a 0.7067017217542295, Assign_v 0.0002556255710686343, Call_gen_oh 4,
     Assign_a 0.04382223501131123, Assign_v 0.00009041339695118195, Call_gen_oh 5,
     Assign_a 0.1117474077400006, Assign_v 0.0001438426330079022, Call_gen_oh 5,
     Assign_a 0.1897153252911440, Assign_v 0.0001802523089820518, Call_gen_oh 5,
     Assign_a 0.2724023009910331, Assign_v 0.0002060052290565496, Call_gen_oh 5,
     Assign_a 0.3567163308709902, Assign_v 0.0002245002248967466, Call_gen_oh 5,
     Assign_a 0.4404784483028087, Assign_v 0.0002377059847731150, Call_gen_oh 5,
     Assign_a 0.5219833154161411, Assign_v 0.0002468118955882525, Call_gen_oh 5,
     Assign_a 0.5998179868977553, Assign_v 0.0002525410872966528, Call_gen_oh 5,
     Assign_a 0.6727803154548222, Assign_v 0.0002553101409933397, Call_gen_oh 5,
     Assign_a 0.07476563943166086, Assign_b 0.02193168509461185, Assign_v 0.0001212879733668632, Call_gen_oh 6,
     Assign_a 0.1075341482001416, Assign_b 0.04826419281533887, Assign_v 0.0001472872881270931, Call_gen_oh 6,
     Assign_a 0.1416344885203259, Assign_b 0.07751191883575742, Assign_v 0.0001686846601010828, Call_gen_oh 6,
     Assign_a 0.1766325315388586, Assign_b 0.1087558139247680, Assign_v 0.0001862698414660208, Call_gen_oh 6,
     Assign_a 0.2121744174481514, Assign_b 0.1413661374253096, Assign_v 0.0002007430956991861, Call_gen_oh 6,
     Assign_a 0.2479669443408145, Assign_b 0.1748768214258880, Assign_v 0.0002126568125394796, Call_gen_oh 6,
     Assign_a 0.2837600452294113, Assign_b 0.2089216406612073, Assign_v 0.0002224394603372113, Call_gen_oh 6,
     Assign_a 0.3193344933193984, Assign_b 0.2431987685545972, Assign_v 0.0002304264522673135, Call_gen_oh 6,
     Assign_a 0.3544935442438745, Assign_b 0.2774497054377770, Assign_v 0.0002368854288424087, Call_gen_oh 6,
     Assign_a 0.3890571932288154, Assign_b 0.3114460356156915, Assign_v 0.0002420352089461772, Call_gen_oh 6,
     Assign_a 0.4228581214259090, Assign_b 0.3449806851913012, Assign_v 0.0002460597113081295, Call_gen_oh 6,
     Assign_a 0.4557387211304052, Assign_b 0.3778618641248256, Assign_v 0.0002491181912257687, Call_gen_oh 6,
     Assign_a 0.4875487950541643, Assign_b 0.4099086391698978, Assign_v 0.0002513528194205857, Call_gen_oh 6,
     Assign_a 0.5181436529962997, Assign_b 0.4409474925853973, Assign_v 0.0002528943096693220, Call_gen_oh 6,
     Assign_a 0.5473824095600661, Assign_b 0.4708094517711291, Assign_v 0.0002538660368488136, Call_gen_oh 6,
     Assign_a 0.5751263398976174, Assign_b 0.4993275140354637, Assign_v 0.0002543868648299022, Call_gen_oh 6,
     Assign_a 0.1489515746840028, Assign_b 0.02599381993267017, Assign_v 0.0001642595537825183, Call_gen_oh 6,
     Assign_a 0.1863656444351767, Assign_b 0.05479286532462190, Assign_v 0.0001818246659849308, Call_gen_oh 6,
     Assign_a 0.2238602880356348, Assign_b 0.08556763251425254, Assign_v 0.0001966565649492420, Call_gen_oh 6,
     Assign_a 0.2612723375728160, Assign_b 0.1177257802267011, Assign_v 0.0002090677905657991, Call_gen_oh 6,
     Assign_a 0.2984332990206190, Assign_b 0.1508168456192700, Assign_v 0.0002193820409510504, Call_gen_oh 6,
     Assign_a 0.3351786584663333, Assign_b 0.1844801892177727, Assign_v 0.0002278870827661928, Call_gen_oh 6,
     Assign_a 0.3713505522209120, Assign_b 0.2184145236087598, Assign_v 0.0002348283192282090, Call_gen_oh 6,
     Assign_a 0.4067981098954663, Assign_b 0.2523590641486229, Assign_v 0.0002404139755581477, Call_gen_oh 6,
     Assign_a 0.4413769993687534, Assign_b 0.2860812976901373, Assign_v 0.0002448227407760734, Call_gen_oh 6,
     Assign_a 0.4749487182516394, Assign_b 0.3193686757808996, Assign_v 0.0002482110455592573, Call_gen_oh 6,
     Assign_a 0.5073798105075426, Assign_b 0.3520226949547602, Assign_v 0.0002507192397774103, Call_gen_oh 6,
     Assign_a 0.5385410448878654, Assign_b 0.3838544395667890, Assign_v 0.0002524765968534880, Call_gen_oh 6,
     Assign_a 0.5683065353670530, Assign_b 0.4146810037640963, Assign_v 0.0002536052388539425, Call_gen_oh 6,
     Assign_a 0.5965527620663510, Assign_b 0.4443224094681121, Assign_v 0.0002542230588033068, Call_gen_oh 6,
     Assign_a 0.2299227700856157, Assign_b 0.02865757664057584, Assign_v 0.0001944817013047896, Call_gen_oh 6,
     Assign_a 0.2695752998553267, Assign_b 0.05923421684485993, Assign_v 0.0002067862362746635, Call_gen_oh 6,
     Assign_a 0.3086178716611389, Assign_b 0.09117817776057715, Assign_v 0.0002172440734649114, Call_gen_oh 6,
     Assign_a 0.3469649871659077, Assign_b 0.1240593814082605, Assign_v 0.0002260125991723423, Call_gen_oh 6,
     Assign_a 0.3845153566319655, Assign_b 0.1575272058259175, Assign_v 0.0002332655008689523, Call_gen_oh 6,
     Assign_a 0.4211600033403215, Assign_b 0.1912845163525413, Assign_v 0.0002391699681532458, Call_gen_oh 6,
     Assign_a 0.4567867834329882, Assign_b 0.2250710177858171, Assign_v 0.0002438801528273928, Call_gen_oh 6,
     Assign_a 0.4912829319232061, Assign_b 0.2586521303440910, Assign_v 0.0002475370504260665, Call_gen_oh 6,
     Assign_a 0.5245364793303812, Assign_b 0.2918112242865407, Assign_v 0.0002502707235640574, Call_gen_oh 6,
     Assign_a 0.5564369788915756, Assign_b 0.3243439239067890, Assign_v 0.0002522031701054241, Call_gen_oh 6,
     Assign_a 0.5868757697775287, Assign_b 0.3560536787835351, Assign_v 0.0002534511269978784, Call_gen_oh 6,
     Assign_a 0.6157458853519617, Assign_b 0.3867480821242581, Assign_v 0.0002541284914955151, Call_gen_oh 6,
     Assign_a 0.3138461110672113, Assign_b 0.03051374637507278, Assign_v 0.0002161509250688394, Call_gen_oh 6,
     Assign_a 0.3542495872050569, Assign_b 0.06237111233730755, Assign_v 0.0002248778513437852, Call_gen_oh 6,
     Assign_a 0.3935751553120181, Assign_b 0.09516223952401907, Assign_v 0.0002322388803404617, Call_gen_oh 6,
     Assign_a 0.4317634668111147, Assign_b 0.1285467341508517, Assign_v 0.0002383265471001355, Call_gen_oh 6,
     Assign_a 0.4687413842250821, Assign_b 0.1622318931656033, Assign_v 0.0002432476675019525, Call_gen_oh 6,
     Assign_a 0.5044274237060283, Assign_b 0.1959581153836453, Assign_v 0.0002471122223750674, Call_gen_oh 6,
     Assign_a 0.5387354077925727, Assign_b 0.2294888081183837, Assign_v 0.0002500291752486870, Call_gen_oh 6,
     Assign_a 0.5715768898356105, Assign_b 0.2626031152713945, Assign_v 0.0002521055942764682, Call_gen_oh 6,
     Assign_a 0.6028627200136111, Assign_b 0.2950904075286713, Assign_v 0.0002534472785575503, Call_gen_oh 6,
     Assign_a 0.6325039812653463, Assign_b 0.3267458451113286, Assign_v 0.0002541599713080121, Call_gen_oh 6,
     Assign_a 0.3981986708423407, Assign_b 0.03183291458749821, Assign_v 0.0002317380975862936, Call_gen_oh 6,
     Assign_a 0.4382791182133300, Assign_b 0.06459548193880908, Assign_v 0.0002378550733719775, Call_gen_oh 6,
     Assign_a 0.4769233057218166, Assign_b 0.09795757037087952, Assign_v 0.0002428884456739118, Call_gen_oh 6,
     Assign_a 0.5140823911194238, Assign_b 0.1316307235126655, Assign_v 0.0002469002655757292, Call_gen_oh 6,
     Assign_a 0.5496977833862983, Assign_b 0.1653556486358704, Assign_v 0.0002499657574265851, Call_gen_oh 6,
     Assign_a 0.5837047306512727, Assign_b 0.1988931724126510, Assign_v 0.0002521676168486082, Call_gen_oh 6,
     Assign_a 0.6160349566926879, Assign_b 0.2320174581438950, Assign_v 0.0002535935662645334, Call_gen_oh 6,
     Assign_a 0.6466185353209440, Assign_b 0.2645106562168662, Assign_v 0.0002543356743363214, Call_gen_oh 6,
     Assign_a 0.4810835158795404, Assign_b 0.03275917807743992, Assign_v 0.0002427353285201535, Call_gen_oh 6,
     Assign_a 0.5199925041324341, Assign_b 0.06612546183967181, Assign_v 0.0002468258039744386, Call_gen_oh 6,
     Assign_a 0.5571717692207494, Assign_b 0.09981498331474143, Assign_v 0.0002500060956440310, Call_gen_oh 6,
     Assign_a 0.5925789250836378, Assign_b 0.1335687001410374, Assign_v 0.0002523238365420979, Call_gen_oh 6,
     Assign_a 0.6261658523859670, Assign_b 0.1671444402896463, Assign_v 0.0002538399260252846, Call_gen_oh 6,
     Assign_a 0.6578811126669331, Assign_b 0.2003106382156076, Assign_v 0.0002546255927268069, Call_gen_oh 6,
     Assign_a 0.5609624612998100, Assign_b 0.03337500940231335, Assign_v 0.0002500583360048449, Call_gen_oh 6,
     Assign_a 0.5979959659984670, Assign_b 0.06708750335901803, Assign_v 0.0002524777638260203, Call_gen_oh 6,
     Assign_a 0.6330523711054002, Assign_b 0.1008792126424850, Assign_v 0.0002540951193860656, Call_gen_oh 6,
     Assign_a 0.6660960998103972, Assign_b 0.1345050343171794, Assign_v 0.0002549524085027472, Call_gen_oh 6,
     Assign_a 0.6365384364585819, Assign_b 0.03372799460737052, Assign_v 0.0002542569507009158, Call_gen_oh 6,
     Assign_a 0.6710994302899275, Assign_b 0.06755249309678028, Assign_v 0.0002552114127580376, Call_gen_oh 6]"

definition ld4334 :: "mem \<Rightarrow> fault + nat \<times> mem" where
  "ld4334 = ld_routine ld4334_body"

definition ld4802_body :: "stmt list" where
  "ld4802_body =
    [Assign_v 0.00009687521879420705, Call_gen_oh 1,
     Assign_v 0.0002307897895367918, Call_gen_oh 2,
     Assign_v 0.0002297310852498558, Call_gen_oh 3,
     Assign_a 0.02335728608887064, Assign_v 0.00007386265944001919, Call_gen_oh 4,
     Assign_a 0.04352987836550653, Assign_v 0.00008257977698542210, Call_gen_oh 4,
     Assign_a 0.06439200521088801, Assign_v 0.00009706044762057630, Call_gen_oh 4,
     Assign_a 0.09003943631993181, Assign_v 0.0001302393847117003, Call_gen_oh 4,
     Assign_a 0.1196706615548473, Assign_v 0.0001541957004600968, Call_gen_oh 4,
     Assign_a 0.1511715412838134, Assign_v 0.0001704459770092199, Call_gen_oh 4,
     Assign_a 0.1835982828503801, Assign_v 0.0001827374890942906, Call_gen_oh 4,
     Assign_a 0.2165081259155405, Assign_v 0.0001926360817436107, Call_gen_oh 4,
     Assign_a 0.2496208720417563, Assign_v 0.0002008010239494833, Call_gen_oh 4,
     Assign_a 0.2827200673567900, Assign_v 0.0002075635983209175, Call_gen_oh 4,
     Assign_a 0.3156190823994346, Assign_v 0.0002131306638690909, Call_gen_oh 4,
     Assign_a 0.3481476793749115, Assign_v 0.0002176562329937335, Call_gen_oh 4,
     Assign_a 0.3801466086947226, Assign_v 0.0002212682262991018, Call_gen_oh 4,
     Assign_a 0.4114652119634011, Assign_v 0.0002240799515668565, Call_gen_oh 4,
     Assign_a 0.4419598786519751, Assign_v 0.0002261959816187525, Call_gen_oh 4,
     Assign_a 0.4714925949329543, Assign_v 0.0002277156368808855, Call_gen_oh 4,
     Assign_a 0.4999293972879466, Assign_v 0.0002287351772128336, Call_gen_oh 4,
     Assign_a 0.5271387221431248, Assign_v 0.0002293490814084085, Call_gen_oh 4,
     Assign_a 0.5529896780837761, Assign_v 0.0002296505312376273, Call_gen_oh 4,
     Assign_a 0.6000856099481712, Assign_v 0.0002296793832318756, Call_gen_oh 4,
     Assign_a 0.6210562192785175, Assign_v 0.0002295785443842974, Call_gen_oh 4,
     Assign_a 0.6401165879934240, Assign_v 0.0002295017931529102, Call_gen_oh 4,
     Assign_a 0.6571144029244334, Assign_v 0.0002295059638184868, Call_gen_oh 4,
     Assign_a 0.6718910821718863, Assign_v 0.0002296232343237362, Call_gen_oh 4,
     Assign_a 0.6842845591099010, Assign_v 0.0002298530178740771, Call_gen_oh 4,
     Assign_a 0.6941353476269816, Assign_v 0.0002301579790280501, Call_gen_oh 4,
     Assign_a 0.7012965242212991, Assign_v 0.0002304690404996513, Call_gen_oh 4,
     Assign_a 0.7056471428242644, Assign_v 0.0002307027995907102, Call_gen_oh 4,
     Assign_a 0.04595557643585895, Assign_v 0.00009312274696671092, Call_gen_oh 5,
     Assign_a 0.1049316742435023, Assign_v 0.0001199919385876926, Call_gen_oh 5,
     Assign_a 0.1773548879549274, Assign_v 0.0001598039138877690, Call_gen_oh 5,
     Assign_a 0.2559071411236127, Assign_v 0.0001822253763574900, Call_gen_oh 5,
     Assign_a 0.3358156837985898, Assign_v 0.0001988579593655040, Call_gen_oh 5,
     Assign_a 0.4155835743763893, Assign_v 0.0002112620102533307, Call_gen_oh 5,
     Assign_a 0.4937894296167472, Assign_v 0.0002201594887699007, Call_gen_oh 5,
     Assign_a 0.5691569694793316, Assign_v 0.0002261622590895036, Call_gen_oh 5,
     Assign_a 0.6405840854894251, Assign_v 0.0002296458453435705, Call_gen_oh 5,
     Assign_a 0.07345133894143348, Assign_b 0.02177844081486067, Assign_v 0.0001006006990267000, Call_gen_oh 6,
     Assign_a 0.1009859834044931, Assign_b 0.04590362185775188, Assign_v 0.0001227676689635876, Call_gen_oh 6,
     Assign_a 0.1324289619748758, Assign_b 0.07255063095690877, Assign_v 0.0001467864280270117, Call_gen_oh 6,
     Assign_a 0.1654272109607127, Assign_b 0.1017825451960684, Assign_v 0.0001644178912101232, Call_gen_oh 6,
     Assign_a 0.1990767186776461, Assign_b 0.1325652320980364, Assign_v 0.0001777664890718961, Call_gen_oh 6,
     Assign_a 0.2330125945523278, Assign_b 0.1642765374496765, Assign_v 0.0001884825664516690, Call_gen_oh 6,
     Assign_a 0.2670080611108287, Assign_b 0.1965360374337889, Assign_v 0.0001973269246453848, Call_gen_oh 6,
     Assign_a 0.3008753376294316, Assign_b 0.2290726770542238, Assign_v 0.0002046767775855328, Call_gen_oh 6,
     Assign_a 0.3344475596167860, Assign_b 0.2616645495370823, Assign_v 0.0002107600125918040, Call_gen_oh 6,
     Assign_a 0.3675709724070786, Assign_b 0.2941150728843141, Assign_v 0.0002157416362266829, Call_gen_oh 6,
     Assign_a 0.4001000887587812, Assign_b 0.3262440400919066, Assign_v 0.0002197557816920721, Call_gen_oh 6,
     Assign_a 0.4318956350436028, Assign_b 0.3578835350611916, Assign_v 0.0002229192611835437, Call_gen_oh 6,
     Assign_a 0.4628239056795531, Assign_b 0.3888751854043678, Assign_v 0.0002253385110212775, Call_gen_oh 6,
     Assign_a 0.4927563229773636, Assign_b 0.4190678003222840, Assign_v 0.0002271137107548774, Call_gen_oh 6,
     Assign_a 0.5215687136707969, Assign_b 0.4483151836883852, Assign_v 0.0002283414092917525, Call_gen_oh 6,
     Assign_a 0.5491402346984905, Assign_b 0.4764740676087880, Assign_v 0.0002291161673130077, Call_gen_oh 6,
     Assign_a 0.5753520160126075, Assign_b 0.5034021310998277, Assign_v 0.0002295313908576598, Call_gen_oh 6,
     Assign_a 0.1388326356417754, Assign_b 0.02435436510372806, Assign_v 0.0001438204721359031, Call_gen_oh 6,
     Assign_a 0.1743686900537244, Assign_b 0.05118897057342652, Assign_v 0.0001607738025495257, Call_gen_oh 6,
     Assign_a 0.2099737037950268, Assign_b 0.08014695048539634, Assign_v 0.0001741483853528379, Call_gen_oh 6,
     Assign_a 0.2454492590908548, Assign_b 0.1105117874155699, Assign_v 0.0001851918467519151, Call_gen_oh 6,
     Assign_a 0.2807219257864278, Assign_b 0.1417950531570966, Assign_v 0.0001944628638070613, Call_gen_oh 6,
     Assign_a 0.3156842271975842, Assign_b 0.1736604945719597, Assign_v 0.0002022495446275152, Call_gen_oh 6,
     Assign_a 0.3502090945177752, Assign_b 0.2058466324693981, Assign_v 0.0002087462382438514, Call_gen_oh 6,
     Assign_a 0.3841684849519686, Assign_b 0.2381284261195919, Assign_v 0.0002141074754818308, Call_gen_oh 6,
     Assign_a 0.4174372367906016, Assign_b 0.2703031270422569, Assign_v 0.0002184640913748162, Call_gen_oh 6,
     Assign_a 0.4498926465011892, Assign_b 0.3021845683091309, Assign_v 0.0002219309165220329, Call_gen_oh 6,
     Assign_a 0.4814146229807701, Assign_b 0.3335993355165720, Assign_v 0.0002246123118340624, Call_gen_oh 6,
     Assign_a 0.5118863625734701, Assign_b 0.3643833735518232, Assign_v 0.0002266062766915125, Call_gen_oh 6,
     Assign_a 0.5411947455119144, Assign_b 0.3943789541958179, Assign_v 0.0002280072952230796, Call_gen_oh 6,
     Assign_a 0.5692301500357246, Assign_b 0.4234320144403542, Assign_v 0.0002289082025202583, Call_gen_oh 6,
     Assign_a 0.5958857204139576, Assign_b 0.4513897947419260, Assign_v 0.0002294012695120025, Call_gen_oh 6,
     Assign_a 0.2156270284785766, Assign_b 0.02681225755444491, Assign_v 0.0001722434488736947, Call_gen_oh 6,
     Assign_a 0.2532385054909710, Assign_b 0.05557495747805614, Assign_v 0.0001830237421455091, Call_gen_oh 6,
     Assign_a 0.2902564617771537, Assign_b 0.08569368062950249, Assign_v 0.0001923855349997633, Call_gen_oh 6,
     Assign_a 0.3266979823143256, Assign_b 0.1167367450324135, Assign_v 0.0002004067861936271, Call_gen_oh 6,
     Assign_a 0.3625039627493614, Assign_b 0.1483861994003304, Assign_v 0.0002071817297354263, Call_gen_oh 6,
     Assign_a 0.3975838937548699, Assign_b 0.1803821503011405, Assign_v 0.0002128250834102103, Call_gen_oh 6,
     Assign_a 0.4318396099009774, Assign_b 0.2124962965666424, Assign_v 0.0002174513719440102, Call_gen_oh 6,
     Assign_a 0.4651706555732742, Assign_b 0.2445221837805913, Assign_v 0.0002211661839150214, Call_gen_oh 6,
     Assign_a 0.4974752649620969, Assign_b 0.2762701224322987, Assign_v 0.0002240665257813102, Call_gen_oh 6,
     Assign_a 0.5286517579627517, Assign_b 0.3075627775211328, Assign_v 0.0002262439516632620, Call_gen_oh 6,
     Assign_a 0.5586001195731895, Assign_b 0.3382311089826877, Assign_v 0.0002277874557231869, Call_gen_oh 6,
     Assign_a 0.5872229902021319, Assign_b 0.3681108834741399, Assign_v 0.0002287854314454994, Call_gen_oh 6,
     Assign_a 0.6144258616235123, Assign_b 0.3970397446872839, Assign_v 0.0002293268499615575, Call_gen_oh 6,
     Assign_a 0.2951676508064861, Assign_b 0.02867499538750441, Assign_v 0.0001912628201529828, Call_gen_oh 6,
     Assign_a 0.3335085485472725, Assign_b 0.05867879341903510, Assign_v 0.0001992499672238701, Call_gen_oh 6,
     Assign_a 0.3709561760636381, Assign_b 0.08961099205022284, Assign_v 0.0002061275533454027, Call_gen_oh 6,
     Assign_a 0.4074722861667498, Assign_b 0.1211627927626297, Assign_v 0.0002119318215968572, Call_gen_oh 6,
     Assign_a 0.4429923648839117, Assign_b 0.1530748903554898, Assign_v 0.0002167416581882652, Call_gen_oh 6,
     Assign_a 0.4774428052721736, Assign_b 0.1851176436721877, Assign_v 0.0002206430730516600, Call_gen_oh 6,
     Assign_a 0.5107446539535904, Assign_b 0.2170829107658179, Assign_v 0.0002237186938699523, Call_gen_oh 6,
     Assign_a 0.5428151370542935, Assign_b 0.2487786689026271, Assign_v 0.0002260480075032884, Call_gen_oh 6,
     Assign_a 0.5735699292556964, Assign_b 0.2800239952795016, Assign_v 0.0002277098884558542, Call_gen_oh 6,
     Assign_a 0.6029253794562866, Assign_b 0.3106445702878119, Assign_v 0.0002287845715109671, Call_gen_oh 6,
     Assign_a 0.6307998987073145, Assign_b 0.3404689500841194, Assign_v 0.0002293547268236294, Call_gen_oh 6,
     Assign_a 0.3752652273692719, Assign_b 0.02997145098184479, Assign_v 0.0002056073839852528, Call_gen_oh 6,
     Assign_a 0.4135383879344028, Assign_b 0.06086725898678011, Assign_v 0.0002114235865831876, Call_gen_oh 6,
     Assign_a 0.4506113885153907, Assign_b 0.09238849548435643, Assign_v 0.0002163175629770551, Call_gen_oh 6,
     Assign_a 0.4864401554606072, Assign_b 0.1242786603851851, Assign_v 0.0002203392158111650, Call_gen_oh 6,
     Assign_a 0.5209708076611709, Assign_b 0.1563086731483386, Assign_v 0.0002235473176847839, Call_gen_oh 6,
     Assign_a 0.5541422135830122, Assign_b 0.1882696509388506, Assign_v 0.0002260024141501235, Call_gen_oh 6,
     Assign_a 0.5858880915113817, Assign_b 0.2199672979126059, Assign_v 0.0002277675929329182, Call_gen_oh 6,
     Assign_a 0.6161399390603444, Assign_b 0.2512165482924867, Assign_v 0.0002289102112284834, Call_gen_oh 6,
     Assign_a 0.6448296482255090, Assign_b 0.2818368701871888, Assign_v 0.0002295027954625118, Call_gen_oh 6,
     Assign_a 0.4544796274917948, Assign_b 0.03088970405060312, Assign_v 0.0002161281589879992, Call_gen_oh 6,
     Assign_a 0.4919389072146628, Assign_b 0.06240947677636835, Assign_v 0.0002201980477395102, Call_gen_oh 6,
     Assign_a 0.5279313026985183, Assign_b 0.09430706144280313, Assign_v 0.0002234952066593166, Call_gen_oh 6,
     Assign_a 0.5624169925571135, Assign_b 0.1263547818770374, Assign_v 0.0002260540098520838, Call_gen_oh 6,
     Assign_a 0.5953484627093287, Assign_b 0.1583430788822594, Assign_v 0.0002279157981899988, Call_gen_oh 6,
     Assign_a 0.6266730715339185, Assign_b 0.1900748462555988, Assign_v 0.0002291296918565571, Call_gen_oh 6,
     Assign_a 0.6563363204278871, Assign_b 0.2213599519592567, Assign_v 0.0002297533752536649, Call_gen_oh 6,
     Assign_a 0.5314574716585696, Assign_b 0.03152508811515374, Assign_v 0.0002234927356465995, Call_gen_oh 6,
     Assign_a 0.5674614932298185, Assign_b 0.06343865291465561, Assign_v 0.0002261288012985219, Call_gen_oh 6,
     Assign_a 0.6017706004970264, Assign_b 0.09551503504223951, Assign_v 0.0002280818160923688, Call_gen_oh 6,
     Assign_a 0.6343471270264178, Assign_b 0.1275440099801196, Assign_v 0.0002293773295180159, Call_gen_oh 6,
     Assign_a 0.6651494599127802, Assign_b 0.1593252037671960, Assign_v 0.0002300528767338634, Call_gen_oh 6,
     Assign_a 0.6050184986005704, Assign_b 0.03192538338496105, Assign_v 0.0002281893855065666, Call_gen_oh 6,
     Assign_a 0.6390163550880400, Assign_b 0.06402824353962306, Assign_v 0.0002295720444840727, Call_gen_oh 6,
     Assign_a 0.6711199107088448, Assign_b 0.09609805077002909, Assign_v 0.0002303227649026753, Call_gen_oh 6,
     Assign_a 0.6741354429572275, Assign_b 0.03211853196273233, Assign_v 0.0002304831913227114, Call_gen_oh 6]"

definition ld4802 :: "mem \<Rightarrow> fault + nat \<times> mem" where
  "ld4802 = ld_routine ld4802_body"

definition ld5294_body :: "stmt list" where
  "ld5294_body =
    [Assign_v 0.00009080510764308163, Call_gen_oh 1,
     Assign_v 0.0002084824361987793, Call_gen_oh 3,
     Assign_a 0.02303261686261450, Assign_v 0.00005011105657239616, Call_gen_oh 4,
     Assign_a 0.03757208620162394, Assign_v 0.00005942520409683854, Call_gen_oh 4,
     Assign_a 0.05821912033821852, Assign_v 0.00009564394826109721, Call_gen_oh 4,
     Assign_a 0.08403127529194872, Assign_v 0.0001185530657126338, Call_gen_oh 4,
     Assign_a 0.1122927798060578, Assign_v 0.0001364510114230331, Call_gen_oh 4,
     Assign_a 0.1420125319192987, Assign_v 0.0001505828825605415, Call_gen_oh 4,
     Assign_a 0.1726396437341978, Assign_v 0.0001619298749867023, Call_gen_oh 4,
     Assign_a 0.2038170058115696, Assign_v 0.0001712450504267789, Call_gen_oh 4,
     Assign_a 0.2352849892876508, Assign_v 0.0001789891098164999, Call_gen_oh 4,
     Assign_a 0.2668363354312461, Assign_v 0.0001854474955629795, Call_gen_oh 4,
     Assign_a 0.2982941279900452, Assign_v 0.0001908148636673661, Call_gen_oh 4,
     Assign_a 0.3295002922087076, Assign_v 0.0001952377405281833, Call_gen_oh 4,
     Assign_a 0.3603094918363593, Assign_v 0.0001988349254282232, Call_gen_oh 4,
     Assign_a 0.3905857895173920, Assign_v 0.0002017079807160050, Call_gen_oh 4,
     Assign_a 0.4202005758160837, Assign_v 0.0002039473082709094, Call_gen_oh 4,
     Assign_a 0.4490310061597227, Assign_v 0.0002056360279288953, Call_gen_oh 4,
     Assign_a 0.4769586160311491, Assign_v 0.0002068525823066865, Call_gen_oh 4,
     Assign_a 0.5038679887049750, Assign_v 0.0002076724877534488, Call_gen_oh 4,
     Assign_a 0.5296454286519961, Assign_v 0.0002081694278237885, Call_gen_oh 4,
     Assign_a 0.5541776207164850, Assign_v 0.0002084157631219326, Call_gen_oh 4,
     Assign_a 0.5990467321921213, Assign_v 0.0002084381531128593, Call_gen_oh 4,
     Assign_a 0.6191467096294587, Assign_v 0.0002083476277129307, Call_gen_oh 4,
     Assign_a 0.6375251212901849, Assign_v 0.0002082686194459732, Call_gen_oh 4,
     Assign_a 0.6540514381131168, Assign_v 0.0002082475686112415, Call_gen_oh 4,
     Assign_a 0.6685899064391510, Assign_v 0.0002083139860289915, Call_gen_oh 4,
     Assign_a 0.6810013009681648, Assign_v 0.0002084745561831237, Call_gen_oh 4,
     Assign_a 0.6911469578730340, Assign_v 0.0002087091313375890, Call_gen_oh 4,
     Assign_a 0.6988956915141736, Assign_v 0.0002089718413297697, Call_gen_oh 4,
     Assign_a 0.7041335794868720, Assign_v 0.0002092003303479793, Call_gen_oh 4,
     Assign_a 0.7067754398018567, Assign_v 0.0002093336148263241, Call_gen_oh 4,
     Assign_a 0.03840368707853623, Assign_v 0.00007591708117365267, Call_gen_oh 5,
     Assign_a 0.09835485954117399, Assign_v 0.0001083383968169186, Call_gen_oh 5,
     Assign_a 0.1665774947612998, Assign_v 0.0001403019395292510, Call_gen_oh 5,
     Assign_a 0.2405702335362910, Assign_v 0.0001615970179286436, Call_gen_oh 5,
     Assign_a 0.3165270770189046, Assign_v 0.0001771144187504911, Call_gen_oh 5,
     Assign_a 0.3927386145645443, Assign_v 0.0001887760022988168, Call_gen_oh 5,
     Assign_a 0.4678825918374656, Assign_v 0.0001973474670768214, Call_gen_oh 5,
     Assign_a 0.5408022024266935, Assign_v 0.0002033787661234659, Call_gen_oh 5,
     Assign_a 0.6104967445752438, Assign_v 0.0002072343626517331, Call_gen_oh 5,
     Assign_a 0.6760910702685738, Assign_v 0.0002091177834226918, Call_gen_oh 5,
     Assign_a 0.06655644120217392, Assign_b 0.01936508874588424, Assign_v 0.00009316684484675566, Call_gen_oh 6,
     Assign_a 0.09446246161270182, Assign_b 0.04252442002115869, Assign_v 0.0001116193688682976, Call_gen_oh 6,
     Assign_a 0.1242651925452509, Assign_b 0.06806529315354374, Assign_v 0.0001298623551559414, Call_gen_oh 6,
     Assign_a 0.1553438064846751, Assign_b 0.09560957491205369, Assign_v 0.0001450236832456426, Call_gen_oh 6,
     Assign_a 0.1871137110542670, Assign_b 0.1245931657452888, Assign_v 0.0001572719958149914, Call_gen_oh 6,
     Assign_a 0.2192612628836257, Assign_b 0.1545385828778978, Assign_v 0.0001673234785867195, Call_gen_oh 6,
     Assign_a 0.2515682807206955, Assign_b 0.1851004249723368, Assign_v 0.0001756860118725188, Call_gen_oh 6,
     Assign_a 0.2838535866287290, Assign_b 0.2160182608272384, Assign_v 0.0001826776290439367, Call_gen_oh 6,
     Assign_a 0.3159578817528521, Assign_b 0.2470799012277111, Assign_v 0.0001885116347992865, Call_gen_oh 6,
     Assign_a 0.3477370882791392, Assign_b 0.2781014208986402, Assign_v 0.0001933457860170574, Call_gen_oh 6,
     Assign_a 0.3790576960890540, Assign_b 0.3089172523515731, Assign_v 0.0001973060671902064, Call_gen_oh 6,
     Assign_a 0.4097938317810200, Assign_b 0.3393750055472244, Assign_v 0.0002004987099616311, Call_gen_oh 6,
     Assign_a 0.4398256572859637, Assign_b 0.3693322470987730, Assign_v 0.0002030170909281499, Call_gen_oh 6,
     Assign_a 0.4690384114718480, Assign_b 0.3986541005609877, Assign_v 0.0002049461460119080, Call_gen_oh 6,
     Assign_a 0.4973216048301053, Assign_b 0.4272112491408562, Assign_v 0.0002063653565200186, Call_gen_oh 6,
     Assign_a 0.5245681526132446, Assign_b 0.4548781735309936, Assign_v 0.0002073507927381027, Call_gen_oh 6,
     Assign_a 0.5506733911803888, Assign_b 0.4815315355023251, Assign_v 0.0002079764593256122, Call_gen_oh 6,
     Assign_a 0.5755339829522475, Assign_b 0.5070486445801855, Assign_v 0.0002083150534968778, Call_gen_oh 6,
     Assign_a 0.1305472386056362, Assign_b 0.02284970375722366, Assign_v 0.0001262715121590664, Call_gen_oh 6,
     Assign_a 0.1637327908216477, Assign_b 0.04812254338288384, Assign_v 0.0001414386128545972, Call_gen_oh 6,
     Assign_a 0.1972734634149637, Assign_b 0.07531734457511935, Assign_v 0.0001538740401313898, Call_gen_oh 6,
     Assign_a 0.2308694653110130, Assign_b 0.1039043639882017, Assign_v 0.0001642434942331432, Call_gen_oh 6,
     Assign_a 0.2643899218338160, Assign_b 0.1334526587117626, Assign_v 0.0001729790609237496, Call_gen_oh 6,
     Assign_a 0.2977171599622171, Assign_b 0.1636414868936382, Assign_v 0.0001803505190260828, Call_gen_oh 6,
     Assign_a 0.3307293903032310, Assign_b 0.1942195406166568, Assign_v 0.0001865475350079657, Call_gen_oh 6,
     Assign_a 0.3633069198219073, Assign_b 0.2249752879943753, Assign_v 0.0001917182669679069, Call_gen_oh 6,
     Assign_a 0.3953346955922727, Assign_b 0.2557218821820032, Assign_v 0.0001959851709034382, Call_gen_oh 6,
     Assign_a 0.4267018394184914, Assign_b 0.2862897925213193, Assign_v 0.0001994529548117882, Call_gen_oh 6,
     Assign_a 0.4573009622571704, Assign_b 0.3165224536636518, Assign_v 0.0002022138911146548, Call_gen_oh 6,
     Assign_a 0.4870279559856109, Assign_b 0.3462730221636496, Assign_v 0.0002043518024208592, Call_gen_oh 6,
     Assign_a 0.5157819581450322, Assign_b 0.3754016870282835, Assign_v 0.0002059450313018110, Call_gen_oh 6,
     Assign_a 0.5434651666465393, Assign_b 0.4037733784993613, Assign_v 0.0002070685715318472, Call_gen_oh 6,
     Assign_a 0.5699823887764627, Assign_b 0.4312557784139123, Assign_v 0.0002077955310694373, Call_gen_oh 6,
     Assign_a 0.5952403350947741, Assign_b 0.4577175367122110, Assign_v 0.0002081980387824712, Call_gen_oh 6,
     Assign_a 0.2025152599210369, Assign_b 0.02520253617719557, Assign_v 0.0001521318610377956, Call_gen_oh 6,
     Assign_a 0.2381066653274425, Assign_b 0.05223254506119000, Assign_v 0.0001622772720185755, Call_gen_oh 6,
     Assign_a 0.2732823383651612, Assign_b 0.08060669688588620, Assign_v 0.0001710498139420709, Call_gen_oh 6,
     Assign_a 0.3080137692611118, Assign_b 0.1099335754081255, Assign_v 0.0001785911149448736, Call_gen_oh 6,
     Assign_a 0.3422405614587601, Assign_b 0.1399120955959857, Assign_v 0.0001850125313687736, Call_gen_oh 6,
     Assign_a 0.3758808773890420, Assign_b 0.1702977801651705, Assign_v 0.0001904229703933298, Call_gen_oh 6,
     Assign_a 0.4088458383438932, Assign_b 0.2008799256601680, Assign_v 0.0001949259956121987, Call_gen_oh 6,
     Assign_a 0.4410450550841152, Assign_b 0.2314703052180836, Assign_v 0.0001986161545363960, Call_gen_oh 6,
     Assign_a 0.4723879420561312, Assign_b 0.2618972111375892, Assign_v 0.0002015790585641370, Call_gen_oh 6,
     Assign_a 0.5027843561874343, Assign_b 0.2920013195600270, Assign_v 0.0002038934198707418, Call_gen_oh 6,
     Assign_a 0.5321453674452458, Assign_b 0.3216322555190551, Assign_v 0.0002056334060538251, Call_gen_oh 6,
     Assign_a 0.5603839113834030, Assign_b 0.3506456615934198, Assign_v 0.0002068705959462289, Call_gen_oh 6,
     Assign_a 0.5874150706875146, Assign_b 0.3789007181306267, Assign_v 0.0002076753906106002, Call_gen_oh 6,
     Assign_a 0.6131559381660038, Assign_b 0.4062580170572782, Assign_v 0.0002081179391734803, Call_gen_oh 6,
     Assign_a 0.2778497016394506, Assign_b 0.02696271276876226, Assign_v 0.0001700345216228943, Call_gen_oh 6,
     Assign_a 0.3143733562261912, Assign_b 0.05523469316960465, Assign_v 0.0001774906779990410, Call_gen_oh 6,
     Assign_a 0.3501485810261827, Assign_b 0.08445193201626464, Assign_v 0.0001839659377002642, Call_gen_oh 6,
     Assign_a 0.3851430322303653, Assign_b 0.1143263119336083, Assign_v 0.0001894987462975169, Call_gen_oh 6,
     Assign_a 0.4193013979470415, Assign_b 0.1446177898344475, Assign_v 0.0001941548809452595, Call_gen_oh 6,
     Assign_a 0.4525585960458567, Assign_b 0.1751165438438091, Assign_v 0.0001980078427252384, Call_gen_oh 6,
     Assign_a 0.4848447779622947, Assign_b 0.2056338306745660, Assign_v 0.0002011296284744488, Call_gen_oh 6,
     Assign_a 0.5160871208276894, Assign_b 0.2359965487229226, Assign_v 0.0002035888456966776, Call_gen_oh 6,
     Assign_a 0.5462112185696926, Assign_b 0.2660430223139146, Assign_v 0.0002054516325352142, Call_gen_oh 6,
     Assign_a 0.5751425068101757, Assign_b 0.2956193664498032, Assign_v 0.0002067831033092635, Call_gen_oh 6,
     Assign_a 0.6028073872853596, Assign_b 0.3245763905312779, Assign_v 0.0002076485320284876, Call_gen_oh 6,
     Assign_a 0.6291338275278409, Assign_b 0.3527670026206972, Assign_v 0.0002081141439525255, Call_gen_oh 6,
     Assign_a 0.3541797528439391, Assign_b 0.02823853479435550, Assign_v 0.0001834383015469222, Call_gen_oh 6,
     Assign_a 0.3908234972074657, Assign_b 0.05741296374713106, Assign_v 0.0001889540591777677, Call_gen_oh 6,
     Assign_a 0.4264408450107590, Assign_b 0.08724646633650199, Assign_v 0.0001936677023597375, Call_gen_oh 6,
     Assign_a 0.4609949666553286, Assign_b 0.1175034422915616, Assign_v 0.0001976176495066504, Call_gen_oh 6,
     Assign_a 0.4944389496536006, Assign_b 0.1479755652628428, Assign_v 0.0002008536004560983, Call_gen_oh 6,
     Assign_a 0.5267194884346086, Assign_b 0.1784740659484352, Assign_v 0.0002034280351712291, Call_gen_oh 6,
     Assign_a 0.5577787810220990, Assign_b 0.2088245700431244, Assign_v 0.0002053944466027758, Call_gen_oh 6,
     Assign_a 0.5875563763536670, Assign_b 0.2388628136570763, Assign_v 0.0002068077642882360, Call_gen_oh 6,
     Assign_a 0.6159910016391269, Assign_b 0.2684308928769185, Assign_v 0.0002077250949661599, Call_gen_oh 6,
     Assign_a 0.6430219602956268, Assign_b 0.2973740761960252, Assign_v 0.0002082062440705320, Call_gen_oh 6,
     Assign_a 0.4300647036213646, Assign_b 0.02916399920493977, Assign_v 0.0001934374486546626, Call_gen_oh 6,
     Assign_a 0.4661486308935531, Assign_b 0.05898803024755659, Assign_v 0.0001974107010484300, Call_gen_oh 6,
     Assign_a 0.5009658555287261, Assign_b 0.08924162698525409, Assign_v 0.0002007129290388658, Call_gen_oh 6,
     Assign_a 0.5344824270447704, Assign_b 0.1197185199637321, Assign_v 0.0002033736947471293, Call_gen_oh 6,
     Assign_a 0.5666575997416371, Assign_b 0.1502300756161382, Assign_v 0.0002054287125902493, Call_gen_oh 6,
     Assign_a 0.5974457471404752, Assign_b 0.1806004191913564, Assign_v 0.0002069184936818894, Call_gen_oh 6,
     Assign_a 0.6267984444116886, Assign_b 0.2106621764786252, Assign_v 0.0002078883689808782, Call_gen_oh 6,
     Assign_a 0.6546664713575417, Assign_b 0.2402526932671914, Assign_v 0.0002083886366116359, Call_gen_oh 6,
     Assign_a 0.5042711004437253, Assign_b 0.02982529203607657, Assign_v 0.0002006593275470817, Call_gen_oh 6,
     Assign_a 0.5392127456774380, Assign_b 0.06008728062339922, Assign_v 0.0002033728426135397, Call_gen_oh 6,
     Assign_a 0.5726819437668618, Assign_b 0.09058227674571398, Assign_v 0.0002055008781377608, Call_gen_oh 6,
     Assign_a 0.6046469254207278, Assign_b 0.1211219235803400, Assign_v 0.0002070651783518502, Call_gen_oh 6,
     Assign_a 0.6350716157434952, Assign_b 0.1515286404791580, Assign_v 0.0002080953335094320, Call_gen_oh 6,
     Assign_a 0.6639177679185454, Assign_b 0.1816314681255552, Assign_v 0.0002086284998988521, Call_gen_oh 6,
     Assign_a 0.5757276040972253, Assign_b 0.03026991752575440, Assign_v 0.0002055549387644668, Call_gen_oh 6,
     Assign_a 0.6090265823139755, Assign_b 0.06078402297870770, Assign_v 0.0002071871850267654, Call_gen_oh 6,
     Assign_a 0.6406735344387661, Assign_b 0.09135459984176636, Assign_v 0.0002082856600431965, Call_gen_oh 6,
     Assign_a 0.6706397927793709, Assign_b 0.1218024155966590, Assign_v 0.0002088705858819358, Call_gen_oh 6,
     Assign_a 0.6435019674426665, Assign_b 0.03052608357660639, Assign_v 0.0002083995867536322, Call_gen_oh 6,
     Assign_a 0.6747218676375681, Assign_b 0.06112185773983089, Assign_v 0.0002090509712889637, Call_gen_oh 6]"

definition ld5294 :: "mem \<Rightarrow> fault + nat \<times> mem" where
  "ld5294 = ld_routine ld5294_body"

definition ld5810_body :: "stmt list" where
  "ld5810_body =
    [Assign_v 0.000009735347946175486, Call_gen_oh 1,
     Assign_v 0.0001907581241803167, Call_gen_oh 2,
     Assign_v 0.0001901059546737578, Call_gen_oh 3,
     Assign_a 0.01182361662400277, Assign_v 0.00003926424538919212, Call_gen_oh 4,
     Assign_a 0.03062145009138958, Assign_v 0.00006667905467294382, Call_gen_oh 4,
     Assign_a 0.05329794036834243, Assign_v 0.00008868891315019135, Call_gen_oh 4,
     Assign_a 0.07848165532862220, Assign_v 0.0001066306000958872, Call_gen_oh 4,
     Assign_a 0.1054038157636201, Assign_v 0.0001214506743336128, Call_gen_oh 4,
     Assign_a 0.1335577797766211, Assign_v 0.0001338054681640871, Call_gen_oh 4,
     Assign_a 0.1625769955502252, Assign_v 0.0001441677023628504, Call_gen_oh 4,
     Assign_a 0.1921787193412792, Assign_v 0.0001528880200826557, Call_gen_oh 4,
     Assign_a 0.2221340534690548, Assign_v 0.0001602330623773609, Call_gen_oh 4,
     Assign_a 0.2522504912791132, Assign_v 0.0001664102653445244, Call_gen_oh 4,
     Assign_a 0.2823610860679697, Assign_v 0.0001715845854011323, Call_gen_oh 4,
     Assign_a 0.3123173966267560, Assign_v 0.0001758901000133069, Call_gen_oh 4,
     Assign_a 0.3419847036953789, Assign_v 0.0001794382485256736, Call_gen_oh 4,
     Assign_a 0.3712386456999758, Assign_v 0.0001823238106757407, Call_gen_oh 4,
     Assign_a 0.3999627649876828, Assign_v 0.0001846293252959976, Call_gen_oh 4,
     Assign_a 0.4280466458648093, Assign_v 0.0001864284079323098, Call_gen_oh 4,
     Assign_a 0.4553844360185711, Assign_v 0.0001877882694626914, Call_gen_oh 4,
     Assign_a 0.4818736094437834, Assign_v 0.0001887716321852025, Call_gen_oh 4,
     Assign_a 0.5074138709260629, Assign_v 0.0001894381638175673, Call_gen_oh 4,
     Assign_a 0.5319061304570707, Assign_v 0.0001898454899533629, Call_gen_oh 4,
     Assign_a 0.5552514978677286, Assign_v 0.0001900497929577815, Call_gen_oh 4,
     Assign_a 0.5981009025246183, Assign_v 0.0001900671501924092, Call_gen_oh 4,
     Assign_a 0.6173990192228116, Assign_v 0.0001899837555533510, Call_gen_oh 4,
     Assign_a 0.6351365239411131, Assign_v 0.0001899014113156229, Call_gen_oh 4,
     Assign_a 0.6512010228227200, Assign_v 0.0001898581257705106, Call_gen_oh 4,
     Assign_a 0.6654758363948120, Assign_v 0.0001898804756095753, Call_gen_oh 4,
     Assign_a 0.6778410414853370, Assign_v 0.0001899793610426402, Call_gen_oh 4,
     Assign_a 0.6881760887484110, Assign_v 0.0001901464554844117, Call_gen_oh 4,
     Assign_a 0.6963645267094598, Assign_v 0.0001903533246259542, Call_gen_oh 4,
     Assign_a 0.7023010617153579, Assign_v 0.0001905556158463228, Call_gen_oh 4,
     Assign_a 0.7059004636628753, Assign_v 0.0001907037155663528, Call_gen_oh 4,
     Assign_a 0.03552470312472575, Assign_v 0.00005992997844249967, Call_gen_oh 5,
     Assign_a 0.09151176620841283, Assign_v 0.00009749059382456978, Call_gen_oh 5,
     Assign_a 0.1566197930068980, Assign_v 0.0001241680804599158, Call_gen_oh 5,
     Assign_a 0.2265467599271907, Assign_v 0.0001437626154299360, Call_gen_oh 5,
     Assign_a 0.2988242318581361, Assign_v 0.0001584200054793902, Call_gen_oh 5,
     Assign_a 0.3717482419703886, Assign_v 0.0001694436550982744, Call_gen_oh 5,
     Assign_a 0.4440094491758889, Assign_v 0.0001776617014018108, Call_gen_oh 5,
     Assign_a 0.5145337096756642, Assign_v 0.0001836132434440077, Call_gen_oh 5,
     Assign_a 0.5824053672860230, Assign_v 0.0001876494727075983, Call_gen_oh 5,
     Assign_a 0.6468283961043370, Assign_v 0.0001899906535336482, Call_gen_oh 5,
     Assign_a 0.06095964259104373, Assign_b 0.01787828275342931, Assign_v 0.00008143252820767350, Call_gen_oh 6,
     Assign_a 0.08811962270959388, Assign_b 0.03953888740792096, Assign_v 0.00009998859890887728, Call_gen_oh 6,
     Assign_a 0.1165936722428831, Assign_b 0.06378121797722990, Assign_v 0.0001156199403068359, Call_gen_oh 6,
     Assign_a 0.1460232857031785, Assign_b 0.08985890813745037, Assign_v 0.0001287632092635513, Call_gen_oh 6,
     Assign_a 0.1761197110181755, Assign_b 0.1172606510576162, Assign_v 0.0001398378643365139, Call_gen_oh 6,
     Assign_a 0.2066471190463718, Assign_b 0.1456102876970995, Assign_v 0.0001491876468417391, Call_gen_oh 6,
     Assign_a 0.2374076026328152, Assign_b 0.1746153823011775, Assign_v 0.0001570855679175456, Call_gen_oh 6,
     Assign_a 0.2682305474337051, Assign_b 0.2040383070295584, Assign_v 0.0001637483948103775, Call_gen_oh 6,
     Assign_a 0.2989653312142369, Assign_b 0.2336788634003698, Assign_v 0.0001693500566632843, Call_gen_oh 6,
     Assign_a 0.3294762752772209, Assign_b 0.2633632752654219, Assign_v 0.0001740322769393633, Call_gen_oh 6,
     Assign_a 0.3596390887276086, Assign_b 0.2929369098051601, Assign_v 0.0001779126637278296, Call_gen_oh 6,
     Assign_a 0.3893383046398812, Assign_b 0.3222592785275512, Assign_v 0.0001810908108835412, Call_gen_oh 6,
     Assign_a 0.4184653789358347, Assign_b 0.3512004791195743, Assign_v 0.0001836529132600190, Call_gen_oh 6,
     Assign_a 0.4469172319076166, Assign_b 0.3796385677684537, Assign_v 0.0001856752841777379, Call_gen_oh 6,
     Assign_a 0.4745950813276976, Assign_b 0.4074575378263879, Assign_v 0.0001872270566606832, Call_gen_oh 6,
     Assign_a 0.5014034601410262, Assign_b 0.4345456906027828, Assign_v 0.0001883722645591307, Call_gen_oh 6,
     Assign_a 0.5272493404551239, Assign_b 0.4607942515205134, Assign_v 0.0001891714324525297, Call_gen_oh 6,
     Assign_a 0.5520413051846366, Assign_b 0.4860961284181720, Assign_v 0.0001896827480450146, Call_gen_oh 6,
     Assign_a 0.5756887237503077, Assign_b 0.5103447395342790, Assign_v 0.0001899628417059528, Call_gen_oh 6,
     Assign_a 0.1225039430588352, Assign_b 0.02136455922655793, Assign_v 0.0001123301829001669, Call_gen_oh 6,
     Assign_a 0.1539113217321372, Assign_b 0.04520926166137188, Assign_v 0.0001253698826711277, Call_gen_oh 6,
     Assign_a 0.1856213098637712, Assign_b 0.07086468177864818, Assign_v 0.0001366266117678531, Call_gen_oh 6,
     Assign_a 0.2174998728035131, Assign_b 0.09785239488772918, Assign_v 0.0001462736856106918, Call_gen_oh 6,
     Assign_a 0.2494128336938330, Assign_b 0.1258106396267210, Assign_v 0.0001545076466685412, Call_gen_oh 6,
     Assign_a 0.2812321562143480, Assign_b 0.1544529125047001, Assign_v 0.0001615096280814007, Call_gen_oh 6,
     Assign_a 0.3128372276456111, Assign_b 0.1835433512202753, Assign_v 0.0001674366639741759, Call_gen_oh 6,
     Assign_a 0.3441145160177973, Assign_b 0.2128813258619585, Assign_v 0.0001724225002437900, Call_gen_oh 6,
     Assign_a 0.3749567714853510, Assign_b 0.2422913734880829, Assign_v 0.0001765810822987288, Call_gen_oh 6,
     Assign_a 0.4052621732015610, Assign_b 0.2716163748391453, Assign_v 0.0001800104126010751, Call_gen_oh 6,
     Assign_a 0.4349335453522385, Assign_b 0.3007127671240280, Assign_v 0.0001827960437331284, Call_gen_oh 6,
     Assign_a 0.4638776641524965, Assign_b 0.3294470677216479, Assign_v 0.0001850140300716308, Call_gen_oh 6,
     Assign_a 0.4920046410462687, Assign_b 0.3576932543699155, Assign_v 0.0001867333507394938, Call_gen_oh 6,
     Assign_a 0.5192273554861704, Assign_b 0.3853307059757764, Assign_v 0.0001880178688638289, Call_gen_oh 6,
     Assign_a 0.5454609081136522, Assign_b 0.4122425044452694, Assign_v 0.0001889278925654758, Call_gen_oh 6,
     Assign_a 0.5706220661424140, Assign_b 0.4383139587781027, Assign_v 0.0001895213832507346, Call_gen_oh 6,
     Assign_a 0.5946286755181518, Assign_b 0.4634312536300553, Assign_v 0.0001898548277397420, Call_gen_oh 6,
     Assign_a 0.1905370790924295, Assign_b 0.02371311537781979, Assign_v 0.0001349105935937341, Call_gen_oh 6,
     Assign_a 0.2242518717748009, Assign_b 0.04917878059254806, Assign_v 0.0001444060068369326, Call_gen_oh 6,
     Assign_a 0.2577190808025936, Assign_b 0.07595498960495142, Assign_v 0.0001526797390930008, Call_gen_oh 6,
     Assign_a 0.2908724534927187, Assign_b 0.1036991083191100, Assign_v 0.0001598208771406474, Call_gen_oh 6,
     Assign_a 0.3236354020056219, Assign_b 0.1321348584450234, Assign_v 0.0001659354368615331, Call_gen_oh 6,
     Assign_a 0.3559267359304543, Assign_b 0.1610316571314789, Assign_v 0.0001711279910946440, Call_gen_oh 6,
     Assign_a 0.3876637123676956, Assign_b 0.1901912080395707, Assign_v 0.0001754952725601440, Call_gen_oh 6,
     Assign_a 0.4187636705218842, Assign_b 0.2194384950137950, Assign_v 0.0001791247850802529, Call_gen_oh 6,
     Assign_a 0.4491449019883107, Assign_b 0.2486155334763858, Assign_v 0.0001820954300877716, Call_gen_oh 6,
     Assign_a 0.4787270932425445, Assign_b 0.2775768931812335, Assign_v 0.0001844788524548449, Call_gen_oh 6,
     Assign_a 0.5074315153055574, Assign_b 0.3061863786591120, Assign_v 0.0001863409481706220, Call_gen_oh 6,
     Assign_a 0.5351810507738336, Assign_b 0.3343144718152556, Assign_v 0.0001877433008795068, Call_gen_oh 6,
     Assign_a 0.5619001025975381, Assign_b 0.3618362729028427, Assign_v 0.0001887444543705232, Call_gen_oh 6,
     Assign_a 0.5875144035268046, Assign_b 0.3886297583620408, Assign_v 0.0001894009829375006, Call_gen_oh 6,
     Assign_a 0.6119507308734495, Assign_b 0.4145742277792031, Assign_v 0.0001897683345035198, Call_gen_oh 6,
     Assign_a 0.2619733870119463, Assign_b 0.02540047186389353, Assign_v 0.0001517327037467653, Call_gen_oh 6,
     Assign_a 0.2968149743237949, Assign_b 0.05208107018543989, Assign_v 0.0001587740557483543, Call_gen_oh 6,
     Assign_a 0.3310451504860488, Assign_b 0.07971828470885599, Assign_v 0.0001649093382274097, Call_gen_oh 6,
     Assign_a 0.3646215567376676, Assign_b 0.1080465999177927, Assign_v 0.0001701915216193265, Call_gen_oh 6,
     Assign_a 0.3974916785279360, Assign_b 0.1368413849366629, Assign_v 0.0001746847753144065, Call_gen_oh 6,
     Assign_a 0.4295967403772029, Assign_b 0.1659073184763559, Assign_v 0.0001784555512007570, Call_gen_oh 6,
     Assign_a 0.4608742854473447, Assign_b 0.1950703730454614, Assign_v 0.0001815687562112174, Call_gen_oh 6,
     Assign_a 0.4912598858949903, Assign_b 0.2241721144376724, Assign_v 0.0001840864370663302, Call_gen_oh 6,
     Assign_a 0.5206882758945558, Assign_b 0.2530655255406489, Assign_v 0.0001860676785390006, Call_gen_oh 6,
     Assign_a 0.5490940914019819, Assign_b 0.2816118409731066, Assign_v 0.0001875690583743703, Call_gen_oh 6,
     Assign_a 0.5764123302025542, Assign_b 0.3096780504593238, Assign_v 0.0001886453236347225, Call_gen_oh 6,
     Assign_a 0.6025786004213506, Assign_b 0.3371348366394987, Assign_v 0.0001893501123329645, Call_gen_oh 6,
     Assign_a 0.6275291964794956, Assign_b 0.3638547827694396, Assign_v 0.0001897366184519868, Call_gen_oh 6,
     Assign_a 0.3348189479861771, Assign_b 0.02664841935537443, Assign_v 0.0001643908815152736, Call_gen_oh 6,
     Assign_a 0.3699515545855295, Assign_b 0.05424000066843495, Assign_v 0.0001696300350907768, Call_gen_oh 6,
     Assign_a 0.4042003071474669, Assign_b 0.08251992715430854, Assign_v 0.0001741553103844483, Call_gen_oh 6,
     Assign_a 0.4375320100182624, Assign_b 0.1112695182483710, Assign_v 0.0001780015282386092, Call_gen_oh 6,
     Assign_a 0.4699054490335947, Assign_b 0.1402964116467816, Assign_v 0.0001812116787077125, Call_gen_oh 6,
     Assign_a 0.5012739879431952, Assign_b 0.1694275117584291, Assign_v 0.0001838323158085421, Call_gen_oh 6,
     Assign_a 0.5315874883754966, Assign_b 0.1985038235312689, Assign_v 0.0001859113119837737, Call_gen_oh 6,
     Assign_a 0.5607937109622117, Assign_b 0.2273765660020893, Assign_v 0.0001874969220221698, Call_gen_oh 6,
     Assign_a 0.5888393223495521, Assign_b 0.2559041492849764, Assign_v 0.0001886375612681076, Call_gen_oh 6,
     Assign_a 0.6156705979160163, Assign_b 0.2839497251976899, Assign_v 0.0001893819575809276, Call_gen_oh 6,
     Assign_a 0.6412338809078123, Assign_b 0.3113791060500690, Assign_v 0.0001897794748256767, Call_gen_oh 6,
     Assign_a 0.4076051259257167, Assign_b 0.02757792290858463, Assign_v 0.0001738963926584846, Call_gen_oh 6,
     Assign_a 0.4423788125791520, Assign_b 0.05584136834984293, Assign_v 0.0001777442359873466, Call_gen_oh 6,
     Assign_a 0.4760480917328258, Assign_b 0.08457772087727143, Assign_v 0.0001810010815068719, Call_gen_oh 6,
     Assign_a 0.5085838725946297, Assign_b 0.1135975846359248, Assign_v 0.0001836920318248129, Call_gen_oh 6,
     Assign_a 0.5399513637391218, Assign_b 0.1427286904765053, Assign_v 0.0001858489473214328, Call_gen_oh 6,
     Assign_a 0.5701118433636380, Assign_b 0.1718112740057635, Assign_v 0.0001875079342496592, Call_gen_oh 6,
     Assign_a 0.5990240530606021, Assign_b 0.2006944855985351, Assign_v 0.0001887080239102310, Call_gen_oh 6,
     Assign_a 0.6266452685139695, Assign_b 0.2292335090598907, Assign_v 0.0001894905752176822, Call_gen_oh 6,
     Assign_a 0.6529320971415942, Assign_b 0.2572871512353714, Assign_v 0.0001898991061200695, Call_gen_oh 6,
     Assign_a 0.4791583834610126, Assign_b 0.02826094197735932, Assign_v 0.0001809065016458791, Call_gen_oh 6,
     Assign_a 0.5130373952796940, Assign_b 0.05699871359683649, Assign_v 0.0001836297121596799, Call_gen_oh 6,
     Assign_a 0.5456252429628476, Assign_b 0.08602712528554394, Assign_v 0.0001858426916241869, Call_gen_oh 6,
     Assign_a 0.5768956329682385, Assign_b 0.1151748137221281, Assign_v 0.0001875654101134641, Call_gen_oh 6,
     Assign_a 0.6068186944699046, Assign_b 0.1442811654136362, Assign_v 0.0001888240751833503, Call_gen_oh 6,
     Assign_a 0.6353622248024907, Assign_b 0.1731930321657680, Assign_v 0.0001896497383866979, Call_gen_oh 6,
     Assign_a 0.6624927035731797, Assign_b 0.2017619958756061, Assign_v 0.0001900775530219121, Call_gen_oh 6,
     Assign_a 0.5484933508028488, Assign_b 0.02874219755907391, Assign_v 0.0001858525041478814, Call_gen_oh 6,
     Assign_a 0.5810207682142106, Assign_b 0.05778312123713695, Assign_v 0.0001876248690077947, Call_gen_oh 6,
     Assign_a 0.6120955197181352, Assign_b 0.08695262371439526, Assign_v 0.0001889404439064607, Call_gen_oh 6,
     Assign_a 0.6416944284294319, Assign_b 0.1160893767057166, Assign_v 0.0001898168539265290, Call_gen_oh 6,
     Assign_a 0.6697926391731260, Assign_b 0.1450378826743251, Assign_v 0.0001902779940661772, Call_gen_oh 6,
     Assign_a 0.6147594390585488, Assign_b 0.02904957622341456, Assign_v 0.0001890125641731815, Call_gen_oh 6,
     Assign_a 0.6455390026356783, Assign_b 0.05823809152617197, Assign_v 0.0001899434637795751, Call_gen_oh 6,
     Assign_a 0.6747258588365477, Assign_b 0.08740384899884715, Assign_v 0.0001904520856831751, Call_gen_oh 6,
     Assign_a 0.6772135750395347, Assign_b 0.02919946135808105, Assign_v 0.0001905534498734563, Call_gen_oh 6]"

definition ld5810 :: "mem \<Rightarrow> fault + nat \<times> mem" where
  "ld5810 = ld_routine ld5810_body"

subsection \<open>The dispatcher\<close>

definition leb_msg :: string where
  "leb_msg = CHR 0x0A # ''LD_BY_ORDER - Fatal error!'' @ CHR 0x0A # ''  Unexpected value of ORDER.'' @ [CHR 0x0A]"

text \<open>
  \<^verbatim>\<open>int leb_order_routing(int order, double *x, double *y, double *z, double *w)\<close>:
  \<^verbatim>\<open>int n = 0;\<close>, the chain of comparisons, and in the last branch only the
  \<^verbatim>\<open>fprintf\<close> (its \<^verbatim>\<open>return 1\<close> and \<^verbatim>\<open>exit(1)\<close> are commented out), so that
  \<^verbatim>\<open>return n;\<close> yields 0.
\<close>

definition leb_order_routing :: "int \<Rightarrow> mem \<Rightarrow> fault + nat \<times> mem" where
  "leb_order_routing order m =
     (if order = 6 then ld0006 m
      else if order = 14 then ld0014 m
      else if order = 26 then ld0026 m
      else if order = 38 then ld0038 m
      else if order = 50 then ld0050 m
      else if order = 74 then ld0074 m
      else if order = 86 then ld0086 m
      else if order = 110 then ld0110 m
      else if order = 146 then ld0146 m
      else if order = 170 then ld0170 m
      else if order = 194 then ld0194 m
      else if order = 230 then ld0230 m
      else if order = 266 then ld0266 m
      else if order = 302 then ld0302 m
      else if order = 350 then ld0350 m
      else if order = 434 then ld0434 m
      else if order = 590 then ld0590 m
      else if order = 770 then ld0770 m
      else if order = 974 then ld0974 m
      else if order = 1202 then ld1202 m
      else if order = 1454 then ld1454 m
      else if order = 1730 then ld1730 m
      else if order = 2030 then ld2030 m
      else if order = 2354 then ld2354 m
      else if order = 2702 then ld2702 m
      else if order = 3074 then ld3074 m
      else if order = 3470 then ld3470 m
      else if order = 3890 then ld3890 m
      else if order = 4334 then ld4334 m
      else if order = 4802 then ld4802 m
      else if order = 5294 then ld5294 m
      else if order = 5810 then ld5810 m
      else Inr (0, m\<lparr>stderr := stderr m @ leb_msg\<rparr>))"

section \<open>Observations and specification-level notions\<close>

text \<open>
  What a caller sees after a call: the \<open>k\<close> rows \<^verbatim>\<open>(x[i], y[i], z[i], w[i])\<close> from index
  \<open>off\<close> on, the capacities, and everything outside the index range \<open>[off, off + k)\<close>.
\<close>

definition rows :: "nat \<Rightarrow> nat \<Rightarrow> mem \<Rightarrow> point list" where
  "rows off k m = map (\<lambda>i. (xbuf m ! i, ybuf m ! i, zbuf m ! i, wbuf m ! i)) [off ..< off + k]"

definition capacities :: "mem \<Rightarrow> nat \<times> nat \<times> nat \<times> nat" where
  "capacities m = (length (xbuf m), length (ybuf m), length (zbuf m), length (wbuf m))"

definition outside :: "nat \<Rightarrow> nat \<Rightarrow> mem \<Rightarrow> (real list \<times> real list) list" where
  "outside off k m =
     [(take off (xbuf m), drop (off + k) (xbuf m)), (take off (ybuf m), drop (off + k) (ybuf m)),
      (take off (zbuf m), drop (off + k) (zbuf m)), (take off (wbuf m), drop (off + k) (wbuf m))]"

definition weight :: "point \<Rightarrow> real" where
  "weight p = snd (snd (snd p))"

definition coords :: "point \<Rightarrow> real \<times> real \<times> real" where
  "coords p = (fst p, fst (snd p), fst (snd (snd p)))"

definition norm2 :: "point \<Rightarrow> real" where
  "norm2 p = (fst p)\<^sup>2 + (fst (snd p))\<^sup>2 + (fst (snd (snd p)))\<^sup>2"

text \<open>Zero-filled arrays of capacity \<open>k\<close> and an empty error stream.\<close>

definition fresh :: "nat \<Rightarrow> mem" where
  "fresh k = \<lparr>xbuf = replicate k 0, ybuf = replicate k 0, zbuf = replicate k 0,
              wbuf = replicate k 0, stderr = []\<rparr>"

text \<open>
  The point count of each symmetry class, as the header comment of \<^verbatim>\<open>gen_oh\<close> lists it
  (6, 12, 8, 24, 24, 48), and the rows a legal class stores.
\<close>

definition orbit_size :: "int \<Rightarrow> nat" where
  "orbit_size code =
     (if code = 1 then 6 else if code = 2 then 12 else if code = 3 then 8
      else if code = 4 then 24 else if code = 5 then 24 else if code = 6 then 48 else 0)"

definition orbit :: "int \<Rightarrow> real \<Rightarrow> real \<Rightarrow> real \<Rightarrow> point list" where
  "orbit code a b v =
     (if code = 1 then code1_points 1 v
      else if code = 2 then code2_points (sqrt 0.5) v
      else if code = 3 then code3_points (sqrt (1 / 3)) v
      else if code = 4 then code4_points a (sqrt (1 - 2 * a * a)) v
      else if code = 5 then code5_points a (sqrt (1 - a * a)) v
      else if code = 6 then code6_points a b (sqrt (1 - a * a - b * b)) v
      else [])"

text \<open>
  All sign choices of all arrangements of three magnitudes on the three axes:
  the full octahedral orbit of \<open>(a, b, c)\<close>.
\<close>

definition signed_perms :: "real \<Rightarrow> real \<Rightarrow> real \<Rightarrow> (real \<times> real \<times> real) list" where
  "signed_perms a b c =
     [(sx * p, sy * q, sz * r).
        (p, q, r) \<leftarrow> [(a, b, c), (a, c, b), (b, a, c), (b, c, a), (c, a, b), (c, b, a)],
        sz \<leftarrow> [1, - 1], sy \<leftarrow> [1, - 1], sx \<leftarrow> [1, - 1]]"

text \<open>
  Summaries of a statement block: the rows it stores when every call has a legal class,
  whether every call has one, the number of rows, and the sum of their weights.
\<close>

fun trace :: "stmt list \<Rightarrow> locals \<Rightarrow> point list" where
  "trace [] l = []"
| "trace (Assign_a r # ss) l = trace ss (l\<lparr>var_a := r\<rparr>)"
| "trace (Assign_b r # ss) l = trace ss (l\<lparr>var_b := r\<rparr>)"
| "trace (Assign_v r # ss) l = trace ss (l\<lparr>var_v := r\<rparr>)"
| "trace (Call_gen_oh c # ss) l =
     orbit c (var_a l) (var_b l) (var_v l) @ trace ss (l\<lparr>var_n := var_n l + orbit_size c\<rparr>)"

fun calls_ok :: "stmt list \<Rightarrow> bool" where
  "calls_ok [] = True"
| "calls_ok (Call_gen_oh c # ss) = (1 \<le> c \<and> c \<le> 6 \<and> calls_ok ss)"
| "calls_ok (s # ss) = calls_ok ss"

fun points_total :: "stmt list \<Rightarrow> nat" where
  "points_total [] = 0"
| "points_total (Call_gen_oh c # ss) = orbit_size c + points_total ss"
| "points_total (s # ss) = points_total ss"

fun weight_total :: "stmt list \<Rightarrow> real \<Rightarrow> real" where
  "weight_total [] v = 0"
| "weight_total (Assign_v r # ss) v = weight_total ss r"
| "weight_total (Call_gen_oh c # ss) v = real (orbit_size c) * v + weight_total ss v"
| "weight_total (s # ss) v = weight_total ss v"

text \<open>A block assigns \<^verbatim>\<open>v\<close> before its first call, so the uninitialised local is never read.\<close>

fun assigns_v_first :: "stmt list \<Rightarrow> bool" where
  "assigns_v_first [] = True"
| "assigns_v_first (Assign_v r # ss) = True"
| "assigns_v_first (Call_gen_oh c # ss) = False"
| "assigns_v_first (s # ss) = assigns_v_first ss"

text \<open>The sum of the weights a routine reports to have written (0 after a fault).\<close>

definition weight_sum :: "fault + nat \<times> mem \<Rightarrow> real" where
  "weight_sum r = (case r of Inl f \<Rightarrow> 0 | Inr (k, m) \<Rightarrow> sum_list (take k (wbuf m)))"

text \<open>The supported orders, and each order with its routine and with its block.\<close>

definition supported_orders :: "int list" where
  "supported_orders =
     [6, 14, 26, 38, 50, 74, 86, 110, 146, 170, 194, 230, 266, 302, 350, 434, 590, 770, 974,
      1202, 1454, 1730, 2030, 2354, 2702, 3074, 3470, 3890, 4334, 4802, 5294, 5810]"

definition rule_table :: "(nat \<times> (mem \<Rightarrow> fault + nat \<times> mem)) list" where
  "rule_table =
     [(6, ld0006), (14, ld0014), (26, ld0026), (38, ld0038), (50, ld0050), (74, ld0074),
      (86, ld0086), (110, ld0110), (146, ld0146), (170, ld0170), (194, ld0194),
      (230, ld0230), (266, ld0266), (302, ld0302), (350, ld0350), (434, ld0434),
      (590, ld0590), (770, ld0770), (974, ld0974), (1202, ld1202), (1454, ld1454),
      (1730, ld1730), (2030, ld2030), (2354, ld2354), (2702, ld2702), (3074, ld3074),
      (3470, ld3470), (3890, ld3890), (4334, ld4334), (4802, ld4802), (5294, ld5294),
      (5810, ld5810)]"

definition body_table :: "(nat \<times> stmt list) list" where
  "body_table =
     [(6, ld0006_body), (14, ld0014_body), (26, ld0026_body), (38, ld0038_body),
      (50, ld0050_body), (74, ld0074_body), (86, ld0086_body), (110, ld0110_body),
      (146, ld0146_body), (170, ld0170_body), (194, ld0194_body), (230, ld0230_body),
      (266, ld0266_body), (302, ld0302_body), (350, ld0350_body), (434, ld0434_body),
      (590, ld0590_body), (770, ld0770_body), (974, ld0974_body), (1202, ld1202_body),
      (1454, ld1454_body), (1730, ld1730_body), (2030, ld2030_body), (2354, ld2354_body),
      (2702, ld2702_body), (3074, ld3074_body), (3470, ld3470_body), (3890, ld3890_body),
      (4334, ld4334_body), (4802, ld4802_body), (5294, ld5294_body), (5810, ld5810_body)]"

text \<open>What the evaluation of a block has to establish for the order \<open>N\<close>.\<close>

definition block_ok :: "nat \<Rightarrow> stmt list \<Rightarrow> bool" where
  "block_ok N body \<longleftrightarrow>
     calls_ok body \<and> points_total body = N \<and> \<bar>weight_total body 0 - 1\<bar> \<le> 1 / 10 ^ 15"

section \<open>Properties\<close>

subsection \<open>Storing rows\<close>

lemma put_point_lengths [simp]:
  "length (xbuf (put_point i p m)) = length (xbuf m)"
  "length (ybuf (put_point i p m)) = length (ybuf m)"
  "length (zbuf (put_point i p m)) = length (zbuf m)"
  "length (wbuf (put_point i p m)) = length (wbuf m)"
  "stderr (put_point i p m) = stderr m"
  by (cases p; simp)+

lemma put_points_lengths [simp]:
  "length (xbuf (put_points i ps m)) = length (xbuf m)"
  "length (ybuf (put_points i ps m)) = length (ybuf m)"
  "length (zbuf (put_points i ps m)) = length (zbuf m)"
  "length (wbuf (put_points i ps m)) = length (wbuf m)"
  "stderr (put_points i ps m) = stderr m"
  by (induction ps arbitrary: i m; simp)+

lemma room_put_points [simp]: "room off k (put_points i ps m) = room off k m"
  by (simp add: room_def)

lemma capacities_put_points [simp]: "capacities (put_points i ps m) = capacities m"
  by (simp add: capacities_def)

lemma put_points_append:
  "put_points i (ps @ qs) m = put_points (i + length ps) qs (put_points i ps m)"
  by (induction ps arbitrary: i m) simp_all

lemma patch_step:
  assumes "i < length xs"
  shows "take (Suc i) (xs[i := a]) @ bs @ drop (Suc (i + length bs)) (xs[i := a])
         = take i xs @ (a # bs) @ drop (i + length (a # bs)) xs"
  using assms by (simp add: take_Suc_conv_app_nth)

lemma xbuf_put_points:
  "i + length ps \<le> length (xbuf m) \<Longrightarrow>
   xbuf (put_points i ps m) = take i (xbuf m) @ map fst ps @ drop (i + length ps) (xbuf m)"
proof (induction ps arbitrary: i m)
  case Nil
  then show ?case by simp
next
  case (Cons p ps)
  obtain px py pz pw where p: "p = (px, py, pz, pw)" by (cases p) auto
  have lt: "i < length (xbuf m)" using Cons.prems by simp
  have "xbuf (put_points i (p # ps) m) = xbuf (put_points (Suc i) ps (put_point i p m))"
    by simp
  also have "\<dots> = take (Suc i) (xbuf (put_point i p m)) @ map fst ps
                   @ drop (Suc i + length ps) (xbuf (put_point i p m))"
    using Cons.prems by (intro Cons.IH) simp
  also have "\<dots> = take i (xbuf m) @ map fst (p # ps) @ drop (i + length (p # ps)) (xbuf m)"
    using patch_step [OF lt, of px "map fst ps"] by (simp add: p)
  finally show ?case .
qed

lemma ybuf_put_points:
  "i + length ps \<le> length (ybuf m) \<Longrightarrow>
   ybuf (put_points i ps m) = take i (ybuf m) @ map (\<lambda>p. fst (snd p)) ps @ drop (i + length ps) (ybuf m)"
proof (induction ps arbitrary: i m)
  case Nil
  then show ?case by simp
next
  case (Cons p ps)
  obtain px py pz pw where p: "p = (px, py, pz, pw)" by (cases p) auto
  have lt: "i < length (ybuf m)" using Cons.prems by simp
  have "ybuf (put_points i (p # ps) m) = ybuf (put_points (Suc i) ps (put_point i p m))"
    by simp
  also have "\<dots> = take (Suc i) (ybuf (put_point i p m)) @ map (\<lambda>p. fst (snd p)) ps
                   @ drop (Suc i + length ps) (ybuf (put_point i p m))"
    using Cons.prems by (intro Cons.IH) simp
  also have "\<dots> = take i (ybuf m) @ map (\<lambda>p. fst (snd p)) (p # ps) @ drop (i + length (p # ps)) (ybuf m)"
    using patch_step [OF lt, of py "map (\<lambda>p. fst (snd p)) ps"] by (simp add: p)
  finally show ?case .
qed

lemma zbuf_put_points:
  "i + length ps \<le> length (zbuf m) \<Longrightarrow>
   zbuf (put_points i ps m) = take i (zbuf m) @ map (\<lambda>p. fst (snd (snd p))) ps @ drop (i + length ps) (zbuf m)"
proof (induction ps arbitrary: i m)
  case Nil
  then show ?case by simp
next
  case (Cons p ps)
  obtain px py pz pw where p: "p = (px, py, pz, pw)" by (cases p) auto
  have lt: "i < length (zbuf m)" using Cons.prems by simp
  have "zbuf (put_points i (p # ps) m) = zbuf (put_points (Suc i) ps (put_point i p m))"
    by simp
  also have "\<dots> = take (Suc i) (zbuf (put_point i p m)) @ map (\<lambda>p. fst (snd (snd p))) ps
                   @ drop (Suc i + length ps) (zbuf (put_point i p m))"
    using Cons.prems by (intro Cons.IH) simp
  also have "\<dots> = take i (zbuf m) @ map (\<lambda>p. fst (snd (snd p))) (p # ps) @ drop (i + length (p # ps)) (zbuf m)"
    using patch_step [OF lt, of pz "map (\<lambda>p. fst (snd (snd p))) ps"] by (simp add: p)
  finally show ?case .
qed

lemma wbuf_put_points:
  "i + length ps \<le> length (wbuf m) \<Longrightarrow>
   wbuf (put_points i ps m) = take i (wbuf m) @ map weight ps @ drop (i + length ps) (wbuf m)"
proof (induction ps arbitrary: i m)
  case Nil
  then show ?case by simp
next
  case (Cons p ps)
  obtain px py pz pw where p: "p = (px, py, pz, pw)" by (cases p) auto
  have lt: "i < length (wbuf m)" using Cons.prems by simp
  have "wbuf (put_points i (p # ps) m) = wbuf (put_points (Suc i) ps (put_point i p m))"
    by simp
  also have "\<dots> = take (Suc i) (wbuf (put_point i p m)) @ map weight ps
                   @ drop (Suc i + length ps) (wbuf (put_point i p m))"
    using Cons.prems by (intro Cons.IH) simp
  also have "\<dots> = take i (wbuf m) @ map weight (p # ps) @ drop (i + length (p # ps)) (wbuf m)"
    using patch_step [OF lt, of pw "map weight ps"] by (simp add: p weight_def)
  finally show ?case .
qed

lemma nth_patch:
  "i \<le> length xs \<Longrightarrow> j < length bs \<Longrightarrow> (take i xs @ bs @ ys) ! (i + j) = bs ! j"
  by (simp add: nth_append)

lemma rows_put_points:
  assumes "room off (length ps) m"
  shows "rows off (length ps) (put_points off ps m) = ps"
proof (rule nth_equalityI)
  show "length (rows off (length ps) (put_points off ps m)) = length ps"
    by (simp add: rows_def)
next
  fix j assume "j < length (rows off (length ps) (put_points off ps m))"
  then have j: "j < length ps" by (simp add: rows_def)
  have le: "off \<le> length (xbuf m)" "off \<le> length (ybuf m)" "off \<le> length (zbuf m)" "off \<le> length (wbuf m)"
    using assms by (simp_all add: room_def)
  have "rows off (length ps) (put_points off ps m) ! j
        = (xbuf (put_points off ps m) ! (off + j), ybuf (put_points off ps m) ! (off + j),
           zbuf (put_points off ps m) ! (off + j), wbuf (put_points off ps m) ! (off + j))"
    using j by (simp add: rows_def)
  also have "\<dots> = (fst (ps ! j), fst (snd (ps ! j)), fst (snd (snd (ps ! j))), weight (ps ! j))"
    using assms j le
    by (simp add: room_def xbuf_put_points ybuf_put_points zbuf_put_points wbuf_put_points nth_patch)
  also have "\<dots> = ps ! j" by (simp add: weight_def)
  finally show "rows off (length ps) (put_points off ps m) ! j = ps ! j" .
qed

lemma outside_put_points:
  assumes "room off (length ps) m"
  shows "outside off (length ps) (put_points off ps m) = outside off (length ps) m"
  using assms
  by (simp add: outside_def room_def xbuf_put_points ybuf_put_points zbuf_put_points wbuf_put_points)

lemma room_fresh [simp]: "room off k (fresh n) \<longleftrightarrow> off + k \<le> n"
  by (simp add: room_def fresh_def)

subsection \<open>The expander on legal classes\<close>

lemma code_cases:
  "1 \<le> code \<Longrightarrow> code \<le> 6 \<Longrightarrow> code = 1 \<or> code = 2 \<or> code = 3 \<or> code = 4 \<or> code = 5 \<or> code = (6::int)"
  by arith

lemma length_code_points [simp]:
  "length (code1_points a v) = 6"
  "length (code2_points a v) = 12"
  "length (code3_points a v) = 8"
  "length (code4_points a b v) = 24"
  "length (code5_points a b v) = 24"
  "length (code6_points a b c v) = 48"
  by (simp_all add: code1_points_def code2_points_def code3_points_def
        code4_points_def code5_points_def code6_points_def)

lemma weight_code_points [simp]:
  "map weight (code1_points a v) = replicate 6 v"
  "map weight (code2_points a v) = replicate 12 v"
  "map weight (code3_points a v) = replicate 8 v"
  "map weight (code4_points a b v) = replicate 24 v"
  "map weight (code5_points a b v) = replicate 24 v"
  "map weight (code6_points a b c v) = replicate 48 v"
  by (simp_all add: code1_points_def code2_points_def code3_points_def
        code4_points_def code5_points_def code6_points_def weight_def numeral_eq_Suc)

lemma length_orbit:
  "1 \<le> code \<Longrightarrow> code \<le> 6 \<Longrightarrow> length (orbit code a b v) = orbit_size code"
  by (drule (1) code_cases) (auto simp: orbit_def orbit_size_def)

lemma weight_orbit:
  "1 \<le> code \<Longrightarrow> code \<le> 6 \<Longrightarrow> map weight (orbit code a b v) = replicate (orbit_size code) v"
  by (drule (1) code_cases) (auto simp: orbit_def orbit_size_def)

lemma gen_oh_store:
  "1 \<le> code \<Longrightarrow> code \<le> 6 \<Longrightarrow>
   gen_oh code a b v off m = store off (orbit code a b v) (orbit_size code) m"
  by (drule (1) code_cases) (auto simp: gen_oh_def orbit_def orbit_size_def)

lemma gen_oh_ok:
  assumes "1 \<le> code" "code \<le> 6" "room off (orbit_size code) m"
  shows "gen_oh code a b v off m = Inr (orbit_size code, put_points off (orbit code a b v) m)"
  using assms by (simp add: gen_oh_store store_def length_orbit)

lemma gen_oh_overrun:
  assumes "1 \<le> code" "code \<le> 6" "\<not> room off (orbit_size code) m"
  shows "gen_oh code a b v off m = Inl Buffer_Overrun"
  using assms by (simp add: gen_oh_store store_def length_orbit)

lemma code6_coords: "map coords (code6_points a b c v) = signed_perms a b c"
  by (simp add: code6_points_def signed_perms_def coords_def)

lemma code6_norm2: "\<forall>p \<in> set (code6_points a b c v). norm2 p = a\<^sup>2 + b\<^sup>2 + c\<^sup>2"
  by (simp add: code6_points_def norm2_def)

lemma code6_weight: "\<forall>p \<in> set (code6_points a b c v). weight p = v"
  using weight_code_points(6) [of a b c v]
  by (metis in_set_replicate set_map imageI)

subsection \<open>Running a block\<close>

lemma length_trace:
  "calls_ok ss \<Longrightarrow> length (trace ss l) = points_total ss"
  by (induction ss l rule: trace.induct) (simp_all add: length_orbit)

lemma weight_trace:
  "calls_ok ss \<Longrightarrow> sum_list (map weight (trace ss l)) = weight_total ss (var_v l)"
  by (induction ss l rule: trace.induct) (simp_all add: weight_orbit sum_list_replicate)

lemma run_trace:
  "calls_ok ss \<Longrightarrow> room (var_n l) (points_total ss) m \<Longrightarrow>
   \<exists>l'. run ss l m = Inr (l', put_points (var_n l) (trace ss l) m)
        \<and> var_n l' = var_n l + points_total ss"
proof (induction ss l arbitrary: m rule: trace.induct)
  case (1 l)
  then show ?case by simp
next
  case (2 r ss l)
  then show ?case by simp
next
  case (3 r ss l)
  then show ?case by simp
next
  case (4 r ss l)
  then show ?case by simp
next
  case (5 c ss l)
  let ?ps = "orbit c (var_a l) (var_b l) (var_v l)"
  let ?m1 = "put_points (var_n l) ?ps m"
  let ?l1 = "l\<lparr>var_n := var_n l + orbit_size c\<rparr>"
  from "5.prems" have c: "1 \<le> c" "c \<le> 6" and ok: "calls_ok ss" by simp_all
  from "5.prems" have r1: "room (var_n l) (orbit_size c) m"
    and r2: "room (var_n l + orbit_size c) (points_total ss) m"
    by (simp_all add: room_def)
  have g: "gen_oh c (var_a l) (var_b l) (var_v l) (var_n l) m = Inr (orbit_size c, ?m1)"
    using c r1 by (rule gen_oh_ok)
  have "room (var_n ?l1) (points_total ss) ?m1" using r2 by simp
  from "5.IH" [OF ok this] obtain l' where
    l': "run ss ?l1 ?m1 = Inr (l', put_points (var_n ?l1) (trace ss ?l1) ?m1)"
        "var_n l' = var_n ?l1 + points_total ss"
    by blast
  have "run (Call_gen_oh c # ss) l m = Inr (l', put_points (var_n l) (trace (Call_gen_oh c # ss) l) m)"
    using g l'(1) by (simp add: put_points_append length_orbit c)
  moreover have "var_n l' = var_n l + points_total (Call_gen_oh c # ss)"
    using l'(2) by simp
  ultimately show ?case by blast
qed

lemma ld_routine_ok:
  assumes "calls_ok body" "room 0 (points_total body) m"
  shows "ld_routine body m = Inr (points_total body,
            put_points 0 (trace body \<lparr>var_a = 0, var_b = 0, var_v = 0, var_n = 0\<rparr>) m)"
proof -
  let ?l0 = "\<lparr>var_a = 0, var_b = 0, var_v = 0, var_n = 0\<rparr>"
  have "room (var_n ?l0) (points_total body) m" using assms(2) by simp
  from run_trace [OF assms(1) this] show ?thesis
    by (auto simp: ld_routine_def)
qed

lemma rows_ld_routine:
  assumes "calls_ok body" "room 0 (points_total body) m"
  shows "\<exists>m'. ld_routine body m = Inr (points_total body, m') \<and>
           rows 0 (points_total body) m' = trace body \<lparr>var_a = 0, var_b = 0, var_v = 0, var_n = 0\<rparr> \<and>
           stderr m' = stderr m"
proof -
  let ?tr = "trace body \<lparr>var_a = 0, var_b = 0, var_v = 0, var_n = 0\<rparr>"
  have len: "length ?tr = points_total body" using assms(1) by (rule length_trace)
  have r: "room 0 (length ?tr) m" using assms(2) by (simp only: len)
  have "rows 0 (points_total body) (put_points 0 ?tr m) = ?tr"
    using rows_put_points [OF r] by (simp only: len)
  then show ?thesis using ld_routine_ok [OF assms] by simp
qed

lemma weight_sum_ld_routine:
  assumes "calls_ok body" "room 0 (points_total body) m"
  shows "weight_sum (ld_routine body m) = weight_total body 0"
proof -
  let ?l0 = "\<lparr>var_a = 0, var_b = 0, var_v = 0, var_n = 0\<rparr>"
  let ?tr = "trace body ?l0"
  have len: "length ?tr = points_total body" using assms(1) by (rule length_trace)
  have "0 + length ?tr \<le> length (wbuf m)" using assms(2) by (simp add: room_def len)
  then have "wbuf (put_points 0 ?tr m) = take 0 (wbuf m) @ map weight ?tr @ drop (0 + length ?tr) (wbuf m)"
    by (rule wbuf_put_points)
  then have "take (points_total body) (wbuf (put_points 0 ?tr m)) = map weight ?tr"
    by (simp add: len [symmetric])
  moreover have "sum_list (map weight ?tr) = weight_total body (var_v ?l0)"
    using assms(1) by (rule weight_trace)
  ultimately show ?thesis using ld_routine_ok [OF assms] by (simp add: weight_sum_def)
qed


subsection \<open>The thirty-two blocks, evaluated\<close>

text \<open>
  Each block is evaluated once: its calls have legal classes, the counts of its calls add
  up to the order in its name, and its weights, each counted once per row, add up to 1
  within \<open>10\<^sup>-\<^sup>1\<^sup>5\<close>.
\<close>

lemma orbit_size_simps:
  "orbit_size 1 = 6" "orbit_size Numeral1 = 6" "orbit_size 2 = 12" "orbit_size 3 = 8"
  "orbit_size 4 = 24" "orbit_size 5 = 24" "orbit_size 6 = 48"
  by (simp_all add: orbit_size_def)

lemmas count_simps =
  calls_ok.simps points_total.simps orbit_size_simps one_le_numeral numeral_le_iff
  semiring_norm order_refl simp_thms add_0_right numeral_plus_numeral

lemma ld0006_count: "calls_ok ld0006_body" "points_total ld0006_body = 6"
  by (simp_all only: ld0006_body_def count_simps)

lemma ld0006_weight: "\<bar>weight_total ld0006_body 0 - 1\<bar> \<le> 1 / 10 ^ 15"
  by (simp only: ld0006_body_def weight_total.simps orbit_size_simps) simp

lemma ld0006_ok: "block_ok 6 ld0006_body"
  by (simp only: block_ok_def ld0006_count ld0006_weight simp_thms)

lemma ld0014_count: "calls_ok ld0014_body" "points_total ld0014_body = 14"
  by (simp_all only: ld0014_body_def count_simps)

lemma ld0014_weight: "\<bar>weight_total ld0014_body 0 - 1\<bar> \<le> 1 / 10 ^ 15"
  by (simp only: ld0014_body_def weight_total.simps orbit_size_simps) simp

lemma ld0014_ok: "block_ok 14 ld0014_body"
  by (simp only: block_ok_def ld0014_count ld0014_weight simp_thms)

lemma ld0026_count: "calls_ok ld0026_body" "points_total ld0026_body = 26"
  by (simp_all only: ld0026_body_def count_simps)

lemma ld0026_weight: "\<bar>weight_total ld0026_body 0 - 1\<bar> \<le> 1 / 10 ^ 15"
  by (simp only: ld0026_body_def weight_total.simps orbit_size_simps) simp

lemma ld0026_ok: "block_ok 26 ld0026_body"
  by (simp only: block_ok_def ld0026_count ld0026_weight simp_thms)

lemma ld0038_count: "calls_ok ld0038_body" "points_total ld0038_body = 38"
  by (simp_all only: ld0038_body_def count_simps)

lemma ld0038_weight: "\<bar>weight_total ld0038_body 0 - 1\<bar> \<le> 1 / 10 ^ 15"
  by (simp only: ld0038_body_def weight_total.simps orbit_size_simps) simp

lemma ld0038_ok: "block_ok 38 ld0038_body"
  by (simp only: block_ok_def ld0038_count ld0038_weight simp_thms)

lemma ld0050_count: "calls_ok ld0050_body" "points_total ld0050_body = 50"
  by (simp_all only: ld0050_body_def count_simps)

lemma ld0050_weight: "\<bar>weight_total ld0050_body 0 - 1\<bar> \<le> 1 / 10 ^ 15"
  by (simp only: ld0050_body_def weight_total.simps orbit_size_simps) simp

lemma ld0050_ok: "block_ok 50 ld0050_body"
  by (simp only: block_ok_def ld0050_count ld0050_weight simp_thms)

lemma ld0074_count: "calls_ok ld0074_body" "points_total ld0074_body = 74"
  by (simp_all only: ld0074_body_def count_simps)

lemma ld0074_weight: "\<bar>weight_total ld0074_body 0 - 1\<bar> \<le> 1 / 10 ^ 15"
  by (simp only: ld0074_body_def weight_total.simps orbit_size_simps) simp

lemma ld0074_ok: "block_ok 74 ld0074_body"
  by (simp only: block_ok_def ld0074_count ld0074_weight simp_thms)

lemma ld0086_count: "calls_ok ld0086_body" "points_total ld0086_body = 86"
  by (simp_all only: ld0086_body_def count_simps)

lemma ld0086_weight: "\<bar>weight_total ld0086_body 0 - 1\<bar> \<le> 1 / 10 ^ 15"
  by (simp only: ld0086_body_def weight_total.simps orbit_size_simps) simp

lemma ld0086_ok: "block_ok 86 ld0086_body"
  by (simp only: block_ok_def ld0086_count ld0086_weight simp_thms)

lemma ld0110_count: "calls_ok ld0110_body" "points_total ld0110_body = 110"
  by (simp_all only: ld0110_body_def count_simps)

lemma ld0110_weight: "\<bar>weight_total ld0110_body 0 - 1\<bar> \<le> 1 / 10 ^ 15"
  by (simp only: ld0110_body_def weight_total.simps orbit_size_simps) simp

lemma ld0110_ok: "block_ok 110 ld0110_body"
  by (simp only: block_ok_def ld0110_count ld0110_weight simp_thms)

lemma ld0146_count: "calls_ok ld0146_body" "points_total ld0146_body = 146"
  by (simp_all only: ld0146_body_def count_simps)

lemma ld0146_weight: "\<bar>weight_total ld0146_body 0 - 1\<bar> \<le> 1 / 10 ^ 15"
  by (simp only: ld0146_body_def weight_total.simps orbit_size_simps) simp

lemma ld0146_ok: "block_ok 146 ld0146_body"
  by (simp only: block_ok_def ld0146_count ld0146_weight simp_thms)

lemma ld0170_count: "calls_ok ld0170_body" "points_total ld0170_body = 170"
  by (simp_all only: ld0170_body_def count_simps)

lemma ld0170_weight: "\<bar>weight_total ld0170_body 0 - 1\<bar> \<le> 1 / 10 ^ 15"
  by (simp only: ld0170_body_def weight_total.simps orbit_size_simps) simp

lemma ld0170_ok: "block_ok 170 ld0170_body"
  by (simp only: block_ok_def ld0170_count ld0170_weight simp_thms)

lemma ld0194_count: "calls_ok ld0194_body" "points_total ld0194_body = 194"
  by (simp_all only: ld0194_body_def count_simps)

lemma ld0194_weight: "\<bar>weight_total ld0194_body 0 - 1\<bar> \<le> 1 / 10 ^ 15"
  by (simp only: ld0194_body_def weight_total.simps orbit_size_simps) simp

lemma ld0194_ok: "block_ok 194 ld0194_body"
  by (simp only: block_ok_def ld0194_count ld0194_weight simp_thms)

lemma ld0230_count: "calls_ok ld0230_body" "points_total ld0230_body = 230"
  by (simp_all only: ld0230_body_def count_simps)

lemma ld0230_weight: "\<bar>weight_total ld0230_body 0 - 1\<bar> \<le> 1 / 10 ^ 15"
  by (simp only: ld0230_body_def weight_total.simps orbit_size_simps) simp

lemma ld0230_ok: "block_ok 230 ld0230_body"
  by (simp only: block_ok_def ld0230_count ld0230_weight simp_thms)

lemma ld0266_count: "calls_ok ld0266_body" "points_total ld0266_body = 266"
  by (simp_all only: ld0266_body_def count_simps)

lemma ld0266_weight: "\<bar>weight_total ld0266_body 0 - 1\<bar> \<le> 1 / 10 ^ 15"
  by (simp only: ld0266_body_def weight_total.simps orbit_size_simps) simp

lemma ld0266_ok: "block_ok 266 ld0266_body"
  by (simp only: block_ok_def ld0266_count ld0266_weight simp_thms)

lemma ld0302_count: "calls_ok ld0302_body" "points_total ld0302_body = 302"
  by (simp_all only: ld0302_body_def count_simps)

lemma ld0302_weight: "\<bar>weight_total ld0302_body 0 - 1\<bar> \<le> 1 / 10 ^ 15"
  by (simp only: ld0302_body_def weight_total.simps orbit_size_simps) simp

lemma ld0302_ok: "block_ok 302 ld0302_body"
  by (simp only: block_ok_def ld0302_count ld0302_weight simp_thms)

lemma ld0350_count: "calls_ok ld0350_body" "points_total ld0350_body = 350"
  by (simp_all only: ld0350_body_def count_simps)

lemma ld0350_weight: "\<bar>weight_total ld0350_body 0 - 1\<bar> \<le> 1 / 10 ^ 15"
  by (simp only: ld0350_body_def weight_total.simps orbit_size_simps) simp

lemma ld0350_ok: "block_ok 350 ld0350_body"
  by (simp only: block_ok_def ld0350_count ld0350_weight simp_thms)

lemma ld0434_count: "calls_ok ld0434_body" "points_total ld0434_body = 434"
  by (simp_all only: ld0434_body_def count_simps)

lemma ld0434_weight: "\<bar>weight_total ld0434_body 0 - 1\<bar> \<le> 1 / 10 ^ 15"
  by (simp only: ld0434_body_def weight_total.simps orbit_size_simps) simp

lemma ld0434_ok: "block_ok 434 ld0434_body"
  by (simp only: block_ok_def ld0434_count ld0434_weight simp_thms)

lemma ld0590_count: "calls_ok ld0590_body" "points_total ld0590_body = 590"
  by (simp_all only: ld0590_body_def count_simps)

lemma ld0590_weight: "\<bar>weight_total ld0590_body 0 - 1\<bar> \<le> 1 / 10 ^ 15"
  by (simp only: ld0590_body_def weight_total.simps orbit_size_simps) simp

lemma ld0590_ok: "block_ok 590 ld0590_body"
  by (simp only: block_ok_def ld0590_count ld0590_weight simp_thms)

lemma ld0770_count: "calls_ok ld0770_body" "points_total ld0770_body = 770"
  by (simp_all only: ld0770_body_def count_simps)

lemma ld0770_weight: "\<bar>weight_total ld0770_body 0 - 1\<bar> \<le> 1 / 10 ^ 15"
  by (simp only: ld0770_body_def weight_total.simps orbit_size_simps) simp

lemma ld0770_ok: "block_ok 770 ld0770_body"
  by (simp only: block_ok_def ld0770_count ld0770_weight simp_thms)

lemma ld0974_count: "calls_ok ld0974_body" "points_total ld0974_body = 974"
  by (simp_all only: ld0974_body_def count_simps)

lemma ld0974_weight: "\<bar>weight_total ld0974_body 0 - 1\<bar> \<le> 1 / 10 ^ 15"
  by (simp only: ld0974_body_def weight_total.simps orbit_size_simps) simp

lemma ld0974_ok: "block_ok 974 ld0974_body"
  by (simp only: block_ok_def ld0974_count ld0974_weight simp_thms)

lemma ld1202_count: "calls_ok ld1202_body" "points_total ld1202_body = 1202"
  by (simp_all only: ld1202_body_def count_simps)

lemma ld1202_weight: "\<bar>weight_total ld1202_body 0 - 1\<bar> \<le> 1 / 10 ^ 15"
  by (simp only: ld1202_body_def weight_total.simps orbit_size_simps) simp

lemma ld1202_ok: "block_ok 1202 ld1202_body"
  by (simp only: block_ok_def ld1202_count ld1202_weight simp_thms)

lemma ld1454_count: "calls_ok ld1454_body" "points_total ld1454_body = 1454"
  by (simp_all only: ld1454_body_def count_simps)

lemma ld1454_weight: "\<bar>weight_total ld1454_body 0 - 1\<bar> \<le> 1 / 10 ^ 15"
  by (simp only: ld1454_body_def weight_total.simps orbit_size_simps) simp

lemma ld1454_ok: "block_ok 1454 ld1454_body"
  by (simp only: block_ok_def ld1454_count ld1454_weight simp_thms)

lemma ld1730_count: "calls_ok ld1730_body" "points_total ld1730_body = 1730"
  by (simp_all only: ld1730_body_def count_simps)

lemma ld1730_weight: "\<bar>weight_total ld1730_body 0 - 1\<bar> \<le> 1 / 10 ^ 15"
  by (simp only: ld1730_body_def weight_total.simps orbit_size_simps) simp

lemma ld1730_ok: "block_ok 1730 ld1730_body"
  by (simp only: block_ok_def ld1730_count ld1730_weight simp_thms)

lemma ld2030_count: "calls_ok ld2030_body" "points_total ld2030_body = 2030"
  by (simp_all only: ld2030_body_def count_simps)

lemma ld2030_weight: "\<bar>weight_total ld2030_body 0 - 1\<bar> \<le> 1 / 10 ^ 15"
  by (simp only: ld2030_body_def weight_total.simps orbit_size_simps) simp

lemma ld2030_ok: "block_ok 2030 ld2030_body"
  by (simp only: block_ok_def ld2030_count ld2030_weight simp_thms)

lemma ld2354_count: "calls_ok ld2354_body" "points_total ld2354_body = 2354"
  by (simp_all only: ld2354_body_def count_simps)

lemma ld2354_weight: "\<bar>weight_total ld2354_body 0 - 1\<bar> \<le> 1 / 10 ^ 15"
  by (simp only: ld2354_body_def weight_total.simps orbit_size_simps) simp

lemma ld2354_ok: "block_ok 2354 ld2354_body"
  by (simp only: block_ok_def ld2354_count ld2354_weight simp_thms)

lemma ld2702_count: "calls_ok ld2702_body" "points_total ld2702_body = 2702"
  by (simp_all only: ld2702_body_def count_simps)

lemma ld2702_weight: "\<bar>weight_total ld2702_body 0 - 1\<bar> \<le> 1 / 10 ^ 15"
  by (simp only: ld2702_body_def weight_total.simps orbit_size_simps) simp

lemma ld2702_ok: "block_ok 2702 ld2702_body"
  by (simp only: block_ok_def ld2702_count ld2702_weight simp_thms)

lemma ld3074_count: "calls_ok ld3074_body" "points_total ld3074_body = 3074"
  by (simp_all only: ld3074_body_def count_simps)

lemma ld3074_weight: "\<bar>weight_total ld3074_body 0 - 1\<bar> \<le> 1 / 10 ^ 15"
  by (simp only: ld3074_body_def weight_total.simps orbit_size_simps) simp

lemma ld3074_ok: "block_ok 3074 ld3074_body"
  by (simp only: block_ok_def ld3074_count ld3074_weight simp_thms)

lemma ld3470_count: "calls_ok ld3470_body" "points_total ld3470_body = 3470"
  by (simp_all only: ld3470_body_def count_simps)

lemma ld3470_weight: "\<bar>weight_total ld3470_body 0 - 1\<bar> \<le> 1 / 10 ^ 15"
  by (simp only: ld3470_body_def weight_total.simps orbit_size_simps) simp

lemma ld3470_ok: "block_ok 3470 ld3470_body"
  by (simp only: block_ok_def ld3470_count ld3470_weight simp_thms)

lemma ld3890_count: "calls_ok ld3890_body" "points_total ld3890_body = 3890"
  by (simp_all only: ld3890_body_def count_simps)

lemma ld3890_weight: "\<bar>weight_total ld3890_body 0 - 1\<bar> \<le> 1 / 10 ^ 15"
  by (simp only: ld3890_body_def weight_total.simps orbit_size_simps) simp

lemma ld3890_ok: "block_ok 3890 ld3890_body"
  by (simp only: block_ok_def ld3890_count ld3890_weight simp_thms)

lemma ld4334_count: "calls_ok ld4334_body" "points_total ld4334_body = 4334"
  by (simp_all only: ld4334_body_def count_simps)

lemma ld4334_weight: "\<bar>weight_total ld4334_body 0 - 1\<bar> \<le> 1 / 10 ^ 15"
  by (simp only: ld4334_body_def weight_total.simps orbit_size_simps) simp

lemma ld4334_ok: "block_ok 4334 ld4334_body"
  by (simp only: block_ok_def ld4334_count ld4334_weight simp_thms)

lemma ld4802_count: "calls_ok ld4802_body" "points_total ld4802_body = 4802"
  by (simp_all only: ld4802_body_def count_simps)

lemma ld4802_weight: "\<bar>weight_total ld4802_body 0 - 1\<bar> \<le> 1 / 10 ^ 15"
  by (simp only: ld4802_body_def weight_total.simps orbit_size_simps) simp

lemma ld4802_ok: "block_ok 4802 ld4802_body"
  by (simp only: block_ok_def ld4802_count ld4802_weight simp_thms)

lemma ld5294_count: "calls_ok ld5294_body" "points_total ld5294_body = 5294"
  by (simp_all only: ld5294_body_def count_simps)

lemma ld5294_weight: "\<bar>weight_total ld5294_body 0 - 1\<bar> \<le> 1 / 10 ^ 15"
  by (simp only: ld5294_body_def weight_total.simps orbit_size_simps) simp

lemma ld5294_ok: "block_ok 5294 ld5294_body"
  by (simp only: block_ok_def ld5294_count ld5294_weight simp_thms)

lemma ld5810_count: "calls_ok ld5810_body" "points_total ld5810_body = 5810"
  by (simp_all only: ld5810_body_def count_simps)

lemma ld5810_weight: "\<bar>weight_total ld5810_body 0 - 1\<bar> \<le> 1 / 10 ^ 15"
  by (simp only: ld5810_body_def weight_total.simps orbit_size_simps) simp

lemma ld5810_ok: "block_ok 5810 ld5810_body"
  by (simp only: block_ok_def ld5810_count ld5810_weight simp_thms)

lemma body_table_facts: "\<forall>(N, body) \<in> set body_table. block_ok N body"
  unfolding body_table_def
  by (simp add: ld0006_ok ld0014_ok ld0026_ok ld0038_ok ld0050_ok ld0074_ok ld0086_ok ld0110_ok
      ld0146_ok ld0170_ok ld0194_ok ld0230_ok ld0266_ok ld0302_ok ld0350_ok ld0434_ok
      ld0590_ok ld0770_ok ld0974_ok ld1202_ok ld1454_ok ld1730_ok ld2030_ok ld2354_ok
      ld2702_ok ld3074_ok ld3470_ok ld3890_ok ld4334_ok ld4802_ok ld5294_ok ld5810_ok)

lemma rule_table_bodies:
  "rule_table = map (\<lambda>(N, body). (N, ld_routine body)) body_table"
  unfolding rule_table_def body_table_def
  by (simp add: ld0006_def ld0014_def ld0026_def ld0038_def ld0050_def ld0074_def ld0086_def
      ld0110_def ld0146_def ld0170_def ld0194_def ld0230_def ld0266_def ld0302_def
      ld0350_def ld0434_def ld0590_def ld0770_def ld0974_def ld1202_def ld1454_def
      ld1730_def ld2030_def ld2354_def ld2702_def ld3074_def ld3470_def ld3890_def
      ld4334_def ld4802_def ld5294_def ld5810_def)

lemma v_assigned_before_use: "\<forall>(N, body) \<in> set body_table. assigns_v_first body"
  unfolding body_table_def
  by (simp only: list.set ball_simps prod.case simp_thms assigns_v_first.simps
      ld0006_body_def ld0014_body_def ld0026_body_def ld0038_body_def ld0050_body_def
      ld0074_body_def ld0086_body_def ld0110_body_def ld0146_body_def ld0170_body_def
      ld0194_body_def ld0230_body_def ld0266_body_def ld0302_body_def ld0350_body_def
      ld0434_body_def ld0590_body_def ld0770_body_def ld0974_body_def ld1202_body_def
      ld1454_body_def ld1730_body_def ld2030_body_def ld2354_body_def ld2702_body_def
      ld3074_body_def ld3470_body_def ld3890_body_def ld4334_body_def ld4802_body_def
      ld5294_body_def ld5810_body_def)

subsection \<open>The rule table and the dispatcher\<close>

lemma rule_table_orders: "map (\<lambda>(N, f). int N) rule_table = supported_orders"
  by (simp add: rule_table_def supported_orders_def)

lemma rule_table_cases:
  "(N, f) \<in> set rule_table \<Longrightarrow>
   \<exists>body. f = ld_routine body \<and> calls_ok body \<and> points_total body = N \<and>
          \<bar>weight_total body 0 - 1\<bar> \<le> 1 / 10 ^ 15"
  using body_table_facts by (auto simp: rule_table_bodies block_ok_def)

lemma routing_rule_table_all:
  "\<forall>(N, f) \<in> set rule_table. \<forall>m. leb_order_routing (int N) m = f m"
  by (simp add: rule_table_def leb_order_routing_def)

lemma routing_rule_table:
  "(N, f) \<in> set rule_table \<Longrightarrow> leb_order_routing (int N) m = f m"
  using routing_rule_table_all by blast

lemma ld0006_trace:
  "trace ld0006_body \<lparr>var_a = 0, var_b = 0, var_v = 0, var_n = 0\<rparr>
     = code1_points 1 0.1666666666666667"
  by (simp add: ld0006_body_def orbit_size_def orbit_def)


section \<open>The claims\<close>

text \<open>
  Claim C1. For each supported order \<open>N\<close>, the routine for \<open>N\<close>, called directly or
  through \<open>leb_order_routing\<close> on arrays of capacity at least \<open>N\<close>, returns the count
  \<open>N\<close> without a fault and prints nothing. The \<open>N\<close> rows it leaves at indices
  \<open>0 .. N - 1\<close> are the same whatever the arrays held before: every one of them has been
  written. (\<open>rule_table\<close> pairs each supported order with its routine, see
  \<open>rule_table_orders\<close>.)
\<close>

theorem rule_point_count:
  assumes "(N, f) \<in> set rule_table" and "room 0 N m1" and "room 0 N m2"
  shows "\<exists>m1' m2'.
           f m1 = Inr (N, m1') \<and> leb_order_routing (int N) m1 = Inr (N, m1') \<and>
           f m2 = Inr (N, m2') \<and> leb_order_routing (int N) m2 = Inr (N, m2') \<and>
           rows 0 N m1' = rows 0 N m2' \<and> stderr m1' = stderr m1"
proof -
  from rule_table_cases [OF assms(1)] obtain body where
    b: "f = ld_routine body" "calls_ok body" "points_total body = N"
    by blast
  have r1: "room 0 (points_total body) m1" and r2: "room 0 (points_total body) m2"
    using assms(2,3) by (simp_all only: b(3))
  from rows_ld_routine [OF b(2) r1] obtain m1' where
    m1: "f m1 = Inr (N, m1')" "rows 0 N m1' = trace body \<lparr>var_a = 0, var_b = 0, var_v = 0, var_n = 0\<rparr>"
        "stderr m1' = stderr m1"
    unfolding b(1) b(3) by blast
  from rows_ld_routine [OF b(2) r2] obtain m2' where
    m2: "f m2 = Inr (N, m2')" "rows 0 N m2' = trace body \<lparr>var_a = 0, var_b = 0, var_v = 0, var_n = 0\<rparr>"
    unfolding b(1) b(3) by blast
  have "leb_order_routing (int N) m1 = Inr (N, m1')"
    using routing_rule_table [OF assms(1), of m1] m1(1) by simp
  moreover have "leb_order_routing (int N) m2 = Inr (N, m2')"
    using routing_rule_table [OF assms(1), of m2] m2(1) by simp
  ultimately show ?thesis using m1 m2 by simp
qed

text \<open>The 26-point rule on two arrays of capacity 30 with different contents.\<close>

theorem rule_point_count_witness:
  "(26, ld0026) \<in> set rule_table \<and> room 0 26 (fresh 30) \<and>
   room 0 26 ((fresh 30)\<lparr>wbuf := replicate 30 9\<rparr>) \<and>
   (\<exists>m1' m2'.
      ld0026 (fresh 30) = Inr (26, m1') \<and> leb_order_routing (int 26) (fresh 30) = Inr (26, m1') \<and>
      ld0026 ((fresh 30)\<lparr>wbuf := replicate 30 9\<rparr>) = Inr (26, m2') \<and>
      leb_order_routing (int 26) ((fresh 30)\<lparr>wbuf := replicate 30 9\<rparr>) = Inr (26, m2') \<and>
      rows 0 26 m1' = rows 0 26 m2' \<and> stderr m1' = stderr (fresh 30))"
proof -
  have h: "(26, ld0026) \<in> set rule_table" "room 0 26 (fresh 30)"
    "room 0 26 ((fresh 30)\<lparr>wbuf := replicate 30 9\<rparr>)"
    by (simp_all add: rule_table_def room_def fresh_def)
  show ?thesis using h rule_point_count [OF h] by blast
qed




text \<open>
  Claim C3. With class 1 and room for six rows at the offset, \<open>gen_oh\<close> returns 6 and
  the six rows are the signed unit axis points, each with weight \<open>v\<close>; the arguments
  \<open>a\<close> and \<open>b\<close> do not occur in them.
\<close>

theorem gen_oh_code1:
  assumes "room off 6 m"
  shows "\<exists>m'. gen_oh 1 a b v off m = Inr (6, m') \<and>
           rows off 6 m' = [(1, 0, 0, v), (- 1, 0, 0, v), (0, 1, 0, v),
                             (0, - 1, 0, v), (0, 0, 1, v), (0, 0, - 1, v)]"
proof -
  have r: "room off (length (code1_points 1 v)) m" using assms by simp
  have "gen_oh 1 a b v off m = Inr (6, put_points off (code1_points 1 v) m)"
    using assms by (simp add: gen_oh_def store_def)
  moreover have "rows off 6 (put_points off (code1_points 1 v) m) = code1_points 1 v"
    using rows_put_points [OF r] by simp
  ultimately show ?thesis by (simp add: code1_points_def)
qed

theorem gen_oh_code1_witness:
  "room 2 6 (fresh 8) \<and>
   (\<exists>m'. gen_oh 1 0.3 0.7 5 2 (fresh 8) = Inr (6, m') \<and>
      rows 2 6 m' = [(1, 0, 0, 5), (- 1, 0, 0, 5), (0, 1, 0, 5),
                     (0, - 1, 0, 5), (0, 0, 1, 5), (0, 0, - 1, 5)])"
proof -
  have h: "room 2 6 (fresh 8)" by simp
  show ?thesis using h gen_oh_code1 [OF h, of "0.3" "0.7" 5] by simp
qed



text \<open>
  Claim C5. On arrays of capacity at least 6, \<open>ld0006\<close> returns 6 and leaves exactly
  the six signed unit axis points, each with the weight \<open>0.1666666666666667\<close>, which
  is \<open>1/6\<close> to sixteen places.
\<close>

theorem ld0006_points:
  assumes "room 0 6 m"
  shows "\<exists>m'. ld0006 m = Inr (6, m') \<and>
           rows 0 6 m' = [(1, 0, 0, 0.1666666666666667), (- 1, 0, 0, 0.1666666666666667),
                          (0, 1, 0, 0.1666666666666667), (0, - 1, 0, 0.1666666666666667),
                          (0, 0, 1, 0.1666666666666667), (0, 0, - 1, 0.1666666666666667)] \<and>
           \<bar>0.1666666666666667 - 1 / 6 :: real\<bar> < 1 / 10 ^ 16"
proof -
  let ?ps = "code1_points 1 0.1666666666666667"
  have r: "room 0 (length ?ps) m" using assms by simp
  have "ld0006 m = Inr (6, put_points 0 ?ps m)"
    using ld_routine_ok [of ld0006_body m] assms
    by (simp add: ld0006_def ld0006_count ld0006_trace)
  moreover have "rows 0 6 (put_points 0 ?ps m) = ?ps"
    using rows_put_points [OF r] by simp
  ultimately show ?thesis by (simp add: code1_points_def)
qed

theorem ld0006_points_witness:
  "room 0 6 (fresh 6) \<and>
   (\<exists>m'. ld0006 (fresh 6) = Inr (6, m') \<and>
      rows 0 6 m' = [(1, 0, 0, 0.1666666666666667), (- 1, 0, 0, 0.1666666666666667),
                     (0, 1, 0, 0.1666666666666667), (0, - 1, 0, 0.1666666666666667),
                     (0, 0, 1, 0.1666666666666667), (0, 0, - 1, 0.1666666666666667)] \<and>
      \<bar>0.1666666666666667 - 1 / 6 :: real\<bar> < 1 / 10 ^ 16)"
proof -
  have h: "room 0 6 (fresh 6)" by simp
  show ?thesis using h ld0006_points [OF h] by blast
qed

text \<open>
  Claim C6 says that an illegal class makes \<open>gen_oh\<close> fail rather than return a
  count. The last branch prints the message and then returns (its \<^verbatim>\<open>exit(1)\<close> is
  commented out): class 7 returns normally, with the value 1 where a count of at least
  6 is expected.
\<close>

theorem gen_oh_illegal_counterexample:
  "gen_oh 7 0 0 1 0 (fresh 48) = Inr (1, (fresh 48)\<lparr>stderr := gen_oh_msg\<rparr>)"
  by (simp add: gen_oh_def fresh_def)

text \<open>
  Claim C6, amended. For every class outside \<open>1 .. 6\<close>, \<open>gen_oh\<close> appends its
  fatal-error message to the error stream, leaves the four arrays as they were, and
  returns to its caller instead of stopping the program.
\<close>

theorem gen_oh_illegal_reports:
  assumes "code < 1 \<or> 6 < code"
  shows "\<exists>k m'. gen_oh code a b v off m = Inr (k, m') \<and>
           stderr m' = stderr m @ gen_oh_msg \<and>
           xbuf m' = xbuf m \<and> ybuf m' = ybuf m \<and> zbuf m' = zbuf m \<and> wbuf m' = wbuf m"
  using assms by (auto simp: gen_oh_def)

theorem gen_oh_illegal_reports_witness:
  "((0::int) < 1 \<or> (6::int) < 0) \<and>
   (\<exists>k m'. gen_oh 0 0 0 1 3 (fresh 2) = Inr (k, m') \<and>
      stderr m' = stderr (fresh 2) @ gen_oh_msg \<and>
      xbuf m' = xbuf (fresh 2) \<and> ybuf m' = ybuf (fresh 2) \<and>
      zbuf m' = zbuf (fresh 2) \<and> wbuf m' = wbuf (fresh 2))"
proof -
  have h: "(0::int) < 1 \<or> (6::int) < 0" by simp
  show ?thesis using h gen_oh_illegal_reports [OF h, of 0 0 1 3 "fresh 2"] by blast
qed

text \<open>
  Claim C7. For every order outside the supported list, \<open>leb_order_routing\<close> reports
  the unexpected order on the error stream, returns the count 0 and leaves the four
  arrays as they were.
\<close>

theorem routing_unsupported:
  assumes "order \<notin> set supported_orders"
  shows "leb_order_routing order m = Inr (0, m\<lparr>stderr := stderr m @ leb_msg\<rparr>)"
  using assms by (simp add: supported_orders_def leb_order_routing_def)

theorem routing_unsupported_witness:
  "7 \<notin> set supported_orders \<and>
   leb_order_routing 7 (fresh 6) = Inr (0, (fresh 6)\<lparr>stderr := leb_msg\<rparr>)"
proof -
  have h: "7 \<notin> set supported_orders" by (simp add: supported_orders_def)
  show ?thesis using h routing_unsupported [OF h, of "fresh 6"] by (simp add: fresh_def)
qed

text \<open>
  Claim C8. A call of \<open>gen_oh\<close> with a legal class and room for its rows at the offset
  returns the count \<open>k\<close> of its class, keeps the capacities, the error stream and
  every entry outside the indices \<open>[off, off + k)\<close> of the four arrays, and the rows it
  leaves inside that range do not depend on what the arrays held before the call.
\<close>

theorem gen_oh_frame:
  assumes "1 \<le> code" "code \<le> 6"
    and "room off (orbit_size code) m1" "room off (orbit_size code) m2"
  shows "\<exists>m1' m2'.
           gen_oh code a b v off m1 = Inr (orbit_size code, m1') \<and>
           gen_oh code a b v off m2 = Inr (orbit_size code, m2') \<and>
           capacities m1' = capacities m1 \<and>
           outside off (orbit_size code) m1' = outside off (orbit_size code) m1 \<and>
           stderr m1' = stderr m1 \<and>
           rows off (orbit_size code) m1' = rows off (orbit_size code) m2'"
proof -
  let ?ps = "orbit code a b v"
  have len: "length ?ps = orbit_size code" using assms(1,2) by (rule length_orbit)
  have r1: "room off (length ?ps) m1" and r2: "room off (length ?ps) m2"
    using assms(3,4) by (simp_all only: len)
  have "gen_oh code a b v off m1 = Inr (orbit_size code, put_points off ?ps m1)"
    using assms(1,2,3) by (rule gen_oh_ok)
  moreover have "gen_oh code a b v off m2 = Inr (orbit_size code, put_points off ?ps m2)"
    using assms(1,2,4) by (rule gen_oh_ok)
  moreover have "outside off (orbit_size code) (put_points off ?ps m1) = outside off (orbit_size code) m1"
    using outside_put_points [OF r1] by (simp only: len)
  moreover have "rows off (orbit_size code) (put_points off ?ps m1)
               = rows off (orbit_size code) (put_points off ?ps m2)"
    using rows_put_points [OF r1] rows_put_points [OF r2] by (simp only: len)
  ultimately show ?thesis by simp
qed

theorem gen_oh_frame_witness:
  "(1::int) \<le> 3 \<and> (3::int) \<le> 6 \<and> room 2 (orbit_size 3) (fresh 10) \<and>
   room 2 (orbit_size 3) ((fresh 10)\<lparr>xbuf := replicate 10 7\<rparr>) \<and>
   (\<exists>m1' m2'.
      gen_oh 3 0 0 1 2 (fresh 10) = Inr (orbit_size 3, m1') \<and>
      gen_oh 3 0 0 1 2 ((fresh 10)\<lparr>xbuf := replicate 10 7\<rparr>) = Inr (orbit_size 3, m2') \<and>
      capacities m1' = capacities (fresh 10) \<and>
      outside 2 (orbit_size 3) m1' = outside 2 (orbit_size 3) (fresh 10) \<and>
      stderr m1' = stderr (fresh 10) \<and>
      rows 2 (orbit_size 3) m1' = rows 2 (orbit_size 3) m2')"
proof -
  have h: "(1::int) \<le> 3" "(3::int) \<le> 6" "room 2 (orbit_size 3) (fresh 10)"
    "room 2 (orbit_size 3) ((fresh 10)\<lparr>xbuf := replicate 10 7\<rparr>)"
    by (simp_all add: orbit_size_def room_def fresh_def)
  show ?thesis using h gen_oh_frame [OF h, of 0 0 1] by blast
qed

text \<open>
  Claim C9. For the classes 1, 2 and 3 the result of \<open>gen_oh\<close> is the same for all
  \<open>a\<close> and \<open>b\<close>: the rows it stores are built from the constants 1, \<open>\<surd>0.5\<close> and
  \<open>\<surd>(1/3)\<close> and the weight alone, and the counts are 6, 12 and 8.
\<close>

theorem gen_oh_ignores_ab:
  assumes "code = 1 \<or> code = 2 \<or> code = 3"
  shows "gen_oh code a b v off m = gen_oh code a' b' v off m \<and>
         gen_oh code a b v off m =
           store off (if code = 1 then code1_points 1 v
                      else if code = 2 then code2_points (sqrt 0.5) v
                      else code3_points (sqrt (1 / 3)) v)
                     (if code = 1 then 6 else if code = 2 then 12 else 8) m"
  using assms by (auto simp: gen_oh_def)

theorem gen_oh_ignores_ab_witness:
  "((2::int) = 1 \<or> (2::int) = 2 \<or> (2::int) = 3) \<and>
   gen_oh 2 0.1 0.2 1 0 (fresh 12) = gen_oh 2 0.9 0.8 1 0 (fresh 12) \<and>
   gen_oh 2 0.1 0.2 1 0 (fresh 12) = Inr (12, put_points 0 (code2_points (sqrt 0.5) 1) (fresh 12))"
proof -
  have h: "(2::int) = 1 \<or> (2::int) = 2 \<or> (2::int) = 3" by simp
  note e = gen_oh_ignores_ab [OF h, of "0.1" "0.2" 1 0 "fresh 12" "0.9" "0.8"]
  have s: "store 0 (if (2::int) = 1 then code1_points 1 1
                    else if (2::int) = 2 then code2_points (sqrt 0.5) 1
                    else code3_points (sqrt (1 / 3)) 1)
                   (if (2::int) = 1 then 6 else if (2::int) = 2 then 12 else 8) (fresh 12)
           = Inr (12, put_points 0 (code2_points (sqrt 0.5) 1) (fresh 12))"
    by (simp add: store_def)
  note e3 = trans [OF conjunct2 [OF e] s]
  from h conjunct1 [OF e] e3 show ?thesis by blast
qed

text \<open>
  Claim C10. For every class outside \<open>1 .. 6\<close>, \<open>gen_oh\<close> stores nothing in the four
  arrays (only the message goes to the error stream) and returns 1; the calling
  statement \<^verbatim>\<open>n = n + gen_oh(...)\<close> then advances \<open>n\<close> by one.
\<close>

theorem gen_oh_illegal_returns_1:
  assumes "code < 1 \<or> 6 < code"
  shows "gen_oh code a b v off m = Inr (1, m\<lparr>stderr := stderr m @ gen_oh_msg\<rparr>) \<and>
         exec (Call_gen_oh code) l m
           = Inr (l\<lparr>var_n := var_n l + 1\<rparr>, m\<lparr>stderr := stderr m @ gen_oh_msg\<rparr>)"
  using assms by (auto simp: gen_oh_def)

theorem gen_oh_illegal_returns_1_witness:
  "((7::int) < 1 \<or> (6::int) < 7) \<and>
   gen_oh 7 0 0 1 0 (fresh 48) = Inr (1, (fresh 48)\<lparr>stderr := gen_oh_msg\<rparr>) \<and>
   exec (Call_gen_oh 7) \<lparr>var_a = 0, var_b = 0, var_v = 1, var_n = 0\<rparr> (fresh 48)
     = Inr (\<lparr>var_a = 0, var_b = 0, var_v = 1, var_n = 1\<rparr>, (fresh 48)\<lparr>stderr := gen_oh_msg\<rparr>)"
proof -
  have h: "(7::int) < 1 \<or> (6::int) < 7" by simp
  show ?thesis
    using gen_oh_illegal_returns_1 [OF h, of 0 0 1 0 "fresh 48" "\<lparr>var_a = 0, var_b = 0, var_v = 1, var_n = 0\<rparr>"]
    by (simp add: fresh_def)
qed

end
